theory Spec2Isabelle
  imports Main "HOL-Library.Word" "HOL-Library.AList"
begin

unbundle bit_operations_syntax

section \<open>CNI result normalisation (cniserver: updateResultIfaceConfig)\<close>

subsection \<open>Addresses (Go \<open>net\<close> and the plugin library's \<open>ip\<close>)\<close>

text \<open>
  A \<open>net.IP\<close> and a \<open>net.IPMask\<close> are byte slices: four bytes for IPv4, sixteen for IPv6
  or for an IPv4 address in its IPv6 form (ten zero bytes, two bytes \<open>0xff\<close>, the four
  bytes). The functions below read only the length and the bytes of a slice, so a nil slice
  is the empty list; where the code compares a slice with nil (the gateway of an
  \<open>IPConfig\<close>) the field is optional.
\<close>

type_synonym byte = "8 word"
type_synonym IP = "byte list"
type_synonym IPMask = "byte list"

record IPNet =
  ipnet_IP :: IP
  ipnet_Mask :: IPMask

definition IPv4len :: nat where
  "IPv4len = 4"

definition IPv6len :: nat where
  "IPv6len = 16"

definition v4InV6Prefix :: "byte list" where
  "v4InV6Prefix = [0, 0, 0, 0, 0, 0, 0, 0, 0, 0, 0xff, 0xff]"

definition isZeros :: "byte list \<Rightarrow> bool" where
  "isZeros p = list_all (\<lambda>b. b = 0) p"

definition allFF :: "byte list \<Rightarrow> bool" where
  "allFF b = list_all (\<lambda>c. c = 0xff) b"

text \<open>\<open>net.IP.To4\<close>: the four-byte form of an IPv4 address, nil (\<open>None\<close>) if it has none.\<close>

definition To4 :: "IP \<Rightarrow> IP option" where
  "To4 ip =
     (if length ip = IPv4len then Some ip
      else if length ip = IPv6len \<and> isZeros (take 10 ip) \<and> ip ! 10 = 0xff \<and> ip ! 11 = 0xff
      then Some (take 4 (drop 12 ip))
      else None)"

text \<open>\<open>net.IP.To16\<close>: the sixteen-byte form, nil (\<open>None\<close>) for another length.\<close>

definition To16 :: "IP \<Rightarrow> IP option" where
  "To16 ip =
     (if length ip = IPv4len then Some (v4InV6Prefix @ ip)
      else if length ip = IPv6len then Some ip
      else None)"

text \<open>
  \<open>net.IP.Mask\<close>: a sixteen-byte mask of an IPv4 address is cut to its last four bytes when
  its first twelve are all \<open>0xff\<close>, a sixteen-byte IPv4 address under a four-byte mask is cut
  to its four bytes, and the result is the bytewise conjunction, or nil when the lengths
  still differ.
\<close>

definition IP_Mask :: "IP \<Rightarrow> IPMask \<Rightarrow> IP" where
  "IP_Mask ip msk =
     (let mask1 = (if length msk = IPv6len \<and> length ip = IPv4len \<and> allFF (take 12 msk)
                   then drop 12 msk else msk);
          ip1 = (if length mask1 = IPv4len \<and> length ip = IPv6len \<and> take 12 ip = v4InV6Prefix
                 then drop 12 ip else ip)
      in if length ip1 \<noteq> length mask1 then []
         else map2 (\<lambda>a b. a AND b) ip1 mask1)"

text \<open>
  \<open>big.Int.SetBytes\<close> reads bytes as a big-endian unsigned integer and \<open>big.Int.Bytes\<close>
  writes the big-endian bytes of one, without leading zero bytes (none at all for 0). The
  integers are unbounded, hence \<open>nat\<close>.
\<close>

definition SetBytes :: "byte list \<Rightarrow> nat" where
  "SetBytes buf = foldl (\<lambda>n b. n * 256 + unat b) 0 buf"

function Bytes :: "nat \<Rightarrow> byte list" where
  "Bytes n = (if n = 0 then [] else Bytes (n div 256) @ [of_nat (n mod 256)])"
  by pat_completeness auto

termination
  by (relation "measure id") auto

declare Bytes.simps [simp del]

text \<open>
  \<open>ip.NextIP\<close> of the plugin library: \<open>ipToInt\<close> reads the four-byte form of the address
  if it has one and its sixteen-byte form otherwise, \<open>intToIP\<close> is the bytes of the
  integer, and \<open>NextIP\<close> adds one in between.
\<close>

definition ipToInt :: "IP \<Rightarrow> nat" where
  "ipToInt ip =
     (case To4 ip of
        Some v \<Rightarrow> SetBytes v
      | None \<Rightarrow> SetBytes (case To16 ip of Some v \<Rightarrow> v | None \<Rightarrow> []))"

definition intToIP :: "nat \<Rightarrow> IP" where
  "intToIP i = Bytes i"

definition NextIP :: "IP \<Rightarrow> IP" where
  "NextIP ip = intToIP (ipToInt ip + 1)"

text \<open>
  \<open>networkNumberAndMask\<close> of \<open>net\<close>: the network number in its four-byte form if it has
  one, else its sixteen bytes, and the mask cut to the same length; nil, nil (\<open>None\<close>) when
  the lengths do not fit.
\<close>

definition networkNumberAndMask :: "IPNet \<Rightarrow> (IP \<times> IPMask) option" where
  "networkNumberAndMask n =
     (case (case To4 (ipnet_IP n) of
              Some ip4 \<Rightarrow> Some ip4
            | None \<Rightarrow> if length (ipnet_IP n) \<noteq> IPv6len then None else Some (ipnet_IP n)) of
        None \<Rightarrow> None
      | Some ip \<Rightarrow>
          (let m = ipnet_Mask n
           in if length m = IPv4len
              then (if length ip \<noteq> IPv4len then None else Some (ip, m))
              else if length m = IPv6len
              then (if length ip = IPv4len then Some (ip, drop 12 m) else Some (ip, m))
              else None))"

text \<open>
  \<open>simpleMaskLength\<close> of \<open>net\<close>: the number of leading one bits of a mask that is ones
  followed by zeros, and -1 (\<open>None\<close>) for any other mask. \<open>leadingOnes\<close> is its inner loop
  \<open>for v&0x80 != 0 { n++; v <<= 1 }\<close> on the first byte that is not \<open>0xff\<close>.
\<close>

function leadingOnes :: "byte \<Rightarrow> nat \<Rightarrow> byte \<times> nat" where
  "leadingOnes v n = (if v AND 0x80 \<noteq> 0 then leadingOnes (push_bit 1 v) (n + 1) else (v, n))"
  by pat_completeness auto

termination
proof (relation "measure (\<lambda>(v, n). unat v)")
  show "wf (measure (\<lambda>(v :: byte, n :: nat). unat v))"
    by simp
next
  fix v :: byte and n :: nat
  assume a: "v AND 0x80 \<noteq> 0"
  have "(128 :: byte) = 2 ^ 7"
    by simp
  with a have "bit v 7"
    by (simp only: and_exp_eq_0_iff_not_bit) simp
  then have "bit (unat v) 7"
    by (simp add: bit_unsigned_iff)
  then have "odd (unat v div 2 ^ 7)"
    by (simp add: bit_iff_odd)
  then have l: "128 \<le> unat v"
    by (cases "128 \<le> unat v") simp_all
  have u: "unat v < 256"
    using unsigned_less [of v] by simp
  have s: "unat (push_bit 1 v) = (2 * unat v) mod 256"
    by (simp add: push_bit_eq_mult unat_word_ariths mult.commute)
  from l u have "unat (push_bit 1 v) < unat v"
    unfolding s by (simp add: mod_if) arith
  then show "((push_bit 1 v, n + 1), (v, n)) \<in> measure (\<lambda>(v, n). unat v)"
    by simp
qed

declare leadingOnes.simps [simp del]

fun simpleMaskLength_from :: "byte list \<Rightarrow> nat \<Rightarrow> nat option" where
  "simpleMaskLength_from [] n = Some n"
| "simpleMaskLength_from (v # rest) n =
     (if v = 0xff then simpleMaskLength_from rest (n + 8)
      else (let (v1, n1) = leadingOnes v n
            in if v1 \<noteq> 0 then None
               else if list_ex (\<lambda>b. b \<noteq> 0) rest then None
               else Some n1))"

definition simpleMaskLength :: "IPMask \<Rightarrow> nat option" where
  "simpleMaskLength m = simpleMaskLength_from m 0"

text \<open>
  The test \<open>route.Dst.String() == defaultRouteDst\<close>, where \<open>defaultRouteDst\<close> is the
  text \<open>0.0.0.0/0\<close>. \<open>net.IPNet.String\<close> writes \<open><nil>\<close> when \<open>networkNumberAndMask\<close> has
  no result. Otherwise it writes the network number, a slash and the mask: the network
  number in dotted decimal when it has four bytes and in the colon notation of IPv6 when it
  has sixteen, the mask as its length in decimal when \<open>simpleMaskLength\<close> has one and as
  its bytes in hexadecimal, two digits for each, when it has none. So the text is
  \<open>0.0.0.0/0\<close> exactly for the four-byte network number 0.0.0.0 with the mask length 0;
  the IPv6 destination \<open>::/0\<close> is written \<open>::/0\<close>.
\<close>

definition isDefaultRouteDst :: "IPNet \<Rightarrow> bool" where
  "isDefaultRouteDst n =
     (case networkNumberAndMask n of
        None \<Rightarrow> False
      | Some (nn, m) \<Rightarrow> nn = [0, 0, 0, 0] \<and> simpleMaskLength m = Some 0)"

text \<open>
  The network of \<open>net.ParseCIDR("0.0.0.0/0")\<close>: four zero bytes under a four-byte zero
  mask.
\<close>

definition defaultRouteDstNet :: IPNet where
  "defaultRouteDstNet = \<lparr>ipnet_IP = [0, 0, 0, 0], ipnet_Mask = [0, 0, 0, 0]\<rparr>"

subsection \<open>The result of the IPAM driver\<close>

text \<open>
  \<open>current.IPConfig\<close>; \<open>Interface\<close> is a pointer to an index into the result's interfaces
  and \<open>Gateway\<close> an address that the function compares with nil.
\<close>

record IPConfig =
  ipc_Version :: string
  ipc_Interface :: "nat option"
  ipc_Address :: IPNet
  ipc_Gateway :: "IP option"

text \<open>\<open>types.Route\<close>.\<close>

record Route =
  route_Dst :: IPNet
  route_GW :: IP

text \<open>\<open>current.Interface\<close> and \<open>types.DNS\<close>, as far as the server reads them.\<close>

record Interface =
  intf_Name :: string
  intf_Mac :: string
  intf_Sandbox :: string

record DNS =
  dns_Nameservers :: "string list"
  dns_Domain :: string
  dns_Search :: "string list"
  dns_Options :: "string list"

text \<open>
  \<open>current.Result\<close>. \<open>Routes\<close> is a slice that may be nil, and the function below tells nil
  from empty, so it is an optional list.
\<close>

record Result =
  res_CNIVersion :: string
  res_Interfaces :: "Interface list"
  res_IPs :: "IPConfig list"
  res_Routes :: "Route list option"
  res_DNS :: DNS

subsection \<open>\<open>updateResultIfaceConfig\<close>\<close>

text \<open>
  The body of the first loop of \<open>updateResultIfaceConfig\<close>, for one \<open>*IPConfig\<close>: the
  elements of \<open>result.IPs\<close> are pointers, so the assignments change the result.
\<close>

definition updateIPConfig :: "IPConfig \<Rightarrow> IPConfig" where
  "updateIPConfig ipc =
     (let ipc1 = ipc\<lparr>ipc_Interface := Some 1\<rparr>
      in case ipc_Gateway ipc1 of
           None \<Rightarrow>
             (let ipn = ipc_Address ipc1;
                  netID = IP_Mask (ipnet_IP ipn) (ipnet_Mask ipn)
              in ipc1\<lparr>ipc_Gateway := Some (NextIP netID)\<rparr>)
         | Some g \<Rightarrow> ipc1)"

fun updateIPConfigs :: "IPConfig list \<Rightarrow> IPConfig list" where
  "updateIPConfigs [] = []"
| "updateIPConfigs (ipc # ipcs) = updateIPConfig ipc # updateIPConfigs ipcs"

text \<open>The second loop: the search for a default route stops at the first one found.\<close>

fun foundDefaultRoute :: "Route list \<Rightarrow> bool" where
  "foundDefaultRoute [] = False"
| "foundDefaultRoute (route # routes) =
     (if isDefaultRouteDst (route_Dst route) then True else foundDefaultRoute routes)"

definition updateResultIfaceConfig :: "Result \<Rightarrow> IP \<Rightarrow> Result" where
  "updateResultIfaceConfig result defaultV4Gateway =
     (let result1 = result\<lparr>res_IPs := updateIPConfigs (res_IPs result)\<rparr>;
          (found, routes) =
             (case res_Routes result1 of
                Some rs \<Rightarrow> (foundDefaultRoute rs, rs)
              | None \<Rightarrow> (False, []))
      in if \<not> found
         then result1\<lparr>res_Routes :=
                Some (routes @ [\<lparr>route_Dst = defaultRouteDstNet, route_GW = defaultV4Gateway\<rparr>])\<rparr>
         else result1\<lparr>res_Routes := Some routes\<rparr>)"


section \<open>OVSDB client (ovsconfig: GetOFPort, GetPortData)\<close>

text \<open>
  A value decoded from OVSDB's JSON (Go \<open>interface{}\<close>): a string, a number (Go decodes
  every JSON number as \<open>float64\<close>; the columns read here hold integers), an array
  (\<open>[]interface{}\<close>) or an object (\<open>map[string]interface{}\<close>).
\<close>

datatype jvalue =
    JString string
  | JNumber int
  | JArray "jvalue list"
  | JObject "(string \<times> jvalue) list"

text \<open>
  A Go function either returns or panics: an index out of range and a failed type assertion
  \<open>x.(T)\<close> are run-time panics, which the client does not recover.
\<close>

datatype 'a go = Returns 'a | Panics

text \<open>The condition triples and the two operations of \<open>dbtransaction\<close> these functions use.\<close>

datatype condition = Cond string string jvalue

record Select =
  sel_Table :: string
  sel_Columns :: "string list"
  sel_Where :: "condition list"

record Wait =
  wait_Table :: string
  wait_Timeout :: nat
  wait_Columns :: "string list"
  wait_Until :: string
  wait_Rows :: "jvalue list"
  wait_Where :: "condition list"

datatype operation = OpWait Wait | OpSelect Select

text \<open>The result of one operation (\<open>res[i]\<close>): only \<open>Rows\<close> is read here.\<close>

record OpResult =
  Rows :: "jvalue list"

text \<open>
  \<open>tx.Commit()\<close> returns \<open>(res, err, temporary)\<close>. It belongs to the OVSDB library and talks
  to the database server, so it is a parameter: \<open>Inl (err, temporary)\<close> when \<open>err\<close> is not nil,
  \<open>Inr res\<close> otherwise.
\<close>

type_synonym commit = "operation list \<Rightarrow> (string \<times> bool) + OpResult list"

text \<open>\<open>ovsconfig.Error\<close> as built by \<open>NewTransactionError(err, temporary)\<close>.\<close>

record TransactionError =
  err_Msg :: string
  err_Temporary :: bool

definition NewTransactionError :: "string \<Rightarrow> bool \<Rightarrow> TransactionError" where
  "NewTransactionError err temporary = \<lparr>err_Msg = err, err_Temporary = temporary\<rparr>"

record OVSPortData =
  pd_UUID :: string
  pd_Name :: string
  pd_ExternalIDs :: "string \<rightharpoonup> string"
  pd_IFName :: string
  pd_OFPort :: "32 word"

text \<open>\<open>helpers.MakeOVSDBSet\<close> of the empty map: the empty OVSDB set.\<close>

definition emptyOVSDBSet :: jvalue where
  "emptyOVSDBSet = JArray [JString ''set'', JArray []]"

text \<open>Indexing a slice, and a map read followed by a type assertion.\<close>

fun index :: "'a list \<Rightarrow> nat \<Rightarrow> 'a go" where
  "index [] i = Panics"
| "index (x # xs) 0 = Returns x"
| "index (x # xs) (Suc i) = index xs i"

definition go_bind :: "'a go \<Rightarrow> ('a \<Rightarrow> 'b go) \<Rightarrow> 'b go" where
  "go_bind m f = (case m of Panics \<Rightarrow> Panics | Returns x \<Rightarrow> f x)"

fun asObject :: "jvalue \<Rightarrow> (string \<times> jvalue) list go" where
  "asObject (JObject fs) = Returns fs"
| "asObject _ = Panics"

fun asArray :: "jvalue option \<Rightarrow> jvalue list go" where
  "asArray (Some (JArray vs)) = Returns vs"
| "asArray _ = Panics"

fun asString :: "jvalue option \<Rightarrow> string go" where
  "asString (Some (JString s)) = Returns s"
| "asString _ = Panics"

fun asNumber :: "jvalue option \<Rightarrow> int go" where
  "asNumber (Some (JNumber n)) = Returns n"
| "asNumber _ = Panics"

text \<open>The two operations \<open>GetOFPort\<close> puts into its transaction, in this order.\<close>

definition GetOFPort_wait :: "string \<Rightarrow> Wait" where
  "GetOFPort_wait ifName =
     \<lparr>wait_Table = ''Interface'',
      wait_Timeout = 1000,
      wait_Columns = [''ofport''],
      wait_Until = ''!='',
      wait_Rows = [JObject [(''ofport'', emptyOVSDBSet)]],
      wait_Where = [Cond ''name'' ''=='' (JString ifName)]\<rparr>"

definition GetOFPort_select :: "string \<Rightarrow> Select" where
  "GetOFPort_select ifName =
     \<lparr>sel_Table = ''Interface'',
      sel_Columns = [''ofport''],
      sel_Where = [Cond ''name'' ''=='' (JString ifName)]\<rparr>"

text \<open>
  \<open>GetOFPort\<close>: one transaction, one commit. On a commit error it returns 0 and the error;
  otherwise \<open>int32(res[1].Rows[0].(map[string]interface{})["ofport"].(float64))\<close>.
\<close>

definition GetOFPort :: "commit \<Rightarrow> string \<Rightarrow> (32 word \<times> TransactionError option) go" where
  "GetOFPort commit ifName =
     (case commit [OpWait (GetOFPort_wait ifName), OpSelect (GetOFPort_select ifName)] of
        Inl (err, temporary) \<Rightarrow> Returns (0, Some (NewTransactionError err temporary))
      | Inr res \<Rightarrow>
          go_bind (index res 1) (\<lambda>r1.
          go_bind (index (Rows r1) 0) (\<lambda>row.
          go_bind (asObject row) (\<lambda>flds.
          go_bind (asNumber (map_of flds ''ofport'')) (\<lambda>n.
          Returns (word_of_int n, None))))))"

text \<open>\<open>buildMapFromOVSDBMap\<close>: an OVSDB map \<open>["map", [[k, v], ...]]\<close> as a Go map.\<close>

fun buildPairs :: "jvalue list \<Rightarrow> (string \<rightharpoonup> string) \<Rightarrow> (string \<rightharpoonup> string) go" where
  "buildPairs [] ret = Returns ret"
| "buildPairs (pair # pairs) ret =
     go_bind (asArray (Some pair)) (\<lambda>kv.
     go_bind (index kv 0) (\<lambda>k.
     go_bind (asString (Some k)) (\<lambda>key.
     go_bind (index kv 1) (\<lambda>v.
     go_bind (asString (Some v)) (\<lambda>val.
     buildPairs pairs (ret(key \<mapsto> val)))))))"

definition buildMapFromOVSDBMap :: "jvalue list \<Rightarrow> (string \<rightharpoonup> string) go" where
  "buildMapFromOVSDBMap data =
     go_bind (index data 0) (\<lambda>tag.
       if tag = JString ''map''
       then go_bind (index data 1) (\<lambda>d1.
            go_bind (asArray (Some d1)) (\<lambda>pairs. buildPairs pairs Map.empty))
       else Returns Map.empty)"

text \<open>
  \<open>buildPortDataCommon\<close>: name and external ids from the port row, the ofport from the
  interface row; an ofport that is not a number (not assigned yet) reads as 0.
\<close>

definition buildPortDataCommon ::
  "(string \<times> jvalue) list \<Rightarrow> (string \<times> jvalue) list \<Rightarrow> OVSPortData \<Rightarrow> OVSPortData go" where
  "buildPortDataCommon port intf portData =
     go_bind (asString (map_of port ''name'')) (\<lambda>name.
     go_bind (asArray (map_of port ''external_ids'')) (\<lambda>ext.
     go_bind (buildMapFromOVSDBMap ext) (\<lambda>ids.
     Returns (portData\<lparr>pd_Name := name, pd_ExternalIDs := ids,
                pd_OFPort := (case map_of intf ''ofport'' of
                                Some (JNumber ofPort) \<Rightarrow> word_of_int ofPort
                              | _ \<Rightarrow> 0)\<rparr>))))"

definition GetPortData_port_select :: "string \<Rightarrow> Select" where
  "GetPortData_port_select portUUID =
     \<lparr>sel_Table = ''Port'',
      sel_Columns = [''name'', ''external_ids'', ''interfaces''],
      sel_Where = [Cond ''_uuid'' ''=='' (JArray [JString ''uuid'', JString portUUID])]\<rparr>"

definition GetPortData_intf_select :: "string \<Rightarrow> Select" where
  "GetPortData_intf_select ifName =
     \<lparr>sel_Table = ''Interface'',
      sel_Columns = [''_uuid'', ''ofport''],
      sel_Where = [Cond ''name'' ''=='' (JString ifName)]\<rparr>"

text \<open>
  \<open>GetPortData\<close>. \<open>getIdList\<close> is the library's \<open>helpers.GetIdListFromOVSDBSet\<close>, a
  parameter like \<open>commit\<close>. The returned pair is (port data or nil, error or nil).
\<close>

definition GetPortData ::
  "commit \<Rightarrow> (jvalue list \<Rightarrow> string list) \<Rightarrow> string \<Rightarrow> string
     \<Rightarrow> (OVSPortData option \<times> TransactionError option) go" where
  "GetPortData commit getIdList portUUID ifName =
     (case commit [OpSelect (GetPortData_port_select portUUID),
                   OpSelect (GetPortData_intf_select ifName)] of
        Inl (err, temporary) \<Rightarrow> Returns (None, Some (NewTransactionError err temporary))
      | Inr res \<Rightarrow>
          go_bind (index res 0) (\<lambda>r0.
            if length (Rows r0) = 0 then Returns (None, None)
            else
          go_bind (index res 1) (\<lambda>r1.
            if length (Rows r1) = 0
            then Returns (None, Some (NewTransactionError ''Interface not exists'' False))
            else
          go_bind (index (Rows r0) 0) (\<lambda>row0.
          go_bind (asObject row0) (\<lambda>port.
          go_bind (index (Rows r1) 0) (\<lambda>row1.
          go_bind (asObject row1) (\<lambda>intf.
          go_bind (asArray (map_of intf ''_uuid'')) (\<lambda>u.
          go_bind (index u 1) (\<lambda>u1.
          go_bind (asString (Some u1)) (\<lambda>ifUUID.
          go_bind (asArray (map_of port ''interfaces'')) (\<lambda>ifs.
            if ifUUID \<notin> set (getIdList ifs)
            then Returns (None,
                   Some (NewTransactionError ''Interface is not attached to the port'' False))
            else
          go_bind (buildPortDataCommon port intf
                  \<lparr>pd_UUID = portUUID, pd_Name = [], pd_ExternalIDs = Map.empty,
                   pd_IFName = ifName, pd_OFPort = 0\<rparr>) (\<lambda>portData.
          Returns (Some portData, None)))))))))))))"

text \<open>
  Fixtures for the examples: a commit in which the \<open>wait\<close> operation times out, so that the
  transaction fails (OVSDB reports a timed-out wait as the error "timed out"), and commits
  answering \<open>GetPortData\<close> with given port and interface rows.
\<close>

definition timedOutCommit :: commit where
  "timedOutCommit tx = Inl (''timed out'', True)"

definition rowsCommit :: "jvalue list \<Rightarrow> jvalue list \<Rightarrow> commit" where
  "rowsCommit portRows intfRows tx = Inr [\<lparr>Rows = portRows\<rparr>, \<lparr>Rows = intfRows\<rparr>]"

text \<open>A reading of OVSDB's uuid sets, for the examples: \<open>["uuid", u]\<close> or a set of them.\<close>

fun uuidOf :: "jvalue \<Rightarrow> string list" where
  "uuidOf (JArray [JString t, JString u]) = (if t = ''uuid'' then [u] else [])"
| "uuidOf _ = []"

fun idListOfSet :: "jvalue list \<Rightarrow> string list" where
  "idListOfSet [JString t, JArray ids] = (if t = ''set'' then concat (map uuidOf ids) else [])"
| "idListOfSet [JString t, JString u] = (if t = ''uuid'' then [u] else [])"
| "idListOfSet _ = []"

definition examplePortRow :: jvalue where
  "examplePortRow =
     JObject [(''name'', JString ''p1''),
              (''external_ids'', JArray [JString ''map'', JArray []]),
              (''interfaces'', JArray [JString ''uuid'', JString ''if-1''])]"

definition exampleIntfRow :: jvalue where
  "exampleIntfRow =
     JObject [(''_uuid'', JArray [JString ''uuid'', JString ''if-1'']), (''ofport'', JNumber 1)]"

definition otherIntfRow :: jvalue where
  "otherIntfRow =
     JObject [(''_uuid'', JArray [JString ''uuid'', JString ''if-2'']), (''ofport'', JNumber 2)]"

section \<open>Container access arbitrator (cniserver: containerAccessArbitrator)\<close>

text \<open>
  The arbitrator is a mutex, a condition variable on it and the set \<open>busyContainerIDs\<close>.
  Both of its methods run with the mutex held, and \<open>cond.Wait\<close> gives the mutex up and parks
  the goroutine in one step, so the goroutines interleave at these atomic steps:
  \<^item> a goroutine calls \<open>lockContainer(c)\<close>, takes the mutex and runs the loop's test: with
    \<open>c\<close> not in the set it leaves the loop, inserts \<open>c\<close> and returns; otherwise it parks in
    \<open>cond.Wait\<close>;
  \<^item> a goroutine woken by a broadcast takes the mutex again and repeats the test;
  \<^item> a goroutine that is between \<open>lockContainer(c)\<close> and its deferred
    \<open>unlockContainer(c)\<close> calls the latter: \<open>c\<close> is deleted from the set and
    \<open>cond.Broadcast\<close> wakes every parked goroutine.
  The state records, besides the set, where each goroutine is.
\<close>

type_synonym goroutine = nat

datatype gstate =
    Outside
  | Parked string
  | Woken string
  | Holding string

record arbitrator =
  busyContainerIDs :: "string set"
  goroutines :: "goroutine \<Rightarrow> gstate"

definition newContainerAccessArbitrator :: arbitrator where
  "newContainerAccessArbitrator = \<lparr>busyContainerIDs = {}, goroutines = (\<lambda>g. Outside)\<rparr>"

datatype action =
    Lock goroutine string
  | Resume goroutine
  | Unlock goroutine

text \<open>
  What a run shows of one goroutine's handling of a container: its arrival at the arbitrator
  (the call of \<open>lockContainer\<close>), the return of \<open>lockContainer\<close>, and the call of
  \<open>unlockContainer\<close> that ends the operation.
\<close>

datatype event =
    Arrived goroutine string
  | Acquired goroutine string
  | Released goroutine string

text \<open>One pass through the loop of \<open>lockContainer\<close>, with the mutex held.\<close>

definition lockContainer_test :: "goroutine \<Rightarrow> string \<Rightarrow> arbitrator \<Rightarrow> arbitrator \<times> event list" where
  "lockContainer_test g containerID s =
     (if containerID \<in> busyContainerIDs s
      then (s\<lparr>goroutines := (goroutines s)(g := Parked containerID)\<rparr>, [])
      else (s\<lparr>busyContainerIDs := insert containerID (busyContainerIDs s),
              goroutines := (goroutines s)(g := Holding containerID)\<rparr>,
            [Acquired g containerID]))"

text \<open>\<open>cond.Broadcast\<close>: every parked goroutine is woken.\<close>

definition broadcast :: "gstate \<Rightarrow> gstate" where
  "broadcast st = (case st of Parked c \<Rightarrow> Woken c | _ \<Rightarrow> st)"

definition unlockContainer :: "goroutine \<Rightarrow> string \<Rightarrow> arbitrator \<Rightarrow> arbitrator \<times> event list" where
  "unlockContainer g containerID s =
     (s\<lparr>busyContainerIDs := busyContainerIDs s - {containerID},
        goroutines := (\<lambda>h. broadcast (((goroutines s)(g := Outside)) h))\<rparr>,
      [Released g containerID])"

text \<open>A step is \<open>None\<close> when the goroutine is not at a point where it can take it.\<close>

definition step :: "arbitrator \<Rightarrow> action \<Rightarrow> (arbitrator \<times> event list) option" where
  "step s a =
     (case a of
        Lock g c \<Rightarrow>
          (case goroutines s g of
             Outside \<Rightarrow>
               (let (s', evs) = lockContainer_test g c s in Some (s', Arrived g c # evs))
           | _ \<Rightarrow> None)
      | Resume g \<Rightarrow>
          (case goroutines s g of
             Woken c \<Rightarrow> Some (lockContainer_test g c s)
           | _ \<Rightarrow> None)
      | Unlock g \<Rightarrow>
          (case goroutines s g of
             Holding c \<Rightarrow> Some (unlockContainer g c s)
           | _ \<Rightarrow> None))"

fun run :: "arbitrator \<Rightarrow> action list \<Rightarrow> (arbitrator \<times> event list) option" where
  "run s [] = Some (s, [])"
| "run s (a # as) =
     (case step s a of
        None \<Rightarrow> None
      | Some (s1, evs1) \<Rightarrow>
          (case run s1 as of
             None \<Rightarrow> None
           | Some (s2, evs2) \<Rightarrow> Some (s2, evs1 @ evs2)))"

text \<open>
  The goroutines in arrival order, in completion order and in the order in which they took
  the container, for one container id.
\<close>

fun arrivals :: "string \<Rightarrow> event list \<Rightarrow> goroutine list" where
  "arrivals c [] = []"
| "arrivals c (Arrived g c' # evs) = (if c' = c then g # arrivals c evs else arrivals c evs)"
| "arrivals c (_ # evs) = arrivals c evs"

fun completions :: "string \<Rightarrow> event list \<Rightarrow> goroutine list" where
  "completions c [] = []"
| "completions c (Released g c' # evs) =
     (if c' = c then g # completions c evs else completions c evs)"
| "completions c (_ # evs) = completions c evs"

text \<open>
  The events of container \<open>c\<close> show one holder at a time when, read from a point where
  \<open>holder\<close> has it (or nobody, \<open>None\<close>), every acquisition finds it free and every release
  is by the goroutine that holds it.
\<close>

fun oneAtATime :: "string \<Rightarrow> goroutine option \<Rightarrow> event list \<Rightarrow> bool" where
  "oneAtATime c holder [] = True"
| "oneAtATime c holder (Acquired g c' # evs) =
     (if c' = c then holder = None \<and> oneAtATime c (Some g) evs else oneAtATime c holder evs)"
| "oneAtATime c holder (Released g c' # evs) =
     (if c' = c then holder = Some g \<and> oneAtATime c None evs else oneAtATime c holder evs)"
| "oneAtATime c holder (Arrived g c' # evs) = oneAtATime c holder evs"

text \<open>
  A run of three requests for the container \<open>c\<close>: goroutine 0 takes it, 1 and then 2 arrive
  and park, 0 releases it, and of the two woken goroutines 2 runs first.
\<close>

definition overtakingRun :: "action list" where
  "overtakingRun =
     [Lock 0 ''c'', Lock 1 ''c'', Lock 2 ''c'', Unlock 0, Resume 2, Resume 1,
      Unlock 2, Resume 1, Unlock 1]"

text \<open>Who holds container \<open>c\<close> in a state: the goroutine \<open>g\<close> (\<open>Some g\<close>) or nobody.\<close>

definition holderIs :: "arbitrator \<Rightarrow> string \<Rightarrow> goroutine option \<Rightarrow> bool" where
  "holderIs s c holder =
     (case holder of
        None \<Rightarrow> \<forall>g. goroutines s g \<noteq> Holding c
      | Some g \<Rightarrow> goroutines s g = Holding c)"

section \<open>Interface store (agent: InterfaceStore)\<close>

text \<open>
  The store's implementation is not among the source files: its test \<open>TestInitCache\<close>, its
  callers in the CNI server and the specification are. The definitions of this section follow
  the specification's description of the store (section 4.B) and the names the test and the
  callers use.
\<close>

text \<open>
  Modelled from the spec: the container interface record (section 3), with the field names
  the CNI server reads. The MAC and IP addresses are kept in the textual form in which the
  external ids hold them.
\<close>

record InterfaceConfig =
  ic_ID :: string
  ic_IfaceName :: string
  ic_IP :: string
  ic_MAC :: string
  ic_PodName :: string
  ic_PodNamespace :: string
  ic_NetNS :: string
  ic_PortUUID :: string
  ic_OFPort :: "32 word"

text \<open>
  Modelled from the spec: the keys of the port external ids (\<open>container-id\<close>, \<open>pod-name\<close>,
  \<open>pod-namespace\<close>, \<open>ip\<close>, \<open>mac\<close>), under the names of the constants the test uses.
\<close>

definition OVSExternalIDContainerID :: string where
  "OVSExternalIDContainerID = ''container-id''"

definition OVSExternalIDPodName :: string where
  "OVSExternalIDPodName = ''pod-name''"

definition OVSExternalIDPodNamespace :: string where
  "OVSExternalIDPodNamespace = ''pod-namespace''"

definition OVSExternalIDIP :: string where
  "OVSExternalIDIP = ''ip''"

definition OVSExternalIDMAC :: string where
  "OVSExternalIDMAC = ''mac''"

text \<open>
  Modelled from the spec: the store is a mapping from interface name to record. It is an
  association list with one pair per name; the indices by container id and by pod are
  searches of it.
\<close>

type_synonym InterfaceStore = "(string \<times> InterfaceConfig) list"

definition NewInterfaceStore :: InterfaceStore where
  "NewInterfaceStore = []"

definition AddInterface :: "InterfaceConfig \<Rightarrow> InterfaceStore \<Rightarrow> InterfaceStore" where
  "AddInterface cfg st = AList.update (ic_IfaceName cfg) cfg st"

definition DeleteInterface :: "string \<Rightarrow> InterfaceStore \<Rightarrow> InterfaceStore" where
  "DeleteInterface name st = AList.delete name st"

definition GetInterface :: "InterfaceStore \<Rightarrow> string \<Rightarrow> InterfaceConfig option" where
  "GetInterface st name = map_of st name"

definition GetContainerInterface ::
  "InterfaceStore \<Rightarrow> string \<Rightarrow> string \<Rightarrow> InterfaceConfig option" where
  "GetContainerInterface st podName podNamespace =
     map_option snd
       (find (\<lambda>(name, cfg). ic_PodName cfg = podName \<and> ic_PodNamespace cfg = podNamespace) st)"

definition GetInterfaceIDs :: "InterfaceStore \<Rightarrow> string list" where
  "GetInterfaceIDs st = map fst st"

definition Len :: "InterfaceStore \<Rightarrow> nat" where
  "Len st = length st"

text \<open>Reading a Go map of strings: a missing key reads as the empty string.\<close>

definition externalID :: "OVSPortData \<Rightarrow> string \<Rightarrow> string" where
  "externalID port key = (case pd_ExternalIDs port key of None \<Rightarrow> [] | Some v \<Rightarrow> v)"

text \<open>
  Modelled from the spec: a port row counts when its external ids contain a non-empty
  \<open>container-id\<close>; its record has pod identity, MAC and IP from the external ids and OFPort
  and UUID from the row, under the row's name (the test reads the record of port \<open>p1\<close> with
  \<open>GetInterface("p1")\<close> and finds \<open>IfaceName\<close> to be \<open>p1\<close>).
\<close>

definition hasContainerID :: "OVSPortData \<Rightarrow> bool" where
  "hasContainerID port \<longleftrightarrow> externalID port OVSExternalIDContainerID \<noteq> []"

definition interfaceOfPort :: "OVSPortData \<Rightarrow> InterfaceConfig" where
  "interfaceOfPort port =
     \<lparr>ic_ID = externalID port OVSExternalIDContainerID,
      ic_IfaceName = pd_Name port,
      ic_IP = externalID port OVSExternalIDIP,
      ic_MAC = externalID port OVSExternalIDMAC,
      ic_PodName = externalID port OVSExternalIDPodName,
      ic_PodNamespace = externalID port OVSExternalIDPodNamespace,
      ic_NetNS = [],
      ic_PortUUID = pd_UUID port,
      ic_OFPort = pd_OFPort port\<rparr>"

fun loadPorts :: "OVSPortData list \<Rightarrow> InterfaceStore \<Rightarrow> InterfaceStore" where
  "loadPorts [] st = st"
| "loadPorts (port # ports) st =
     loadPorts ports (if hasContainerID port then AddInterface (interfaceOfPort port) st else st)"

text \<open>
  Modelled from the spec: \<open>Initialize\<close> fetches the port list through the OVS client; on
  any error the store is emptied and the error is propagated; otherwise the store is
  emptied and the rows with the container-id marker are loaded. The first argument is what
  \<open>GetPortList()\<close> returned, a list and an error (the mock of the test returns both at
  once); the interface names of uplink and gateway are not used for container interfaces.
\<close>

definition Initialize ::
  "OVSPortData list \<times> TransactionError option \<Rightarrow> string \<Rightarrow> string \<Rightarrow> InterfaceStore
     \<Rightarrow> InterfaceStore \<times> TransactionError option" where
  "Initialize portList uplinkIfName gatewayIfName st =
     (case portList of
        (ovsPorts, Some err) \<Rightarrow> ([], Some err)
      | (ovsPorts, None) \<Rightarrow> (loadPorts ovsPorts [], None))"

text \<open>The two port rows of \<open>TestInitCache\<close> and those of the gateway port, without marker.\<close>

definition ovsPort1 :: OVSPortData where
  "ovsPort1 =
     \<lparr>pd_UUID = ''uuid-port-1'', pd_Name = ''p1'',
      pd_ExternalIDs = [''container-id'' \<mapsto> ''uuid1'', ''mac'' \<mapsto> ''11:22:33:44:55:66'',
                        ''ip'' \<mapsto> ''1.1.1.1'', ''pod-name'' \<mapsto> ''pod1'',
                        ''pod-namespace'' \<mapsto> ''test''],
      pd_IFName = ''p1'', pd_OFPort = 1\<rparr>"

definition ovsPort2 :: OVSPortData where
  "ovsPort2 =
     \<lparr>pd_UUID = ''uuid-port-2'', pd_Name = ''p2'',
      pd_ExternalIDs = [''container-id'' \<mapsto> ''uuid2'', ''mac'' \<mapsto> ''11:22:33:44:55:77'',
                        ''ip'' \<mapsto> ''1.1.1.2'', ''pod-name'' \<mapsto> ''pod2'',
                        ''pod-namespace'' \<mapsto> ''test''],
      pd_IFName = ''p2'', pd_OFPort = 2\<rparr>"

definition gatewayPort :: OVSPortData where
  "gatewayPort =
     \<lparr>pd_UUID = ''uuid-gw'', pd_Name = ''gw0'', pd_ExternalIDs = Map.empty,
      pd_IFName = ''gw0'', pd_OFPort = 3\<rparr>"

section \<open>CNI server (cniserver: CNIServer)\<close>

subsection \<open>Messages and configuration\<close>

text \<open>The error codes of the CNI RPC (\<open>cnipb.ErrorCode\<close>), as the server names them.\<close>

datatype ErrorCode =
    UNKNOWN
  | INCOMPATIBLE_CNI_VERSION
  | UNSUPPORTED_FIELD
  | UNKNOWN_CONTAINER
  | DECODING_FAILURE
  | INVALID_NETWORK_CONFIG
  | TRY_AGAIN_LATER
  | IPAM_FAILURE
  | CONFIG_INTERFACE_FAILURE
  | CHECK_INTERFACE_FAILURE

record CniError =
  cni_Code :: ErrorCode
  cni_Message :: string

record CniCmdResponse =
  resp_CniResult :: string
  resp_Error :: "CniError option"

record IPAMConfig =
  ipam_Type :: string
  ipam_Subnet :: string
  ipam_Gateway :: string

record NetworkConfig =
  nc_CNIVersion :: string
  nc_Name :: string
  nc_Type :: string
  nc_MTU :: int
  nc_DNS :: DNS
  nc_IPAM :: IPAMConfig
  nc_RawPrevResult :: "(string \<times> jvalue) list option"
  nc_PrevResult :: "Result option"

text \<open>
  \<open>cnipb.CniCmdArgs\<close>. The field \<open>NetworkConfiguration\<close> is a byte string of JSON; it is
  represented by the \<open>NetworkConfig\<close> that \<open>json.Unmarshal\<close> decodes it to (\<open>None\<close> for bytes
  that do not decode), and \<open>json.Marshal\<close> of a \<open>NetworkConfig\<close> is \<open>Some\<close> of it.
\<close>

record CniCmdArgs =
  ContainerId :: string
  Netns :: string
  Ifname :: string
  Args :: string
  Path :: string
  NetworkConfiguration :: "NetworkConfig option"

record CniCmdRequest =
  CniArgs :: CniCmdArgs

record k8sArgs =
  K8S_POD_NAME :: string
  K8S_POD_NAMESPACE :: string
  K8S_POD_INFRA_CONTAINER_ID :: string

text \<open>\<open>CNIConfig\<close> embeds the three by pointer; \<open>CniCmdArgs\<close> is the request's own.\<close>

record CNIConfig =
  cfg_NetworkConfig :: NetworkConfig
  cfg_CniCmdArgs :: CniCmdArgs
  cfg_k8sArgs :: k8sArgs

record GatewayConfig =
  gw_IP :: IP
  gw_MAC :: string
  gw_Name :: string

record NodeConfig =
  node_Name :: string
  node_PodCIDR :: IPNet
  node_Gateway :: GatewayConfig

record Pod =
  pod_Name :: string
  pod_Namespace :: string
  pod_HostNetwork :: bool

text \<open>
  The fields of \<open>CNIServer\<close> that are plain data. Its clients (OVS bridge, OpenFlow,
  Kubernetes), the interface store and the arbitrator are the state and the surroundings
  below.
\<close>

record CNIServer =
  srv_cniSocket :: string
  srv_supportedCNIVersions :: "string set"
  srv_serverVersion :: string
  srv_nodeConfig :: NodeConfig
  srv_hostProcPathPrefix :: string
  srv_defaultMTU :: int

subsection \<open>Surroundings, state and trace\<close>

datatype severity = LogWarning | LogError

text \<open>
  What a handler does to its surroundings, in order: the calls of the arbitrator, of the
  IPAM driver and of the interface functions, with their arguments, and the warnings and
  errors it logs (\<open>klog.Warningf\<close>, \<open>klog.Errorf\<close>; a message is the format's text with the
  arguments the model has, Info lines are not recorded).
\<close>

datatype call =
    LockContainer string
  | UnlockContainer string
  | CallExecIPAMAdd CniCmdArgs string
  | CallExecIPAMDelete CniCmdArgs string
  | CallExecIPAMCheck CniCmdArgs string
  | CallConfigureInterface string string string string string int
  | CallRemoveInterfaces string string string string string
  | CallCheckInterfaces string string string
  | CallInstallPodFlows string string string string "32 word"
  | Klog severity string

text \<open>
  The functions the server calls whose code is outside the source files at hand: library
  functions (\<open>String\<close> of addresses, \<open>types.LoadArgs\<close>, \<open>version.GreaterThanOrEqualTo\<close>,
  the conversions and printing of results), the IPAM driver, the OpenFlow and Kubernetes
  clients, and the package's own \<open>configureInterface\<close>, \<open>removeInterfaces\<close>,
  \<open>checkInterfaces\<close> and \<open>parsePrevResult\<close>. They are parameters. \<open>'w\<close> is the state of
  everything outside the interface store (IPAM allocations, OVSDB, flows, namespaces); a
  function that can change it returns the new one, an error is \<open>Some\<close> message.
\<close>

record 'w externals =
  IP_String :: "IP \<Rightarrow> string"
  IPNet_String :: "IPNet \<Rightarrow> string"
  LoadArgs :: "string \<Rightarrow> k8sArgs option"
  IsIPAMTypeValid :: "string \<Rightarrow> bool"
  GreaterThanOrEqualTo :: "string \<Rightarrow> string \<Rightarrow> bool"
  GenerateContainerInterfaceName :: "string \<Rightarrow> string \<Rightarrow> string"
  parsePrevResult :: "NetworkConfig \<Rightarrow> NetworkConfig option"
  NewResultFromResult :: "Result option \<Rightarrow> Result option"
  Sprint_Result :: "Result option \<Rightarrow> string"
  Result_PrintTo :: "Result \<Rightarrow> string"
  ExecIPAMAdd :: "CniCmdArgs \<Rightarrow> string \<Rightarrow> 'w \<Rightarrow> (string + Result) \<times> 'w"
  ExecIPAMDelete :: "CniCmdArgs \<Rightarrow> string \<Rightarrow> 'w \<Rightarrow> string option \<times> 'w"
  ExecIPAMCheck :: "CniCmdArgs \<Rightarrow> string \<Rightarrow> 'w \<Rightarrow> string option \<times> 'w"
  configureInterface ::
    "GatewayConfig \<Rightarrow> string \<Rightarrow> string \<Rightarrow> string \<Rightarrow> string \<Rightarrow> string \<Rightarrow> int \<Rightarrow> Result
       \<Rightarrow> InterfaceStore \<times> 'w \<Rightarrow> (string option \<times> Result) \<times> (InterfaceStore \<times> 'w)"
  removeInterfaces ::
    "string \<Rightarrow> string \<Rightarrow> string \<Rightarrow> string \<Rightarrow> string
       \<Rightarrow> InterfaceStore \<times> 'w \<Rightarrow> string option \<times> (InterfaceStore \<times> 'w)"
  checkInterfaces ::
    "InterfaceStore \<Rightarrow> string \<Rightarrow> string \<Rightarrow> Interface \<Rightarrow> Interface \<Rightarrow> string \<Rightarrow> Result
       \<Rightarrow> 'w \<Rightarrow> string option"
  InstallPodFlows ::
    "string \<Rightarrow> string \<Rightarrow> string \<Rightarrow> string \<Rightarrow> 32 word \<Rightarrow> 'w \<Rightarrow> string option \<times> 'w"
  ListPods :: "string \<Rightarrow> 'w \<Rightarrow> string + Pod list"

record 'w agent =
  ifaceStore :: InterfaceStore
  world :: "'w"
  trace :: "call list"

definition emit :: "call \<Rightarrow> 'w agent \<Rightarrow> 'w agent" where
  "emit c \<sigma> = \<sigma>\<lparr>trace := trace \<sigma> @ [c]\<rparr>"

definition emits :: "call list \<Rightarrow> 'w agent \<Rightarrow> 'w agent" where
  "emits cs \<sigma> = \<sigma>\<lparr>trace := trace \<sigma> @ cs\<rparr>"

subsection \<open>Supported versions\<close>

definition supportedCNIVersions :: string where
  "supportedCNIVersions = ''0.1.0,0.2.0,0.3.0,0.3.1,0.4.0''"

text \<open>\<open>strings.Split\<close> at a one-character separator and \<open>strings.Trim\<close> of one character.\<close>

fun Split :: "string \<Rightarrow> char \<Rightarrow> string list" where
  "Split [] sep = [[]]"
| "Split (c # cs) sep =
     (if c = sep then [] # Split cs sep
      else (case Split cs sep of [] \<Rightarrow> [[c]] | w # ws \<Rightarrow> (c # w) # ws))"

definition Trim :: "string \<Rightarrow> char \<Rightarrow> string" where
  "Trim s c = rev (dropWhile (\<lambda>x. x = c) (rev (dropWhile (\<lambda>x. x = c) s)))"

definition buildVersionSet :: "string \<Rightarrow> string set" where
  "buildVersionSet versions = set (map (\<lambda>ver. Trim ver CHR '' '') (Split versions CHR '',''))"

definition supportedCNIVersionSet :: "string set" where
  "supportedCNIVersionSet = buildVersionSet supportedCNIVersions"

definition New :: "string \<Rightarrow> string \<Rightarrow> int \<Rightarrow> NodeConfig \<Rightarrow> string \<Rightarrow> CNIServer" where
  "New cniSocket hostProcPathPrefix defaultMTU nodeConfig antreaCNIVersion =
     \<lparr>srv_cniSocket = cniSocket,
      srv_supportedCNIVersions = supportedCNIVersionSet,
      srv_serverVersion = antreaCNIVersion,
      srv_nodeConfig = nodeConfig,
      srv_hostProcPathPrefix = hostProcPathPrefix,
      srv_defaultMTU = defaultMTU\<rparr>"

subsection \<open>Responses\<close>

definition generateCNIErrorResponse :: "ErrorCode \<Rightarrow> string \<Rightarrow> CniCmdResponse" where
  "generateCNIErrorResponse cniErrorCode cniErrorMsg =
     \<lparr>resp_CniResult = [],
      resp_Error = Some \<lparr>cni_Code = cniErrorCode, cni_Message = cniErrorMsg\<rparr>\<rparr>"

definition decodingFailureResponse :: "string \<Rightarrow> CniCmdResponse" where
  "decodingFailureResponse what =
     generateCNIErrorResponse DECODING_FAILURE (''Failed to decode '' @ what)"

definition incompatibleCniVersionResponse :: "string \<Rightarrow> CniCmdResponse" where
  "incompatibleCniVersionResponse cniVersion =
     generateCNIErrorResponse INCOMPATIBLE_CNI_VERSION
       (''Unsupported CNI version ['' @ cniVersion @ ''], supported versions ['' @
        supportedCNIVersions @ '']'')"

definition unsupportedFieldResponse :: "string \<Rightarrow> string \<Rightarrow> CniCmdResponse" where
  "unsupportedFieldResponse key val =
     generateCNIErrorResponse UNSUPPORTED_FIELD
       (''Network configuration does not support key '' @ key @ '' and value '' @ val)"

definition ipamFailureResponse :: "string \<Rightarrow> CniCmdResponse" where
  "ipamFailureResponse err = generateCNIErrorResponse IPAM_FAILURE err"

definition configInterfaceFailureResponse :: "string \<Rightarrow> CniCmdResponse" where
  "configInterfaceFailureResponse err = generateCNIErrorResponse CONFIG_INTERFACE_FAILURE err"

definition checkInterfaceFailureResponse :: "string \<Rightarrow> CniCmdResponse" where
  "checkInterfaceFailureResponse err = generateCNIErrorResponse CHECK_INTERFACE_FAILURE err"

definition invalidNetworkConfigResponse :: "string \<Rightarrow> CniCmdResponse" where
  "invalidNetworkConfigResponse msg = generateCNIErrorResponse INVALID_NETWORK_CONFIG msg"

text \<open>The response of a successful DEL or CHECK: empty result bytes, no error.\<close>

definition emptyResponse :: CniCmdResponse where
  "emptyResponse = \<lparr>resp_CniResult = [], resp_Error = None\<rparr>"

subsection \<open>Loading and checking a request\<close>

text \<open>
  \<open>updateLocalIPAMSubnet\<close> writes the node's gateway and pod CIDR into the configuration and
  marshals it back into \<open>NetworkConfiguration\<close>, which is the request's field.
\<close>

definition updateLocalIPAMSubnet :: "'w externals \<Rightarrow> CNIServer \<Rightarrow> CNIConfig \<Rightarrow> CNIConfig" where
  "updateLocalIPAMSubnet ext s cniConfig =
     (let nc = cfg_NetworkConfig cniConfig;
          nc1 = nc\<lparr>nc_IPAM := (nc_IPAM nc)\<lparr>ipam_Gateway :=
                    IP_String ext (gw_IP (node_Gateway (srv_nodeConfig s)))\<rparr>\<rparr>;
          nc2 = nc1\<lparr>nc_IPAM := (nc_IPAM nc1)\<lparr>ipam_Subnet :=
                    IPNet_String ext (node_PodCIDR (srv_nodeConfig s))\<rparr>\<rparr>
      in cniConfig\<lparr>cfg_NetworkConfig := nc2,
                   cfg_CniCmdArgs := (cfg_CniCmdArgs cniConfig)\<lparr>NetworkConfiguration := Some nc2\<rparr>\<rparr>)"

text \<open>
  \<open>loadNetworkConfig\<close> returns the request as it leaves it (the arguments are shared with
  the configuration) and the configuration, \<open>None\<close> on a decoding error.
\<close>

definition loadNetworkConfig ::
  "'w externals \<Rightarrow> CNIServer \<Rightarrow> CniCmdRequest \<Rightarrow> CniCmdRequest \<times> CNIConfig option" where
  "loadNetworkConfig ext s request =
     (case NetworkConfiguration (CniArgs request) of
        None \<Rightarrow> (request, None)
      | Some nc \<Rightarrow>
          (case LoadArgs ext (Args (CniArgs request)) of
             None \<Rightarrow> (request, None)
           | Some k8s \<Rightarrow>
               (let cniConfig = updateLocalIPAMSubnet ext s
                      \<lparr>cfg_NetworkConfig = nc, cfg_CniCmdArgs = CniArgs request,
                       cfg_k8sArgs = k8s\<rparr>;
                    cniConfig1 =
                      (if nc_MTU (cfg_NetworkConfig cniConfig) = 0
                       then cniConfig\<lparr>cfg_NetworkConfig :=
                              (cfg_NetworkConfig cniConfig)\<lparr>nc_MTU := srv_defaultMTU s\<rparr>\<rparr>
                       else cniConfig)
                in (request\<lparr>CniArgs := cfg_CniCmdArgs cniConfig1\<rparr>, Some cniConfig1))))"

definition isCNIVersionSupported :: "CNIServer \<Rightarrow> string \<Rightarrow> bool" where
  "isCNIVersionSupported s reqVersion \<longleftrightarrow> reqVersion \<in> srv_supportedCNIVersions s"

text \<open>
  \<open>checkRequestMessage\<close>: the request as left, then either the error response or the
  configuration (the callers read the configuration only when the response is nil), and
  the lines logged.
\<close>

definition checkRequestMessage ::
  "'w externals \<Rightarrow> CNIServer \<Rightarrow> CniCmdRequest
     \<Rightarrow> CniCmdRequest \<times> (CniCmdResponse + CNIConfig) \<times> call list" where
  "checkRequestMessage ext s request =
     (case loadNetworkConfig ext s request of
        (request1, None) \<Rightarrow>
          (request1, Inl (decodingFailureResponse ''network config''),
           [Klog LogError ''Failed to parse network configuration''])
      | (request1, Some cniConfig) \<Rightarrow>
          (let cniVersion = nc_CNIVersion (cfg_NetworkConfig cniConfig);
               ipamType = ipam_Type (nc_IPAM (cfg_NetworkConfig cniConfig))
           in if \<not> isCNIVersionSupported s cniVersion
              then (request1, Inl (incompatibleCniVersionResponse cniVersion),
                    [Klog LogError (''Unsupported CNI version ['' @ cniVersion @
                       ''], supported CNI versions ['' @ supportedCNIVersions @ '']'')])
              else if \<not> IsIPAMTypeValid ext ipamType
              then (request1, Inl (unsupportedFieldResponse ''ipam/type'' ipamType),
                    [Klog LogError (''Unsupported IPAM type '' @ ipamType)])
              else (request1, Inr cniConfig, [])))"

definition hostNetNsPath :: "CNIServer \<Rightarrow> string \<Rightarrow> string" where
  "hostNetNsPath s netNS = (if netNS = [] then [] else srv_hostProcPathPrefix s @ netNS)"

subsection \<open>DEL\<close>

text \<open>
  A handler returns its response and error (the Go pair), the request as it leaves it, and
  the new state. Each handler is described as it runs with no other goroutine holding its
  container: \<open>lockContainer\<close> and \<open>unlockContainer\<close> appear as entries of the trace, and
  the interleaving of handlers is the subject of the arbitrator's section.
\<close>

text \<open>The part of \<open>CmdDel\<close> between \<open>lockContainer\<close> and the deferred \<open>unlockContainer\<close>.\<close>

definition CmdDel_locked ::
  "'w externals \<Rightarrow> CNIServer \<Rightarrow> CNIConfig \<Rightarrow> 'w agent \<Rightarrow> CniCmdResponse \<times> 'w agent" where
  "CmdDel_locked ext s cniConfig \<sigma> =
     (let args = cfg_CniCmdArgs cniConfig;
          ipamType = ipam_Type (nc_IPAM (cfg_NetworkConfig cniConfig));
          (err, w1) = ExecIPAMDelete ext args ipamType (world \<sigma>);
          \<sigma>1 = emit (CallExecIPAMDelete args ipamType) (\<sigma>\<lparr>world := w1\<rparr>)
      in case err of
           Some e \<Rightarrow>
             (ipamFailureResponse e,
              emit (Klog LogError (''Failed to delete IP addresses by IPAM driver: '' @ e)) \<sigma>1)
         | None \<Rightarrow>
             (let podName = K8S_POD_NAME (cfg_k8sArgs cniConfig);
                  podNamespace = K8S_POD_NAMESPACE (cfg_k8sArgs cniConfig);
                  netNS = hostNetNsPath s (Netns args);
                  (err2, st2, w2) =
                     removeInterfaces ext podName podNamespace (ContainerId args) netNS
                       (Ifname args) (ifaceStore \<sigma>1, world \<sigma>1);
                  \<sigma>2 = emit (CallRemoveInterfaces podName podNamespace (ContainerId args) netNS
                              (Ifname args))
                         (\<sigma>1\<lparr>ifaceStore := st2, world := w2\<rparr>)
              in case err2 of
                   Some e \<Rightarrow>
                     (configInterfaceFailureResponse e,
                      emit (Klog LogError (''Failed to remove container '' @ ContainerId args @
                              '' interface configuration: '' @ e)) \<sigma>2)
                 | None \<Rightarrow> (emptyResponse, \<sigma>2)))"

definition CmdDel ::
  "'w externals \<Rightarrow> CNIServer \<Rightarrow> CniCmdRequest \<Rightarrow> 'w agent
     \<Rightarrow> (CniCmdResponse \<times> string option) \<times> CniCmdRequest \<times> 'w agent" where
  "CmdDel ext s request \<sigma> =
     (case checkRequestMessage ext s request of
        (request1, Inl response, logs) \<Rightarrow> ((response, None), request1, emits logs \<sigma>)
      | (request1, Inr cniConfig, logs) \<Rightarrow>
          (let containerID = ContainerId (cfg_CniCmdArgs cniConfig);
               \<sigma>1 = emit (LockContainer containerID) (emits logs \<sigma>);
               (response, \<sigma>2) = CmdDel_locked ext s cniConfig \<sigma>1;
               \<sigma>3 = emit (UnlockContainer containerID) \<sigma>2
           in ((response, None), request1, \<sigma>3)))"

subsection \<open>ADD\<close>

text \<open>
  The part of \<open>CmdAdd\<close> between \<open>lockContainer\<close> and the deferred \<open>unlockContainer\<close>; the
  Boolean is the variable \<open>success\<close> at the return.
\<close>

definition CmdAdd_locked ::
  "'w externals \<Rightarrow> CNIServer \<Rightarrow> CNIConfig \<Rightarrow> 'w agent
     \<Rightarrow> CniCmdResponse \<times> bool \<times> 'w agent" where
  "CmdAdd_locked ext s cniConfig \<sigma> =
     (let args = cfg_CniCmdArgs cniConfig;
          nc = cfg_NetworkConfig cniConfig;
          ipamType = ipam_Type (nc_IPAM nc);
          result = \<lparr>res_CNIVersion = nc_CNIVersion nc, res_Interfaces = [], res_IPs = [],
                    res_Routes = None,
                    res_DNS = \<lparr>dns_Nameservers = [], dns_Domain = [], dns_Search = [],
                               dns_Options = []\<rparr>\<rparr>;
          netNS = hostNetNsPath s (Netns args);
          (ipamResult, w1) = ExecIPAMAdd ext args ipamType (world \<sigma>);
          \<sigma>1 = emit (CallExecIPAMAdd args ipamType) (\<sigma>\<lparr>world := w1\<rparr>)
      in case ipamResult of
           Inl e \<Rightarrow>
             (ipamFailureResponse e, False,
              emit (Klog LogError (''Failed to add ip addresses from IPAM driver: '' @ e)) \<sigma>1)
         | Inr ipamRes \<Rightarrow>
             (let result1 = updateResultIfaceConfig
                    (result\<lparr>res_IPs := res_IPs ipamRes, res_Routes := res_Routes ipamRes\<rparr>)
                    (gw_IP (node_Gateway (srv_nodeConfig s)));
                  podName = K8S_POD_NAME (cfg_k8sArgs cniConfig);
                  podNamespace = K8S_POD_NAMESPACE (cfg_k8sArgs cniConfig);
                  ((err, result2), st2, w2) =
                     configureInterface ext (node_Gateway (srv_nodeConfig s)) podName podNamespace
                       (ContainerId args) netNS (Ifname args) (nc_MTU nc) result1
                       (ifaceStore \<sigma>1, world \<sigma>1);
                  \<sigma>2 = emit (CallConfigureInterface podName podNamespace (ContainerId args) netNS
                              (Ifname args) (nc_MTU nc))
                         (\<sigma>1\<lparr>ifaceStore := st2, world := w2\<rparr>)
              in case err of
                   Some e \<Rightarrow>
                     (configInterfaceFailureResponse e, False,
                      emit (Klog LogError (''Failed to configure container '' @ ContainerId args @
                              '' interface: '' @ e)) \<sigma>2)
                 | None \<Rightarrow>
                     (\<lparr>resp_CniResult = Result_PrintTo ext (result2\<lparr>res_DNS := nc_DNS nc\<rparr>),
                       resp_Error = None\<rparr>, True, \<sigma>2)))"

text \<open>
  \<open>CmdAdd\<close>. The rollback is the function deferred first, so it runs last, after the
  deferred \<open>unlockContainer\<close>: when \<open>success\<close> is false it calls \<open>CmdDel\<close> on the same
  request, drops what \<open>CmdDel\<close> returns (logging its error, which \<open>CmdDel\<close> never sets),
  and the response of \<open>CmdAdd\<close> stays the one computed before.
\<close>

definition CmdAdd ::
  "'w externals \<Rightarrow> CNIServer \<Rightarrow> CniCmdRequest \<Rightarrow> 'w agent
     \<Rightarrow> (CniCmdResponse \<times> string option) \<times> CniCmdRequest \<times> 'w agent" where
  "CmdAdd ext s request \<sigma> =
     (case checkRequestMessage ext s request of
        (request1, Inl response, logs) \<Rightarrow> ((response, None), request1, emits logs \<sigma>)
      | (request1, Inr cniConfig, logs) \<Rightarrow>
          (let containerID = ContainerId (cfg_CniCmdArgs cniConfig);
               \<sigma>1 = emit (LockContainer containerID) (emits logs \<sigma>);
               (response, success, \<sigma>2) = CmdAdd_locked ext s cniConfig \<sigma>1;
               \<sigma>3 = emit (UnlockContainer containerID) \<sigma>2
           in if success then ((response, None), request1, \<sigma>3)
              else
                (let \<sigma>4 = emit (Klog LogWarning ''CmdAdd has failed, and try to rollback'') \<sigma>3;
                     ((delResponse, delErr), request2, \<sigma>5) = CmdDel ext s request1 \<sigma>4;
                     \<sigma>6 = (case delErr of
                             Some e \<Rightarrow>
                               emit (Klog LogWarning
                                 (''Failed to rollback after CNI add failure: '' @ e)) \<sigma>5
                           | None \<Rightarrow> \<sigma>5)
                 in ((response, None), request2, \<sigma>6))))"

subsection \<open>CHECK\<close>

definition parsePrevResultFromRequest ::
  "'w externals \<Rightarrow> NetworkConfig \<Rightarrow> (CniCmdResponse + Result) \<times> call list" where
  "parsePrevResultFromRequest ext networkConfig =
     (if nc_PrevResult networkConfig = None \<and> nc_RawPrevResult networkConfig = None
      then (Inl (unsupportedFieldResponse ''prevResult'' []),
            [Klog LogError ''Previous network configuration not specified''])
      else
        (case parsePrevResult ext networkConfig of
           None \<Rightarrow>
             (Inl (decodingFailureResponse ''prevResult''),
              [Klog LogError ''Failed to parse previous network configuration''])
         | Some networkConfig1 \<Rightarrow>
             (case NewResultFromResult ext (nc_PrevResult networkConfig1) of
                None \<Rightarrow>
                  (Inl (unsupportedFieldResponse ''prevResult''
                          (Sprint_Result ext (nc_PrevResult networkConfig1))),
                   [Klog LogError
                      ''Failed to construct prevResult using previous network configuration''])
              | Some prevResult \<Rightarrow> (Inr prevResult, []))))"

text \<open>
  The loop of \<open>validatePrevResult\<close> over the interfaces of the previous result: the
  \<open>switch\<close> takes the first case that matches, a later interface of the same name replaces
  an earlier one.
\<close>

fun findInterfaces ::
  "string \<Rightarrow> string \<Rightarrow> Interface list \<Rightarrow> Interface option \<times> Interface option \<times> call list
     \<Rightarrow> Interface option \<times> Interface option \<times> call list" where
  "findInterfaces ifname hostVethName [] found = found"
| "findInterfaces ifname hostVethName (intf # intfs) (containerIntf, hostIntf, logs) =
     findInterfaces ifname hostVethName intfs
       (if intf_Name intf = ifname then (Some intf, hostIntf, logs)
        else if intf_Name intf = hostVethName then (containerIntf, Some intf, logs)
        else (containerIntf, hostIntf,
              logs @ [Klog LogError (''Unknown interface name '' @ intf_Name intf)]))"

definition validatePrevResult ::
  "'w externals \<Rightarrow> CNIServer \<Rightarrow> CniCmdArgs \<Rightarrow> k8sArgs \<Rightarrow> Result \<Rightarrow> 'w agent
     \<Rightarrow> (CniCmdResponse \<times> string option) \<times> 'w agent" where
  "validatePrevResult ext s cfgArgs k8sCNIArgs prevResult \<sigma> =
     (let hostVethName = GenerateContainerInterfaceName ext (K8S_POD_NAME k8sCNIArgs)
                           (K8S_POD_NAMESPACE k8sCNIArgs);
          containerID = ContainerId cfgArgs;
          netNS = hostNetNsPath s (Netns cfgArgs);
          (containerIntf, hostIntf, logs) =
             findInterfaces (Ifname cfgArgs) hostVethName (res_Interfaces prevResult)
               (None, None, []);
          \<sigma>1 = emits logs \<sigma>
      in case containerIntf of
           None \<Rightarrow>
             ((invalidNetworkConfigResponse ''prevResult does not match network configuration'',
               None),
              emit (Klog LogError (''Failed to find interface '' @ Ifname cfgArgs @
                      '' of container '' @ containerID)) \<sigma>1)
         | Some cIntf \<Rightarrow>
             (case hostIntf of
                None \<Rightarrow>
                  ((invalidNetworkConfigResponse
                      ''prevResult does not match network configuration'', None),
                   emit (Klog LogError (''Failed to find host interface peer '' @ hostVethName @
                           '' for container '' @ containerID)) \<sigma>1)
              | Some hIntf \<Rightarrow>
                  (let \<sigma>2 = emit (CallCheckInterfaces containerID netNS hostVethName) \<sigma>1
                   in case checkInterfaces ext (ifaceStore \<sigma>1) containerID netNS cIntf hIntf
                             hostVethName prevResult (world \<sigma>1) of
                        Some e \<Rightarrow> ((checkInterfaceFailureResponse e, None), \<sigma>2)
                      | None \<Rightarrow> ((emptyResponse, None), \<sigma>2))))"

text \<open>
  The part of \<open>CmdCheck\<close> between \<open>lockContainer\<close> and the deferred \<open>unlockContainer\<close>.
  What \<open>validatePrevResult\<close> returns is returned only when its error is not nil; otherwise
  the handler goes on to its last statement.
\<close>

definition CmdCheck_locked ::
  "'w externals \<Rightarrow> CNIServer \<Rightarrow> CNIConfig \<Rightarrow> 'w agent
     \<Rightarrow> (CniCmdResponse \<times> string option) \<times> 'w agent" where
  "CmdCheck_locked ext s cniConfig \<sigma> =
     (let args = cfg_CniCmdArgs cniConfig;
          nc = cfg_NetworkConfig cniConfig;
          ipamType = ipam_Type (nc_IPAM nc);
          (err, w1) = ExecIPAMCheck ext args ipamType (world \<sigma>);
          \<sigma>1 = emit (CallExecIPAMCheck args ipamType) (\<sigma>\<lparr>world := w1\<rparr>)
      in case err of
           Some e \<Rightarrow>
             ((ipamFailureResponse e, None),
              emit (Klog LogError (''Failed to check IPAM configuration: '' @ e)) \<sigma>1)
         | None \<Rightarrow>
             (if GreaterThanOrEqualTo ext (nc_CNIVersion nc) ''0.4.0''
              then
                (case parsePrevResultFromRequest ext nc of
                   (Inl response, logs) \<Rightarrow> ((response, None), emits logs \<sigma>1)
                 | (Inr prevResult, logs) \<Rightarrow>
                     (let ((response, verr), \<sigma>2) =
                            validatePrevResult ext s args (cfg_k8sArgs cniConfig) prevResult
                              (emits logs \<sigma>1)
                      in case verr of
                           Some e \<Rightarrow> ((response, Some e), \<sigma>2)
                         | None \<Rightarrow> ((emptyResponse, None), \<sigma>2)))
              else ((emptyResponse, None), \<sigma>1)))"

definition CmdCheck ::
  "'w externals \<Rightarrow> CNIServer \<Rightarrow> CniCmdRequest \<Rightarrow> 'w agent
     \<Rightarrow> (CniCmdResponse \<times> string option) \<times> CniCmdRequest \<times> 'w agent" where
  "CmdCheck ext s request \<sigma> =
     (case checkRequestMessage ext s request of
        (request1, Inl response, logs) \<Rightarrow> ((response, None), request1, emits logs \<sigma>)
      | (request1, Inr cniConfig, logs) \<Rightarrow>
          (let containerID = ContainerId (cfg_CniCmdArgs cniConfig);
               \<sigma>1 = emit (LockContainer containerID) (emits logs \<sigma>);
               (ret, \<sigma>2) = CmdCheck_locked ext s cniConfig \<sigma>1;
               \<sigma>3 = emit (UnlockContainer containerID) \<sigma>2
           in (ret, request1, \<sigma>3)))"

subsection \<open>Startup reconciliation\<close>

text \<open>
  The first loop of \<open>reconcile\<close>, over the pods: it builds the set \<open>desiredInterfaces\<close>.
  Every \<open>continue\<close> goes on with the next pod.
\<close>

fun reconcilePods ::
  "'w externals \<Rightarrow> CNIServer \<Rightarrow> Pod list \<Rightarrow> string set \<times> 'w agent \<Rightarrow> string set \<times> 'w agent" where
  "reconcilePods ext s [] acc = acc"
| "reconcilePods ext s (pod # pods) (desiredInterfaces, \<sigma>) =
     reconcilePods ext s pods
       (if pod_HostNetwork pod then (desiredInterfaces, \<sigma>)
        else
          (case GetContainerInterface (ifaceStore \<sigma>) (pod_Name pod) (pod_Namespace pod) of
             None \<Rightarrow>
               (desiredInterfaces,
                emit (Klog LogWarning (''Interface for Pod '' @ pod_Namespace pod @ ''/'' @
                        pod_Name pod @ '' not found in the interface store'')) \<sigma>)
           | Some containerConfig \<Rightarrow>
               (let (err, w1) =
                      InstallPodFlows ext (ic_IfaceName containerConfig) (ic_IP containerConfig)
                        (ic_MAC containerConfig) (gw_MAC (node_Gateway (srv_nodeConfig s)))
                        (ic_OFPort containerConfig) (world \<sigma>);
                    \<sigma>1 = emit (CallInstallPodFlows (ic_IfaceName containerConfig)
                                (ic_IP containerConfig) (ic_MAC containerConfig)
                                (gw_MAC (node_Gateway (srv_nodeConfig s)))
                                (ic_OFPort containerConfig))
                           (\<sigma>\<lparr>world := w1\<rparr>)
                in case err of
                     Some e \<Rightarrow>
                       (desiredInterfaces,
                        emit (Klog LogError (''Error when re-installing flows for Pod '' @
                                pod_Namespace pod @ ''/'' @ pod_Name pod)) \<sigma>1)
                   | None \<Rightarrow> (insert (ic_IfaceName containerConfig) desiredInterfaces, \<sigma>1))))"

text \<open>The second loop, over the interface ids the store knew when \<open>reconcile\<close> began.\<close>

fun reconcileInterfaces ::
  "'w externals \<Rightarrow> string set \<Rightarrow> string list \<Rightarrow> 'w agent \<Rightarrow> 'w agent" where
  "reconcileInterfaces ext desiredInterfaces [] \<sigma> = \<sigma>"
| "reconcileInterfaces ext desiredInterfaces (ifaceID # ifaceIDs) \<sigma> =
     reconcileInterfaces ext desiredInterfaces ifaceIDs
       (if ifaceID \<in> desiredInterfaces then \<sigma>
        else
          (case GetInterface (ifaceStore \<sigma>) ifaceID of
             None \<Rightarrow>
               emit (Klog LogError (''Interface '' @ ifaceID @
                       '' can no longer be found in the interface store'')) \<sigma>
           | Some containerConfig \<Rightarrow>
               (if ic_PodName containerConfig = [] then \<sigma>
                else
                  (let (err, st1, w1) =
                         removeInterfaces ext (ic_PodName containerConfig)
                           (ic_PodNamespace containerConfig) (ic_ID containerConfig) [] []
                           (ifaceStore \<sigma>, world \<sigma>)
                   in emit (CallRemoveInterfaces (ic_PodName containerConfig)
                              (ic_PodNamespace containerConfig) (ic_ID containerConfig) [] [])
                        (\<sigma>\<lparr>ifaceStore := st1, world := w1\<rparr>)))))"

text \<open>\<open>reconcile\<close> returns its error, nil (\<open>None\<close>) or the failure to list the pods.\<close>

definition reconcile ::
  "'w externals \<Rightarrow> CNIServer \<Rightarrow> 'w agent \<Rightarrow> string option \<times> 'w agent" where
  "reconcile ext s \<sigma> =
     (case ListPods ext (''spec.nodeName='' @ node_Name (srv_nodeConfig s)) (world \<sigma>) of
        Inl err \<Rightarrow>
          (Some (''failed to list Pods running on Node '' @ node_Name (srv_nodeConfig s) @
                 '': '' @ err), \<sigma>)
      | Inr pods \<Rightarrow>
          (let knownInterfaces = GetInterfaceIDs (ifaceStore \<sigma>);
               (desiredInterfaces, \<sigma>1) = reconcilePods ext s pods ({}, \<sigma>)
           in (None, reconcileInterfaces ext desiredInterfaces knownInterfaces \<sigma>1)))"

text \<open>The container ids that a trace locks, in order.\<close>

fun locks :: "call list \<Rightarrow> string list" where
  "locks [] = []"
| "locks (LockContainer containerID # cs) = containerID # locks cs"
| "locks (_ # cs) = locks cs"

text \<open>The calls of \<open>removeInterfaces\<close> and of \<open>InstallPodFlows\<close> in a trace.\<close>

fun removals :: "call list \<Rightarrow> (string \<times> string \<times> string) list" where
  "removals [] = []"
| "removals (CallRemoveInterfaces podName podNamespace containerID netNS ifname # cs) =
     (podName, podNamespace, containerID) # removals cs"
| "removals (_ # cs) = removals cs"

fun installs :: "call list \<Rightarrow> string list" where
  "installs [] = []"
| "installs (CallInstallPodFlows ifaceName ip mac gwMAC ofPort # cs) = ifaceName # installs cs"
| "installs (_ # cs) = installs cs"

text \<open>The arguments handed to the IPAM driver in a trace, in order.\<close>

fun ipamInputs :: "call list \<Rightarrow> CniCmdArgs list" where
  "ipamInputs [] = []"
| "ipamInputs (CallExecIPAMAdd args ipamType # cs) = args # ipamInputs cs"
| "ipamInputs (CallExecIPAMDelete args ipamType # cs) = args # ipamInputs cs"
| "ipamInputs (CallExecIPAMCheck args ipamType # cs) = args # ipamInputs cs"
| "ipamInputs (_ # cs) = ipamInputs cs"

text \<open>
  The network configuration in the arguments names the node's pod CIDR as the IPAM subnet
  and the node's gateway address as the IPAM gateway.
\<close>

definition ipamConfigIsNodeLocal :: "'w externals \<Rightarrow> CNIServer \<Rightarrow> CniCmdArgs \<Rightarrow> bool" where
  "ipamConfigIsNodeLocal ext s args =
     (case NetworkConfiguration args of
        None \<Rightarrow> False
      | Some nc \<Rightarrow>
          ipam_Subnet (nc_IPAM nc) = IPNet_String ext (node_PodCIDR (srv_nodeConfig s))
          \<and> ipam_Gateway (nc_IPAM nc) = IP_String ext (gw_IP (node_Gateway (srv_nodeConfig s))))"

subsection \<open>A node for the examples\<close>

text \<open>
  The surroundings of the examples keep three facts about the one container of the
  scenarios: whether the IPAM driver holds an address for it, whether its OVS port exists,
  and whether its flows are installed. The store entry is in the interface store itself.
\<close>

record nodeState =
  ipamAllocated :: bool
  ovsPortExists :: bool
  flowsInstalled :: bool

definition cleanNode :: nodeState where
  "cleanNode = \<lparr>ipamAllocated = False, ovsPortExists = False, flowsInstalled = False\<rparr>"

definition testIPAMResult :: Result where
  "testIPAMResult =
     \<lparr>res_CNIVersion = ''0.4.0'', res_Interfaces = [],
      res_IPs = [\<lparr>ipc_Version = ''4'', ipc_Interface = None,
                  ipc_Address = \<lparr>ipnet_IP = [0, 0, 0, 0, 0, 0, 0, 0, 0, 0, 0xff, 0xff, 10, 1, 2, 100],
                                  ipnet_Mask = [255, 255, 255, 0]\<rparr>,
                  ipc_Gateway = None\<rparr>],
      res_Routes = None,
      res_DNS = \<lparr>dns_Nameservers = [], dns_Domain = [], dns_Search = [], dns_Options = []\<rparr>\<rparr>"

definition testInterfaceConfig :: "string \<Rightarrow> string \<Rightarrow> string \<Rightarrow> InterfaceConfig" where
  "testInterfaceConfig podName podNamespace containerID =
     \<lparr>ic_ID = containerID, ic_IfaceName = podName @ ''-'' @ podNamespace,
      ic_IP = ''10.1.2.100'', ic_MAC = ''aa:bb:cc:dd:ee:ff'', ic_PodName = podName,
      ic_PodNamespace = podNamespace, ic_NetNS = [], ic_PortUUID = ''uuid-'' @ containerID,
      ic_OFPort = 10\<rparr>"

text \<open>
  Surroundings with three switches: the IPAM driver fails to add, the interface
  configuration fails at its last step (the flow install, after the OVS port and the store
  entry were made), the IPAM driver fails to delete. \<open>removeInterfaces\<close> removes flows and
  port and deletes the store's records of the pod; \<open>InstallPodFlows\<close> fails for the
  interface named \<open>broken-test\<close>; the pods listed are those the state is given.
\<close>

definition testExternals :: "bool \<Rightarrow> bool \<Rightarrow> bool \<Rightarrow> Pod list \<Rightarrow> nodeState externals" where
  "testExternals ipamAddFails flowInstallFails ipamDeleteFails pods =
     \<lparr>IP_String = (\<lambda>ip. ''10.1.2.1''),
      IPNet_String = (\<lambda>n. ''10.1.2.0/24''),
      LoadArgs = (\<lambda>a. if a = [] then None
                       else Some \<lparr>K8S_POD_NAME = ''test-1'', K8S_POD_NAMESPACE = ''t1'',
                                  K8S_POD_INFRA_CONTAINER_ID = ''test-111111''\<rparr>),
      IsIPAMTypeValid = (\<lambda>t. t = ''host-local''),
      GreaterThanOrEqualTo = (\<lambda>v other. v = ''0.4.0''),
      GenerateContainerInterfaceName = (\<lambda>podName podNamespace. podName @ ''-'' @ podNamespace),
      parsePrevResult = (\<lambda>nc. Some nc),
      NewResultFromResult = (\<lambda>r. r),
      Sprint_Result = (\<lambda>r. []),
      Result_PrintTo = (\<lambda>r. ''result''),
      ExecIPAMAdd = (\<lambda>args ipamType w.
         if ipamAddFails then (Inl ''no address left'', w)
         else (Inr testIPAMResult, w\<lparr>ipamAllocated := True\<rparr>)),
      ExecIPAMDelete = (\<lambda>args ipamType w.
         if ipamDeleteFails then (Some ''IPAM driver unreachable'', w)
         else (None, w\<lparr>ipamAllocated := False\<rparr>)),
      ExecIPAMCheck = (\<lambda>args ipamType w. (None, w)),
      configureInterface = (\<lambda>gw podName podNamespace containerID netNS ifname mtu result (st, w).
         if flowInstallFails
         then ((Some ''failed to install flows'', result),
               (AddInterface (testInterfaceConfig podName podNamespace containerID) st,
                w\<lparr>ovsPortExists := True\<rparr>))
         else ((None, result),
               (AddInterface (testInterfaceConfig podName podNamespace containerID) st,
                w\<lparr>ovsPortExists := True, flowsInstalled := True\<rparr>))),
      removeInterfaces = (\<lambda>podName podNamespace containerID netNS ifname (st, w).
         (None,
          (filter (\<lambda>(name, cfg). \<not> (ic_PodName cfg = podName \<and> ic_PodNamespace cfg = podNamespace))
             st,
           w\<lparr>ovsPortExists := False, flowsInstalled := False\<rparr>))),
      checkInterfaces = (\<lambda>st containerID netNS containerIntf hostIntf hostVethName prevResult w.
         if GetInterface st hostVethName = None then Some ''interface not in store'' else None),
      InstallPodFlows = (\<lambda>ifaceName ip mac gwMAC ofPort w.
         if ifaceName = ''broken-test'' then (Some ''flow error'', w) else (None, w)),
      ListPods = (\<lambda>selector w. Inr pods)\<rparr>"

definition testNodeConfig :: NodeConfig where
  "testNodeConfig =
     \<lparr>node_Name = ''node1'',
      node_PodCIDR = \<lparr>ipnet_IP = [10, 1, 2, 0], ipnet_Mask = [255, 255, 255, 0]\<rparr>,
      node_Gateway = \<lparr>gw_IP = [10, 1, 2, 1], gw_MAC = ''11:11:11:11:11:11'', gw_Name = ''gw0''\<rparr>\<rparr>"

definition testServer :: CNIServer where
  "testServer = New ''/tmp/test.sock'' [] 1500 testNodeConfig ''1.0.0''"

definition testNetworkConfig :: NetworkConfig where
  "testNetworkConfig =
     \<lparr>nc_CNIVersion = ''0.4.0'', nc_Name = ''testConfig'', nc_Type = ''antrea'', nc_MTU = 0,
      nc_DNS = \<lparr>dns_Nameservers = [], dns_Domain = [], dns_Search = [], dns_Options = []\<rparr>,
      nc_IPAM = \<lparr>ipam_Type = ''host-local'', ipam_Subnet = ''192.168.0.0/16'',
                 ipam_Gateway = ''192.168.0.1''\<rparr>,
      nc_RawPrevResult = None, nc_PrevResult = None\<rparr>"

definition testArgs :: CniCmdArgs where
  "testArgs =
     \<lparr>ContainerId = ''dummy-0'', Netns = ''/ns/1'', Ifname = ''eth0'',
      Args = ''K8S_POD_NAME=test-1;K8S_POD_NAMESPACE=t1'', Path = [],
      NetworkConfiguration = Some testNetworkConfig\<rparr>"

definition testRequest :: CniCmdRequest where
  "testRequest = \<lparr>CniArgs = testArgs\<rparr>"

definition emptyAgent :: "nodeState agent" where
  "emptyAgent = \<lparr>ifaceStore = [], world = cleanNode, trace = []\<rparr>"

text \<open>The test request as a handler leaves it, and its configuration after validation.\<close>

definition testNetworkConfig1 :: NetworkConfig where
  "testNetworkConfig1 =
     testNetworkConfig\<lparr>nc_IPAM := \<lparr>ipam_Type = ''host-local'', ipam_Subnet = ''10.1.2.0/24'',
                                    ipam_Gateway = ''10.1.2.1''\<rparr>\<rparr>"

definition testRequest1 :: CniCmdRequest where
  "testRequest1 = \<lparr>CniArgs = testArgs\<lparr>NetworkConfiguration := Some testNetworkConfig1\<rparr>\<rparr>"

definition testConfig :: CNIConfig where
  "testConfig =
     \<lparr>cfg_NetworkConfig = testNetworkConfig1\<lparr>nc_MTU := 1500\<rparr>,
      cfg_CniCmdArgs = testArgs\<lparr>NetworkConfiguration := Some testNetworkConfig1\<rparr>,
      cfg_k8sArgs = \<lparr>K8S_POD_NAME = ''test-1'', K8S_POD_NAMESPACE = ''t1'',
                     K8S_POD_INFRA_CONTAINER_ID = ''test-111111''\<rparr>\<rparr>"

text \<open>
  CHECK requests for the test container at version 0.4.0: one whose previous result names
  no interface, one whose previous result names both the container interface \<open>eth0\<close> and
  the host interface \<open>test-1-t1\<close>.
\<close>

definition prevResultWithout :: Result where
  "prevResultWithout = testIPAMResult"

definition prevResultWithBoth :: Result where
  "prevResultWithBoth =
     testIPAMResult\<lparr>res_Interfaces :=
       [\<lparr>intf_Name = ''test-1-t1'', intf_Mac = ''aa:bb:cc:dd:ee:00'', intf_Sandbox = []\<rparr>,
        \<lparr>intf_Name = ''eth0'', intf_Mac = ''aa:bb:cc:dd:ee:ff'', intf_Sandbox = ''/ns/1''\<rparr>]\<rparr>"

definition checkRequest :: "Result \<Rightarrow> CniCmdRequest" where
  "checkRequest prevResult =
     \<lparr>CniArgs = testArgs\<lparr>NetworkConfiguration :=
        Some (testNetworkConfig\<lparr>nc_PrevResult := Some prevResult\<rparr>)\<rparr>\<rparr>"

definition checkConfig :: "Result \<Rightarrow> CNIConfig" where
  "checkConfig prevResult =
     \<lparr>cfg_NetworkConfig = testNetworkConfig1\<lparr>nc_MTU := 1500, nc_PrevResult := Some prevResult\<rparr>,
      cfg_CniCmdArgs = testArgs\<lparr>NetworkConfiguration :=
        Some (testNetworkConfig1\<lparr>nc_PrevResult := Some prevResult\<rparr>)\<rparr>,
      cfg_k8sArgs = \<lparr>K8S_POD_NAME = ''test-1'', K8S_POD_NAMESPACE = ''t1'',
                     K8S_POD_INFRA_CONTAINER_ID = ''test-111111''\<rparr>\<rparr>"

text \<open>
  A node at startup. The store, rebuilt from OVSDB, holds the interfaces of the pods
  \<open>broken/test\<close>, \<open>test-1/t1\<close> and \<open>ghost/test\<close> and the gateway's record, which has no pod
  name. The pods listed for the node are \<open>broken/test\<close> and \<open>test-1/t1\<close>, a host-network
  pod, and a pod without record; \<open>ghost/test\<close> is gone. Re-installing the flows fails for
  the interface of \<open>broken/test\<close>.
\<close>

definition startupStore :: InterfaceStore where
  "startupStore =
     [(''broken-test'', testInterfaceConfig ''broken'' ''test'' ''c-broken''),
      (''test-1-t1'', testInterfaceConfig ''test-1'' ''t1'' ''dummy-0''),
      (''ghost-test'', testInterfaceConfig ''ghost'' ''test'' ''c-ghost''),
      (''gw0'', (testInterfaceConfig [] [] [])\<lparr>ic_IfaceName := ''gw0''\<rparr>)]"

definition startupPods :: "Pod list" where
  "startupPods =
     [\<lparr>pod_Name = ''broken'', pod_Namespace = ''test'', pod_HostNetwork = False\<rparr>,
      \<lparr>pod_Name = ''test-1'', pod_Namespace = ''t1'', pod_HostNetwork = False\<rparr>,
      \<lparr>pod_Name = ''kube-proxy'', pod_Namespace = ''kube-system'', pod_HostNetwork = True\<rparr>,
      \<lparr>pod_Name = ''new'', pod_Namespace = ''test'', pod_HostNetwork = False\<rparr>]"

definition startupAgent :: "nodeState agent" where
  "startupAgent = \<lparr>ifaceStore = startupStore, world = cleanNode, trace = []\<rparr>"







text \<open>
  The node with the test container attached: the store holds the record that the ADD of
  container \<open>dummy-0\<close> of the pod \<open>test-1/t1\<close> made. \<open>otherRequest\<close> is the test request
  with another container id, \<open>other-9\<close>, for the same pod.
\<close>

definition attachedAgent :: "nodeState agent" where
  "attachedAgent =
     \<lparr>ifaceStore = [(''test-1-t1'', testInterfaceConfig ''test-1'' ''t1'' ''dummy-0'')],
      world = \<lparr>ipamAllocated = True, ovsPortExists = True, flowsInstalled = True\<rparr>,
      trace = []\<rparr>"

definition otherRequest :: CniCmdRequest where
  "otherRequest = \<lparr>CniArgs = testArgs\<lparr>ContainerId := ''other-9''\<rparr>\<rparr>"
section \<open>Properties of the result normalisation\<close>






text \<open>On an address and a mask of one length \<open>net.IP.Mask\<close> is the bytewise conjunction.\<close>

lemma IP_Mask_same_length:
  "length ip = length msk \<Longrightarrow> IP_Mask ip msk = map2 (\<lambda>a b. a AND b) ip msk"
  by (auto simp: IP_Mask_def Let_def IPv4len_def IPv6len_def)



















section \<open>Properties of the OVSDB client\<close>

lemma GetOFPort_on_error:
  "commit [OpWait (GetOFPort_wait ifName), OpSelect (GetOFPort_select ifName)] = Inl (err, temporary)
   \<Longrightarrow> GetOFPort commit ifName = Returns (0, Some (NewTransactionError err temporary))"
  by (simp add: GetOFPort_def)

lemma GetOFPort_on_rows:
  "commit [OpWait (GetOFPort_wait ifName), OpSelect (GetOFPort_select ifName)]
     = Inr (r0 # \<lparr>Rows = JObject flds # rows\<rparr> # rest)
   \<Longrightarrow> map_of flds ''ofport'' = Some (JNumber n)
   \<Longrightarrow> GetOFPort commit ifName = Returns (word_of_int n, None)"
  by (simp add: GetOFPort_def go_bind_def)

text \<open>
  Claim C3, as the code has it. \<open>GetOFPort\<close> commits one transaction of two operations: a
  \<open>wait\<close> on table Interface, column ofport, timeout 1000 ms, predicate \<open>!=\<close> against the
  empty set, for the row of the given name, then a \<open>select\<close> of ofport for the same row; the
  result depends on nothing else of the database. When the commit reports an error, which is
  how a timed-out wait reaches the client, it returns the value 0 together with a transaction
  error carrying the commit's message and its temporary flag; when the commit succeeds and
  the selected row's ofport is the number n it returns n and no error.
\<close>

theorem GetOFPort_wait_then_select:
  "(commit [OpWait \<lparr>wait_Table = ''Interface'', wait_Timeout = 1000,
                    wait_Columns = [''ofport''], wait_Until = ''!='',
                    wait_Rows = [JObject [(''ofport'', JArray [JString ''set'', JArray []])]],
                    wait_Where = [Cond ''name'' ''=='' (JString ifName)]\<rparr>,
            OpSelect \<lparr>sel_Table = ''Interface'', sel_Columns = [''ofport''],
                      sel_Where = [Cond ''name'' ''=='' (JString ifName)]\<rparr>]
      = commit' [OpWait (GetOFPort_wait ifName), OpSelect (GetOFPort_select ifName)]
     \<longrightarrow> GetOFPort commit ifName = GetOFPort commit' ifName)
   \<and> (commit [OpWait (GetOFPort_wait ifName), OpSelect (GetOFPort_select ifName)]
        = Inl (err, temporary)
     \<longrightarrow> GetOFPort commit ifName
          = Returns (0, Some \<lparr>err_Msg = err, err_Temporary = temporary\<rparr>))
   \<and> (commit [OpWait (GetOFPort_wait ifName), OpSelect (GetOFPort_select ifName)]
        = Inr [r0, \<lparr>Rows = [JObject [(''ofport'', JNumber n)]]\<rparr>]
     \<longrightarrow> GetOFPort commit ifName = Returns (word_of_int n, None))"
proof (intro conjI impI)
  assume "commit [OpWait \<lparr>wait_Table = ''Interface'', wait_Timeout = 1000,
                    wait_Columns = [''ofport''], wait_Until = ''!='',
                    wait_Rows = [JObject [(''ofport'', JArray [JString ''set'', JArray []])]],
                    wait_Where = [Cond ''name'' ''=='' (JString ifName)]\<rparr>,
            OpSelect \<lparr>sel_Table = ''Interface'', sel_Columns = [''ofport''],
                      sel_Where = [Cond ''name'' ''=='' (JString ifName)]\<rparr>]
      = commit' [OpWait (GetOFPort_wait ifName), OpSelect (GetOFPort_select ifName)]"
  then have "commit [OpWait (GetOFPort_wait ifName), OpSelect (GetOFPort_select ifName)]
      = commit' [OpWait (GetOFPort_wait ifName), OpSelect (GetOFPort_select ifName)]"
    by (simp add: GetOFPort_wait_def GetOFPort_select_def emptyOVSDBSet_def)
  then show "GetOFPort commit ifName = GetOFPort commit' ifName"
    by (simp add: GetOFPort_def)
next
  assume "commit [OpWait (GetOFPort_wait ifName), OpSelect (GetOFPort_select ifName)]
        = Inl (err, temporary)"
  then show "GetOFPort commit ifName
          = Returns (0, Some \<lparr>err_Msg = err, err_Temporary = temporary\<rparr>)"
    by (simp add: GetOFPort_on_error NewTransactionError_def)
next
  assume "commit [OpWait (GetOFPort_wait ifName), OpSelect (GetOFPort_select ifName)]
        = Inr [r0, \<lparr>Rows = [JObject [(''ofport'', JNumber n)]]\<rparr>]"
  then show "GetOFPort commit ifName = Returns (word_of_int n, None)"
    by (rule GetOFPort_on_rows) simp
qed

text \<open>
  The theorem at a commit whose wait timed out, for the interface \<open>p1\<close>: the value is 0 and
  the error is the commit's.
\<close>

theorem GetOFPort_wait_then_select_witness:
  "timedOutCommit [OpWait (GetOFPort_wait ''p1''), OpSelect (GetOFPort_select ''p1'')]
     = Inl (''timed out'', True)
   \<and> GetOFPort timedOutCommit ''p1''
     = Returns (0, Some \<lparr>err_Msg = ''timed out'', err_Temporary = True\<rparr>)"
  using GetOFPort_wait_then_select
    [of timedOutCommit "''p1''" timedOutCommit "''timed out''" True undefined undefined]
  by (simp add: timedOutCommit_def)

text \<open>
  Claim C3 as the specification states it says that a timed-out wait gives the value 0 and
  no error. At the timed-out commit the function does return an error.
\<close>

theorem GetOFPort_timeout_counterexample:
  "GetOFPort timedOutCommit ''p1'' \<noteq> Returns (0, None)
   \<and> GetOFPort timedOutCommit ''p1''
     = Returns (0, Some \<lparr>err_Msg = ''timed out'', err_Temporary = True\<rparr>)"
  by (simp add: GetOFPort_def timedOutCommit_def NewTransactionError_def)

lemma GetPortData_commit_error:
  "commit [OpSelect (GetPortData_port_select portUUID), OpSelect (GetPortData_intf_select ifName)]
     = Inl (err, temporary)
   \<Longrightarrow> GetPortData commit getIdList portUUID ifName
       = Returns (None, Some (NewTransactionError err temporary))"
  by (simp add: GetPortData_def)

lemma GetPortData_no_port:
  "commit [OpSelect (GetPortData_port_select portUUID), OpSelect (GetPortData_intf_select ifName)]
     = Inr (r0 # rest)
   \<Longrightarrow> Rows r0 = []
   \<Longrightarrow> GetPortData commit getIdList portUUID ifName = Returns (None, None)"
  by (simp add: GetPortData_def go_bind_def)

lemma GetPortData_no_interface:
  "commit [OpSelect (GetPortData_port_select portUUID), OpSelect (GetPortData_intf_select ifName)]
     = Inr (r0 # r1 # rest)
   \<Longrightarrow> Rows r0 \<noteq> [] \<Longrightarrow> Rows r1 = []
   \<Longrightarrow> GetPortData commit getIdList portUUID ifName
       = Returns (None, Some (NewTransactionError ''Interface not exists'' False))"
  by (simp add: GetPortData_def go_bind_def)

lemma GetPortData_not_attached:
  "commit [OpSelect (GetPortData_port_select portUUID), OpSelect (GetPortData_intf_select ifName)]
     = Inr (r0 # r1 # rest)
   \<Longrightarrow> Rows r0 = JObject port # rows0 \<Longrightarrow> Rows r1 = JObject intf # rows1
   \<Longrightarrow> map_of intf ''_uuid'' = Some (JArray (tag # JString ifUUID # others))
   \<Longrightarrow> map_of port ''interfaces'' = Some (JArray ifs)
   \<Longrightarrow> ifUUID \<notin> set (getIdList ifs)
   \<Longrightarrow> GetPortData commit getIdList portUUID ifName
       = Returns (None, Some (NewTransactionError ''Interface is not attached to the port'' False))"
  by (simp add: GetPortData_def go_bind_def)

lemma go_bind_Returns_iff:
  "go_bind m f = Returns y \<longleftrightarrow> (\<exists>x. m = Returns x \<and> f x = Returns y)"
  by (cases m) (simp_all add: go_bind_def)

lemma GetPortData_data_no_error:
  "GetPortData commit getIdList portUUID ifName = Returns (Some pd, e) \<Longrightarrow> e = None"
  unfolding GetPortData_def
  by (auto simp: go_bind_Returns_iff split: sum.splits if_splits prod.splits)

text \<open>
  Claim C10. \<open>GetPortData\<close> commits one transaction of two selects (the port by UUID, the
  interface by name); when the commit succeeds with its two results, the lookups are checked
  in this order and treated differently:
  \<^item> no Port row for the UUID: it returns nil port data and a nil error, whatever the
    Interface select found;
  \<^item> a Port row but no Interface row for the name: nil port data and a permanent error
    (temporary is false);
  \<^item> both rows, and the interface's UUID is not among the port's interfaces: nil port data
    and a permanent error.
  Whenever port data is returned the error is nil as well, so a nil error alone does not
  tell a missing port from a port that was found.
\<close>

theorem GetPortData_lookups_asymmetric:
  assumes "commit [OpSelect \<lparr>sel_Table = ''Port'',
                             sel_Columns = [''name'', ''external_ids'', ''interfaces''],
                             sel_Where = [Cond ''_uuid'' ''==''
                                            (JArray [JString ''uuid'', JString portUUID])]\<rparr>,
                   OpSelect \<lparr>sel_Table = ''Interface'',
                             sel_Columns = [''_uuid'', ''ofport''],
                             sel_Where = [Cond ''name'' ''=='' (JString ifName)]\<rparr>]
             = Inr [r0, r1]"
  shows "(Rows r0 = [] \<longrightarrow>
            GetPortData commit getIdList portUUID ifName = Returns (None, None))
       \<and> (Rows r0 \<noteq> [] \<and> Rows r1 = [] \<longrightarrow>
            GetPortData commit getIdList portUUID ifName
              = Returns (None, Some \<lparr>err_Msg = ''Interface not exists'',
                                      err_Temporary = False\<rparr>))
       \<and> (Rows r0 = JObject port # rows0 \<and> Rows r1 = JObject intf # rows1
            \<and> map_of intf ''_uuid'' = Some (JArray [tag, JString ifUUID])
            \<and> map_of port ''interfaces'' = Some (JArray ifs)
            \<and> ifUUID \<notin> set (getIdList ifs) \<longrightarrow>
            GetPortData commit getIdList portUUID ifName
              = Returns (None, Some \<lparr>err_Msg = ''Interface is not attached to the port'',
                                      err_Temporary = False\<rparr>))
       \<and> (\<forall>pd e. GetPortData commit getIdList portUUID ifName = Returns (Some pd, e) \<longrightarrow>
            e = None)"
proof -
  have c: "commit [OpSelect (GetPortData_port_select portUUID),
                   OpSelect (GetPortData_intf_select ifName)] = Inr (r0 # r1 # [])"
    using assms by (simp add: GetPortData_port_select_def GetPortData_intf_select_def)
  have a: "Rows r0 = [] \<Longrightarrow>
      GetPortData commit getIdList portUUID ifName = Returns (None, None)"
    using c by (rule GetPortData_no_port)
  have b: "Rows r0 \<noteq> [] \<Longrightarrow> Rows r1 = [] \<Longrightarrow>
      GetPortData commit getIdList portUUID ifName
        = Returns (None, Some (NewTransactionError ''Interface not exists'' False))"
    using c by (rule GetPortData_no_interface)
  have d: "Rows r0 = JObject port # rows0 \<Longrightarrow> Rows r1 = JObject intf # rows1
      \<Longrightarrow> map_of intf ''_uuid'' = Some (JArray [tag, JString ifUUID])
      \<Longrightarrow> map_of port ''interfaces'' = Some (JArray ifs)
      \<Longrightarrow> ifUUID \<notin> set (getIdList ifs)
      \<Longrightarrow> GetPortData commit getIdList portUUID ifName
        = Returns (None,
            Some (NewTransactionError ''Interface is not attached to the port'' False))"
    using c by (rule GetPortData_not_attached)
  have e: "\<And>pd e. GetPortData commit getIdList portUUID ifName = Returns (Some pd, e)
      \<Longrightarrow> e = None"
    by (rule GetPortData_data_no_error)
  show ?thesis
    using a b d e by (auto simp: NewTransactionError_def)
qed

text \<open>
  The theorem at four databases, for port UUID \<open>port-1\<close> and interface name \<open>p1\<close>: neither
  row exists; the port exists and the interface does not; both exist and the interface
  belongs to another port; both exist and are attached.
\<close>

theorem GetPortData_lookups_asymmetric_witness:
  "GetPortData (rowsCommit [] []) idListOfSet ''port-1'' ''p1'' = Returns (None, None)
   \<and> GetPortData (rowsCommit [examplePortRow] []) idListOfSet ''port-1'' ''p1''
       = Returns (None, Some \<lparr>err_Msg = ''Interface not exists'', err_Temporary = False\<rparr>)
   \<and> GetPortData (rowsCommit [examplePortRow] [otherIntfRow]) idListOfSet ''port-1'' ''p1''
       = Returns (None, Some \<lparr>err_Msg = ''Interface is not attached to the port'',
                               err_Temporary = False\<rparr>)
   \<and> GetPortData (rowsCommit [examplePortRow] [exampleIntfRow]) idListOfSet ''port-1'' ''p1''
       = Returns (Some \<lparr>pd_UUID = ''port-1'', pd_Name = ''p1'', pd_ExternalIDs = Map.empty,
                        pd_IFName = ''p1'', pd_OFPort = 1\<rparr>, None)"
proof (intro conjI)
  show "GetPortData (rowsCommit [] []) idListOfSet ''port-1'' ''p1'' = Returns (None, None)"
    using GetPortData_lookups_asymmetric
      [where commit = "rowsCommit [] []" and portUUID = "''port-1''" and ifName = "''p1''"
         and ?r0.0 = "\<lparr>Rows = []\<rparr>" and ?r1.0 = "\<lparr>Rows = []\<rparr>"
         and getIdList = idListOfSet]
    by (simp add: rowsCommit_def)
  show "GetPortData (rowsCommit [examplePortRow] []) idListOfSet ''port-1'' ''p1''
       = Returns (None, Some \<lparr>err_Msg = ''Interface not exists'', err_Temporary = False\<rparr>)"
    using GetPortData_lookups_asymmetric
      [where commit = "rowsCommit [examplePortRow] []" and portUUID = "''port-1''"
         and ifName = "''p1''" and ?r0.0 = "\<lparr>Rows = [examplePortRow]\<rparr>"
         and ?r1.0 = "\<lparr>Rows = []\<rparr>" and getIdList = idListOfSet]
    by (simp add: rowsCommit_def)
  show "GetPortData (rowsCommit [examplePortRow] [otherIntfRow]) idListOfSet ''port-1'' ''p1''
       = Returns (None, Some \<lparr>err_Msg = ''Interface is not attached to the port'',
                               err_Temporary = False\<rparr>)"
    using GetPortData_lookups_asymmetric
      [where commit = "rowsCommit [examplePortRow] [otherIntfRow]" and portUUID = "''port-1''"
         and ifName = "''p1''" and ?r0.0 = "\<lparr>Rows = [examplePortRow]\<rparr>"
         and ?r1.0 = "\<lparr>Rows = [otherIntfRow]\<rparr>" and getIdList = idListOfSet
         and port = "[(''name'', JString ''p1''),
            (''external_ids'', JArray [JString ''map'', JArray []]),
            (''interfaces'', JArray [JString ''uuid'', JString ''if-1''])]"
         and ?rows0.0 = "[]"
         and intf = "[(''_uuid'', JArray [JString ''uuid'', JString ''if-2'']),
                      (''ofport'', JNumber 2)]"
         and ?rows1.0 = "[]" and tag = "JString ''uuid''" and ifUUID = "''if-2''"
         and ifs = "[JString ''uuid'', JString ''if-1'']"]
    by (simp add: rowsCommit_def examplePortRow_def otherIntfRow_def)
  show "GetPortData (rowsCommit [examplePortRow] [exampleIntfRow]) idListOfSet ''port-1'' ''p1''
       = Returns (Some \<lparr>pd_UUID = ''port-1'', pd_Name = ''p1'', pd_ExternalIDs = Map.empty,
                        pd_IFName = ''p1'', pd_OFPort = 1\<rparr>, None)"
    by (simp add: GetPortData_def rowsCommit_def examplePortRow_def exampleIntfRow_def
        go_bind_def buildPortDataCommon_def buildMapFromOVSDBMap_def)
qed

section \<open>Properties of the container access arbitrator\<close>

text \<open>
  The invariant of the arbitrator: the busy set holds exactly the ids between a returned
  \<open>lockContainer\<close> and the matching \<open>unlockContainer\<close>, and no id has two holders.
\<close>

lemma lockContainer_test_inv:
  assumes "busyContainerIDs s = {c. \<exists>g. goroutines s g = Holding c}"
    and "\<forall>g h c. goroutines s g = Holding c \<longrightarrow> goroutines s h = Holding c \<longrightarrow> g = h"
    and "\<forall>c. goroutines s g \<noteq> Holding c"
    and "lockContainer_test g c s = (s', evs)"
  shows "busyContainerIDs s' = {c. \<exists>g. goroutines s' g = Holding c}
       \<and> (\<forall>g h c. goroutines s' g = Holding c \<longrightarrow> goroutines s' h = Holding c \<longrightarrow> g = h)"
proof (cases "c \<in> busyContainerIDs s")
  case True
  then have s': "s' = s\<lparr>goroutines := (goroutines s)(g := Parked c)\<rparr>"
    using assms(4) by (simp add: lockContainer_test_def)
  show ?thesis
    using assms(1,2,3) unfolding s' by (auto split: if_splits)
next
  case False
  then have s': "s' = s\<lparr>busyContainerIDs := insert c (busyContainerIDs s),
                       goroutines := (goroutines s)(g := Holding c)\<rparr>"
    using assms(4) by (simp add: lockContainer_test_def)
  have free: "\<forall>h. goroutines s h \<noteq> Holding c"
    using False assms(1) by auto
  show ?thesis
    using assms(1,2,3) free unfolding s' by (auto split: if_splits)
qed

lemma broadcast_Holding [simp]: "broadcast st = Holding c \<longleftrightarrow> st = Holding c"
  by (cases st) (simp_all add: broadcast_def)

lemma unlockContainer_inv:
  assumes "busyContainerIDs s = {c. \<exists>g. goroutines s g = Holding c}"
    and "\<forall>g h c. goroutines s g = Holding c \<longrightarrow> goroutines s h = Holding c \<longrightarrow> g = h"
    and "goroutines s g = Holding c"
    and "unlockContainer g c s = (s', evs)"
  shows "busyContainerIDs s' = {c. \<exists>g. goroutines s' g = Holding c}
       \<and> (\<forall>g h c. goroutines s' g = Holding c \<longrightarrow> goroutines s' h = Holding c \<longrightarrow> g = h)"
proof -
  have s': "s' = s\<lparr>busyContainerIDs := busyContainerIDs s - {c},
                   goroutines := (\<lambda>h. broadcast (((goroutines s)(g := Outside)) h))\<rparr>"
    using assms(4) by (simp add: unlockContainer_def)
  have gs': "\<And>h x. goroutines s' h = Holding x
      \<longleftrightarrow> h \<noteq> g \<and> goroutines s h = Holding x"
    unfolding s' by simp
  have b': "busyContainerIDs s' = busyContainerIDs s - {c}"
    unfolding s' by simp
  have "{x. \<exists>h. h \<noteq> g \<and> goroutines s h = Holding x}
      = {x. \<exists>h. goroutines s h = Holding x} - {c}"
  proof (intro set_eqI iffI)
    fix x assume "x \<in> {x. \<exists>h. h \<noteq> g \<and> goroutines s h = Holding x}"
    then obtain h where h: "h \<noteq> g" "goroutines s h = Holding x" by blast
    with assms(2,3) have "x \<noteq> c" by blast
    with h show "x \<in> {x. \<exists>h. goroutines s h = Holding x} - {c}" by blast
  next
    fix x assume "x \<in> {x. \<exists>h. goroutines s h = Holding x} - {c}"
    then obtain h where h: "goroutines s h = Holding x" "x \<noteq> c" by blast
    with assms(3) have "h \<noteq> g" by auto
    with h show "x \<in> {x. \<exists>h. h \<noteq> g \<and> goroutines s h = Holding x}" by blast
  qed
  then have busy: "busyContainerIDs s' = {c. \<exists>g. goroutines s' g = Holding c}"
    by (simp only: b' assms(1) gs')
  have "\<forall>g h c. goroutines s' g = Holding c \<longrightarrow> goroutines s' h = Holding c \<longrightarrow> g = h"
    using assms(2) by (simp only: gs') blast
  with busy show ?thesis by blast
qed

lemma step_inv:
  assumes "busyContainerIDs s = {c. \<exists>g. goroutines s g = Holding c}"
    and "\<forall>g h c. goroutines s g = Holding c \<longrightarrow> goroutines s h = Holding c \<longrightarrow> g = h"
    and "step s a = Some (s', evs)"
  shows "busyContainerIDs s' = {c. \<exists>g. goroutines s' g = Holding c}
       \<and> (\<forall>g h c. goroutines s' g = Holding c \<longrightarrow> goroutines s' h = Holding c \<longrightarrow> g = h)"
proof (cases a)
  case (Lock g c)
  with assms(3) obtain evs' where "goroutines s g = Outside"
      and "lockContainer_test g c s = (s', evs')"
    by (auto simp: step_def split: gstate.splits prod.splits)
  then show ?thesis
    using lockContainer_test_inv [OF assms(1,2), of g c s' evs'] by simp
next
  case (Resume g)
  with assms(3) obtain c where "goroutines s g = Woken c"
      and "lockContainer_test g c s = (s', evs)"
    by (auto simp: step_def split: gstate.splits)
  then show ?thesis
    using lockContainer_test_inv [OF assms(1,2), of g c s' evs] by simp
next
  case (Unlock g)
  with assms(3) obtain c where "goroutines s g = Holding c"
      and "unlockContainer g c s = (s', evs)"
    by (auto simp: step_def split: gstate.splits)
  then show ?thesis
    using unlockContainer_inv [OF assms(1,2), of g c s' evs] by simp
qed

lemma run_inv:
  "busyContainerIDs s = {c. \<exists>g. goroutines s g = Holding c}
   \<Longrightarrow> \<forall>g h c. goroutines s g = Holding c \<longrightarrow> goroutines s h = Holding c \<longrightarrow> g = h
   \<Longrightarrow> run s as = Some (s', evs)
   \<Longrightarrow> busyContainerIDs s' = {c. \<exists>g. goroutines s' g = Holding c}
       \<and> (\<forall>g h c. goroutines s' g = Holding c \<longrightarrow> goroutines s' h = Holding c \<longrightarrow> g = h)"
proof (induction as arbitrary: s evs)
  case Nil
  then show ?case by simp
next
  case (Cons a as)
  from Cons.prems(3) obtain s1 evs1 evs2 where st: "step s a = Some (s1, evs1)"
      and rn: "run s1 as = Some (s', evs2)"
    by (auto split: option.splits prod.splits)
  from step_inv [OF Cons.prems(1,2) st] Cons.IH [OF _ _ rn] show ?case by blast
qed

lemma reachable_inv:
  assumes "run newContainerAccessArbitrator as = Some (s, evs)"
  shows "busyContainerIDs s = {c. \<exists>g. goroutines s g = Holding c}
       \<and> (\<forall>g h c. goroutines s g = Holding c \<longrightarrow> goroutines s h = Holding c \<longrightarrow> g = h)"
  by (rule run_inv [OF _ _ assms]) (simp_all add: newContainerAccessArbitrator_def)

lemma lockContainer_test_effect:
  assumes "lockContainer_test g c0 s = (s1, evs1)"
    and "\<forall>x. goroutines s g \<noteq> Holding x"
  shows "(c0 \<in> busyContainerIDs s \<longrightarrow>
            evs1 = [] \<and> busyContainerIDs s1 = busyContainerIDs s
            \<and> (\<forall>h x. goroutines s1 h = Holding x \<longleftrightarrow> goroutines s h = Holding x))
       \<and> (c0 \<notin> busyContainerIDs s \<longrightarrow>
            evs1 = [Acquired g c0] \<and> busyContainerIDs s1 = insert c0 (busyContainerIDs s)
            \<and> (\<forall>h x. goroutines s1 h = Holding x \<longleftrightarrow>
                  (h = g \<and> x = c0) \<or> goroutines s h = Holding x))"
  using assms by (auto simp: lockContainer_test_def split: if_splits)

lemma unlockContainer_effect:
  assumes "unlockContainer g c0 s = (s1, evs1)" and "goroutines s g = Holding c0"
  shows "evs1 = [Released g c0] \<and> busyContainerIDs s1 = busyContainerIDs s - {c0}
       \<and> goroutines s1 g = Outside
       \<and> (\<forall>h x. goroutines s1 h = Holding x \<longleftrightarrow> h \<noteq> g \<and> goroutines s h = Holding x)
       \<and> (\<forall>h x. goroutines s h = Parked x \<longrightarrow> goroutines s1 h = Woken x)"
  using assms by (auto simp: unlockContainer_def broadcast_def split: gstate.splits if_splits)

lemma lock_step_oneAtATime:
  assumes busy: "busyContainerIDs s = {c. \<exists>g. goroutines s g = Holding c}"
    and hold: "holderIs s c holder"
    and notHolding: "\<forall>x. goroutines s g \<noteq> Holding x"
    and test: "lockContainer_test g c0 s = (s1, evs1)"
  shows "\<exists>holder1. holderIs s1 c holder1
           \<and> (\<forall>evs2. oneAtATime c holder1 evs2 \<longrightarrow> oneAtATime c holder (evs1 @ evs2))"
proof (cases "c0 \<in> busyContainerIDs s")
  case True
  with lockContainer_test_effect [OF test notHolding]
  have e: "evs1 = []" and same: "\<forall>h x. goroutines s1 h = Holding x \<longleftrightarrow> goroutines s h = Holding x"
    by blast+
  have "holderIs s1 c holder"
    using hold same by (simp add: holderIs_def split: option.splits)
  then show ?thesis using e by auto
next
  case False
  with lockContainer_test_effect [OF test notHolding]
  have e: "evs1 = [Acquired g c0]"
    and new: "\<forall>h x. goroutines s1 h = Holding x \<longleftrightarrow>
                (h = g \<and> x = c0) \<or> goroutines s h = Holding x"
    by blast+
  show ?thesis
  proof (cases "c0 = c")
    case True
    have free: "\<forall>h. goroutines s h \<noteq> Holding c"
      using False busy True by auto
    then have "holder = None"
      using hold by (cases holder) (simp_all add: holderIs_def)
    moreover have "holderIs s1 c (Some g)"
      using new True by (simp add: holderIs_def)
    ultimately show ?thesis using e True by auto
  next
    case False
    have "holderIs s1 c holder"
      using hold new False by (auto simp: holderIs_def split: option.splits)
    then show ?thesis using e False by auto
  qed
qed

lemma step_oneAtATime:
  assumes busy: "busyContainerIDs s = {c. \<exists>g. goroutines s g = Holding c}"
    and uniq: "\<forall>g h c. goroutines s g = Holding c \<longrightarrow> goroutines s h = Holding c \<longrightarrow> g = h"
    and hold: "holderIs s c holder"
    and st: "step s a = Some (s1, evs1)"
  shows "\<exists>holder1. holderIs s1 c holder1
           \<and> (\<forall>evs2. oneAtATime c holder1 evs2 \<longrightarrow> oneAtATime c holder (evs1 @ evs2))"
proof (cases a)
  case (Lock g c0)
  with st obtain evs' where out: "goroutines s g = Outside"
      and test: "lockContainer_test g c0 s = (s1, evs')" and e: "evs1 = Arrived g c0 # evs'"
    by (auto simp: step_def split: gstate.splits prod.splits)
  from out have "\<forall>x. goroutines s g \<noteq> Holding x" by simp
  from lock_step_oneAtATime [OF busy hold this test] show ?thesis
    unfolding e by auto
next
  case (Resume g)
  with st obtain c0 where out: "goroutines s g = Woken c0"
      and test: "lockContainer_test g c0 s = (s1, evs1)"
    by (auto simp: step_def split: gstate.splits)
  from out have "\<forall>x. goroutines s g \<noteq> Holding x" by simp
  from lock_step_oneAtATime [OF busy hold this test] show ?thesis .
next
  case (Unlock g)
  with st obtain c0 where held: "goroutines s g = Holding c0"
      and un: "unlockContainer g c0 s = (s1, evs1)"
    by (auto simp: step_def split: gstate.splits)
  from unlockContainer_effect [OF un held]
  have e: "evs1 = [Released g c0]"
    and rest: "\<forall>h x. goroutines s1 h = Holding x \<longleftrightarrow> h \<noteq> g \<and> goroutines s h = Holding x"
    by blast+
  show ?thesis
  proof (cases "c0 = c")
    case True
    have "holder = Some g"
    proof (cases holder)
      case None
      with hold held True show ?thesis by (simp add: holderIs_def)
    next
      case (Some h)
      with hold have "goroutines s h = Holding c" by (simp add: holderIs_def)
      with held True uniq have "h = g" by blast
      with Some show ?thesis by simp
    qed
    moreover have "holderIs s1 c None"
      unfolding holderIs_def using rest held True uniq by auto
    ultimately show ?thesis using e True by auto
  next
    case False
    have "holderIs s1 c holder"
      using hold rest held False by (auto simp: holderIs_def split: option.splits)
    then show ?thesis using e False by auto
  qed
qed

lemma run_oneAtATime:
  "busyContainerIDs s = {c. \<exists>g. goroutines s g = Holding c}
   \<Longrightarrow> \<forall>g h c. goroutines s g = Holding c \<longrightarrow> goroutines s h = Holding c \<longrightarrow> g = h
   \<Longrightarrow> holderIs s c holder
   \<Longrightarrow> run s as = Some (s', evs)
   \<Longrightarrow> oneAtATime c holder evs"
proof (induction as arbitrary: s evs holder)
  case Nil
  then show ?case by simp
next
  case (Cons a as)
  from Cons.prems(4) obtain s1 evs1 evs2 where st: "step s a = Some (s1, evs1)"
      and rn: "run s1 as = Some (s', evs2)" and e: "evs = evs1 @ evs2"
    by (auto split: option.splits prod.splits)
  from step_inv [OF Cons.prems(1,2) st]
  have inv1: "busyContainerIDs s1 = {c. \<exists>g. goroutines s1 g = Holding c}"
    and uniq1: "\<forall>g h c. goroutines s1 g = Holding c \<longrightarrow> goroutines s1 h = Holding c \<longrightarrow> g = h"
    by blast+
  from step_oneAtATime [OF Cons.prems(1,2,3) st] obtain holder1
    where h1: "holderIs s1 c holder1"
      and ext: "\<forall>evs2. oneAtATime c holder1 evs2 \<longrightarrow> oneAtATime c holder (evs1 @ evs2)"
    by blast
  from Cons.IH [OF inv1 uniq1 h1 rn] ext show ?case unfolding e by blast
qed

text \<open>
  Claim C2, as the code has it. In every state reached by any sequence of \<open>lockContainer\<close>
  and \<open>unlockContainer\<close> steps of any number of goroutines, a container id has at most one
  holder and the busy set is exactly the set of held ids. From such a state, a
  \<open>lockContainer(c)\<close> that returns (whether at its first test or after being woken) found
  \<open>c\<close> outside the busy set and has inserted it; \<open>unlockContainer(c)\<close>, called by the
  holder, deletes \<open>c\<close> and wakes every parked goroutine. So the handlers of one container
  id are never between \<open>lockContainer\<close> and \<open>unlockContainer\<close> at the same time. The
  lock is on the container id alone; the entries of the interface store are not under it
  (see the section on the store entry of a held container).
\<close>

theorem arbitrator_one_holder_per_container:
  assumes "run newContainerAccessArbitrator as = Some (s, evs)"
  shows "(\<forall>g h c. goroutines s g = Holding c \<and> goroutines s h = Holding c \<longrightarrow> g = h)
       \<and> busyContainerIDs s = {c. \<exists>g. goroutines s g = Holding c}
       \<and> (\<forall>g c s' evs'. step s (Lock g c) = Some (s', evs') \<and> goroutines s' g = Holding c \<longrightarrow>
             c \<notin> busyContainerIDs s \<and> busyContainerIDs s' = insert c (busyContainerIDs s))
       \<and> (\<forall>g c s' evs'. goroutines s g = Woken c \<and> step s (Resume g) = Some (s', evs')
                          \<and> goroutines s' g = Holding c \<longrightarrow>
             c \<notin> busyContainerIDs s \<and> busyContainerIDs s' = insert c (busyContainerIDs s))
       \<and> (\<forall>g c s' evs'. goroutines s g = Holding c \<and> step s (Unlock g) = Some (s', evs') \<longrightarrow>
             busyContainerIDs s' = busyContainerIDs s - {c}
             \<and> (\<forall>h c'. goroutines s h = Parked c' \<longrightarrow> goroutines s' h = Woken c'))"
proof -
  from reachable_inv [OF assms]
  have busy: "busyContainerIDs s = {c. \<exists>g. goroutines s g = Holding c}"
    and uniq: "\<forall>g h c. goroutines s g = Holding c \<longrightarrow> goroutines s h = Holding c \<longrightarrow> g = h"
    by blast+
  have lock: "\<forall>g c s' evs'. step s (Lock g c) = Some (s', evs') \<and> goroutines s' g = Holding c
      \<longrightarrow> c \<notin> busyContainerIDs s \<and> busyContainerIDs s' = insert c (busyContainerIDs s)"
    by (auto simp: step_def lockContainer_test_def split: gstate.splits if_splits)
  have resume: "\<forall>g c s' evs'. goroutines s g = Woken c \<and> step s (Resume g) = Some (s', evs')
      \<and> goroutines s' g = Holding c
      \<longrightarrow> c \<notin> busyContainerIDs s \<and> busyContainerIDs s' = insert c (busyContainerIDs s)"
    by (auto simp: step_def lockContainer_test_def split: gstate.splits if_splits)
  have unlock: "\<forall>g c s' evs'. goroutines s g = Holding c \<and> step s (Unlock g) = Some (s', evs')
      \<longrightarrow> busyContainerIDs s' = busyContainerIDs s - {c}
        \<and> (\<forall>h c'. goroutines s h = Parked c' \<longrightarrow> goroutines s' h = Woken c')"
    by (auto simp: step_def unlockContainer_def broadcast_def split: gstate.splits if_splits)
  from uniq have one: "\<forall>g h c. goroutines s g = Holding c \<and> goroutines s h = Holding c \<longrightarrow> g = h"
    by blast
  show ?thesis
    by (rule conjI [OF one conjI [OF busy conjI [OF lock conjI [OF resume unlock]]]])
qed

text \<open>
  The theorem after goroutine 0 has taken container \<open>c\<close> and goroutine 1 has asked for it:
  1 is parked and does not hold \<open>c\<close>, the busy set is \<open>{c}\<close>, and the release by 0
  empties the busy set and wakes 1.
\<close>

theorem arbitrator_one_holder_per_container_witness:
  "run newContainerAccessArbitrator [Lock 0 ''c'', Lock 1 ''c'']
     = Some (\<lparr>busyContainerIDs = {''c''},
               goroutines = (\<lambda>g. Outside)(0 := Holding ''c'', 1 := Parked ''c'')\<rparr>,
             [Arrived 0 ''c'', Acquired 0 ''c'', Arrived 1 ''c''])
   \<and> goroutines \<lparr>busyContainerIDs = {''c''},
               goroutines = (\<lambda>g. Outside)(0 := Holding ''c'', 1 := Parked ''c'')\<rparr> 1
     \<noteq> Holding ''c''
   \<and> step \<lparr>busyContainerIDs = {''c''},
               goroutines = (\<lambda>g. Outside)(0 := Holding ''c'', 1 := Parked ''c'')\<rparr> (Unlock 0)
     = Some (\<lparr>busyContainerIDs = {},
               goroutines = (\<lambda>g. Outside)(0 := Outside, 1 := Woken ''c'')\<rparr>,
             [Released 0 ''c''])
   \<and> busyContainerIDs \<lparr>busyContainerIDs = {},
               goroutines = (\<lambda>g. Outside)(0 := Outside, 1 := Woken ''c'')\<rparr>
     = busyContainerIDs \<lparr>busyContainerIDs = {''c''},
               goroutines = (\<lambda>g. Outside)(0 := Holding ''c'', 1 := Parked ''c'')\<rparr> - {''c''}
   \<and> goroutines \<lparr>busyContainerIDs = {},
               goroutines = (\<lambda>g. Outside)(0 := Outside, 1 := Woken ''c'')\<rparr> 1 = Woken ''c''"
proof -
  let ?s = "\<lparr>busyContainerIDs = {''c''},
             goroutines = (\<lambda>g. Outside)(0 := Holding ''c'', 1 := Parked ''c'')\<rparr>"
  let ?s' = "\<lparr>busyContainerIDs = {},
              goroutines = (\<lambda>g. Outside)(0 := Outside, 1 := Woken ''c'')\<rparr>"
  have r: "run newContainerAccessArbitrator [Lock 0 ''c'', Lock 1 ''c'']
     = Some (?s, [Arrived 0 ''c'', Acquired 0 ''c'', Arrived 1 ''c''])"
    by (simp add: newContainerAccessArbitrator_def step_def lockContainer_test_def)
  have u: "step ?s (Unlock 0) = Some (?s', [Released 0 ''c''])"
    by (auto simp: step_def unlockContainer_def broadcast_def fun_eq_iff)
  note t = arbitrator_one_holder_per_container [OF r]
  have a: "goroutines ?s 1 \<noteq> Holding ''c''"
  proof
    assume "goroutines ?s 1 = Holding ''c''"
    moreover have "goroutines ?s 0 = Holding ''c''" by simp
    ultimately have "(0 :: nat) = 1"
      using t [THEN conjunct1, rule_format, of 0 "''c''" 1] by blast
    then show False by simp
  qed
  have h: "goroutines ?s 0 = Holding ''c''" by simp
  have p: "goroutines ?s 1 = Parked ''c''" by simp
  note ul = t [THEN conjunct2, THEN conjunct2, THEN conjunct2, THEN conjunct2, rule_format,
      of 0 "''c''" ?s' "[Released 0 ''c'']", OF conjI [OF h u]]
  from ul have b: "busyContainerIDs ?s' = busyContainerIDs ?s - {''c''}"
    by (rule conjunct1)
  from ul have "\<forall>h c'. goroutines ?s h = Parked c' \<longrightarrow> goroutines ?s' h = Woken c'"
    by (rule conjunct2)
  with p have w: "goroutines ?s' 1 = Woken ''c''" by blast
  show ?thesis
    by (rule conjI [OF r conjI [OF a conjI [OF u conjI [OF b w]]]])
qed

text \<open>
  Claim C5 as the specification states it: the operations on one container complete in the
  order of their arrival at the arbitrator. In the run \<open>overtakingRun\<close> the goroutines
  arrive in the order 0, 1, 2 and complete in the order 0, 2, 1: the broadcast wakes both
  parked goroutines and nothing orders them.
\<close>

theorem arrival_order_counterexample:
  "map_option snd (run newContainerAccessArbitrator overtakingRun)
     = Some [Arrived 0 ''c'', Acquired 0 ''c'', Arrived 1 ''c'', Arrived 2 ''c'',
             Released 0 ''c'', Acquired 2 ''c'', Released 2 ''c'', Acquired 1 ''c'',
             Released 1 ''c'']
   \<and> arrivals ''c'' [Arrived 0 ''c'', Acquired 0 ''c'', Arrived 1 ''c'', Arrived 2 ''c'',
             Released 0 ''c'', Acquired 2 ''c'', Released 2 ''c'', Acquired 1 ''c'',
             Released 1 ''c''] = [0, 1, 2]
   \<and> completions ''c'' [Arrived 0 ''c'', Acquired 0 ''c'', Arrived 1 ''c'', Arrived 2 ''c'',
             Released 0 ''c'', Acquired 2 ''c'', Released 2 ''c'', Acquired 1 ''c'',
             Released 1 ''c''] = [0, 2, 1]
   \<and> completions ''c'' [Arrived 0 ''c'', Acquired 0 ''c'', Arrived 1 ''c'', Arrived 2 ''c'',
             Released 0 ''c'', Acquired 2 ''c'', Released 2 ''c'', Acquired 1 ''c'',
             Released 1 ''c'']
     \<noteq> arrivals ''c'' [Arrived 0 ''c'', Acquired 0 ''c'', Arrived 1 ''c'', Arrived 2 ''c'',
             Released 0 ''c'', Acquired 2 ''c'', Released 2 ''c'', Acquired 1 ''c'',
             Released 1 ''c'']"
  by (simp add: overtakingRun_def newContainerAccessArbitrator_def step_def
      lockContainer_test_def unlockContainer_def broadcast_def)

text \<open>
  Claim C5, as the code has it. For every container id and every interleaving of the
  requests, the operations on the container hold it one at a time: in the events of any run
  every acquisition of the container finds it free and every release is by the goroutine
  that acquired it last, so the locked parts of the operations follow one another in the
  order of acquisition. The order of acquisition need not be the order of arrival.
\<close>

theorem operations_hold_container_one_at_a_time:
  assumes "run newContainerAccessArbitrator as = Some (s, evs)"
  shows "oneAtATime c None evs"
proof -
  have h: "holderIs newContainerAccessArbitrator c None"
    by (simp add: holderIs_def newContainerAccessArbitrator_def)
  have b: "busyContainerIDs newContainerAccessArbitrator
      = {c. \<exists>g. goroutines newContainerAccessArbitrator g = Holding c}"
    by (simp add: newContainerAccessArbitrator_def)
  have u: "\<forall>g h c. goroutines newContainerAccessArbitrator g = Holding c
      \<longrightarrow> goroutines newContainerAccessArbitrator h = Holding c \<longrightarrow> g = h"
    by (simp add: newContainerAccessArbitrator_def)
  from b u h assms show ?thesis by (rule run_oneAtATime)
qed

text \<open>The theorem at \<open>overtakingRun\<close>, whose events alternate for the container \<open>c\<close>.\<close>

theorem operations_hold_container_one_at_a_time_witness:
  "map_option snd (run newContainerAccessArbitrator overtakingRun)
     = Some [Arrived 0 ''c'', Acquired 0 ''c'', Arrived 1 ''c'', Arrived 2 ''c'',
             Released 0 ''c'', Acquired 2 ''c'', Released 2 ''c'', Acquired 1 ''c'',
             Released 1 ''c'']
   \<and> oneAtATime ''c'' None
        [Arrived 0 ''c'', Acquired 0 ''c'', Arrived 1 ''c'', Arrived 2 ''c'',
         Released 0 ''c'', Acquired 2 ''c'', Released 2 ''c'', Acquired 1 ''c'',
         Released 1 ''c'']"
proof -
  have r: "map_option snd (run newContainerAccessArbitrator overtakingRun)
     = Some [Arrived 0 ''c'', Acquired 0 ''c'', Arrived 1 ''c'', Arrived 2 ''c'',
             Released 0 ''c'', Acquired 2 ''c'', Released 2 ''c'', Acquired 1 ''c'',
             Released 1 ''c'']"
    by (simp add: overtakingRun_def newContainerAccessArbitrator_def step_def
        lockContainer_test_def unlockContainer_def broadcast_def)
  then obtain s where "run newContainerAccessArbitrator overtakingRun
     = Some (s, [Arrived 0 ''c'', Acquired 0 ''c'', Arrived 1 ''c'', Arrived 2 ''c'',
             Released 0 ''c'', Acquired 2 ''c'', Released 2 ''c'', Acquired 1 ''c'',
             Released 1 ''c''])"
    by (cases "run newContainerAccessArbitrator overtakingRun") auto
  from operations_hold_container_one_at_a_time [OF this, of "''c''"]
  show ?thesis by (rule conjI [OF r])
qed

section \<open>Properties of the interface store\<close>

lemma update_fresh: "k \<notin> fst ` set al \<Longrightarrow> AList.update k v al = al @ [(k, v)]"
  by (induction al) auto

lemma loadPorts_append:
  "distinct (map fst st @ map pd_Name (filter hasContainerID ports))
   \<Longrightarrow> loadPorts ports st
       = st @ map (\<lambda>p. (pd_Name p, interfaceOfPort p)) (filter hasContainerID ports)"
proof (induction ports arbitrary: st)
  case Nil
  then show ?case by simp
next
  case (Cons p ports)
  show ?case
  proof (cases "hasContainerID p")
    case True
    from Cons.prems True have fresh: "pd_Name p \<notin> fst ` set st"
      by auto
    have "ic_IfaceName (interfaceOfPort p) = pd_Name p"
      by (simp add: interfaceOfPort_def)
    with fresh have add: "AddInterface (interfaceOfPort p) st = st @ [(pd_Name p, interfaceOfPort p)]"
      by (simp add: AddInterface_def update_fresh)
    from Cons.prems True
    have "distinct (map fst (st @ [(pd_Name p, interfaceOfPort p)])
            @ map pd_Name (filter hasContainerID ports))"
      by auto
    from Cons.IH [OF this] True add show ?thesis by simp
  next
    case False
    with Cons show ?thesis by simp
  qed
qed

lemma Initialize_ok:
  assumes "distinct (map pd_Name (filter hasContainerID ports))"
  shows "Initialize (ports, None) uplinkIfName gatewayIfName st
       = (map (\<lambda>p. (pd_Name p, interfaceOfPort p)) (filter hasContainerID ports), None)"
  using loadPorts_append [of "[]" ports] assms by (simp add: Initialize_def)

text \<open>
  Claim C6. For every invocation of \<open>Initialize\<close>, whatever the store held before: if the
  port list call returned an error the store ends empty, \<open>Len\<close> is 0 and that error is
  returned. Otherwise no error is returned and the store holds exactly one record per port
  row whose external ids carry a non-empty container id, in the rows' order and under the
  row's name: container id, pod name, pod namespace, MAC and IP are read from the external
  ids, OFPort and UUID are the row's; a row without the marker has no record. (The rows
  that carry the marker have different names, as the ports of one OVS database do.)
\<close>

theorem Initialize_rebuilds_store:
  "Initialize (ports, Some err) uplinkIfName gatewayIfName st = ([], Some err)
   \<and> Len (fst (Initialize (ports, Some err) uplinkIfName gatewayIfName st)) = 0
   \<and> (distinct (map pd_Name (filter hasContainerID ports)) \<longrightarrow>
        snd (Initialize (ports, None) uplinkIfName gatewayIfName st) = None
      \<and> map snd (fst (Initialize (ports, None) uplinkIfName gatewayIfName st))
          = map (\<lambda>p. \<lparr>ic_ID = externalID p ''container-id'',
                       ic_IfaceName = pd_Name p,
                       ic_IP = externalID p ''ip'',
                       ic_MAC = externalID p ''mac'',
                       ic_PodName = externalID p ''pod-name'',
                       ic_PodNamespace = externalID p ''pod-namespace'',
                       ic_NetNS = [],
                       ic_PortUUID = pd_UUID p,
                       ic_OFPort = pd_OFPort p\<rparr>)
              (filter (\<lambda>p. externalID p ''container-id'' \<noteq> []) ports)
      \<and> Len (fst (Initialize (ports, None) uplinkIfName gatewayIfName st))
          = length (filter (\<lambda>p. externalID p ''container-id'' \<noteq> []) ports)
      \<and> (\<forall>p \<in> set ports. externalID p ''container-id'' \<noteq> [] \<longrightarrow>
            GetInterface (fst (Initialize (ports, None) uplinkIfName gatewayIfName st)) (pd_Name p)
              = Some (interfaceOfPort p))
      \<and> (\<forall>name. (\<forall>p \<in> set ports. externalID p ''container-id'' \<noteq> [] \<longrightarrow> pd_Name p \<noteq> name) \<longrightarrow>
            GetInterface (fst (Initialize (ports, None) uplinkIfName gatewayIfName st)) name = None))"
proof (intro conjI impI)
  show "Initialize (ports, Some err) uplinkIfName gatewayIfName st = ([], Some err)"
    by (simp add: Initialize_def)
  then show "Len (fst (Initialize (ports, Some err) uplinkIfName gatewayIfName st)) = 0"
    by (simp add: Len_def)
next
  assume d: "distinct (map pd_Name (filter hasContainerID ports))"
  note init = Initialize_ok [OF d, of uplinkIfName gatewayIfName st]
  have flt: "filter (\<lambda>p. externalID p ''container-id'' \<noteq> []) ports = filter hasContainerID ports"
    by (rule filter_cong) (simp_all add: hasContainerID_def OVSExternalIDContainerID_def)
  show "snd (Initialize (ports, None) uplinkIfName gatewayIfName st) = None"
    by (simp add: init)
  show "map snd (fst (Initialize (ports, None) uplinkIfName gatewayIfName st))
          = map (\<lambda>p. \<lparr>ic_ID = externalID p ''container-id'',
                       ic_IfaceName = pd_Name p,
                       ic_IP = externalID p ''ip'',
                       ic_MAC = externalID p ''mac'',
                       ic_PodName = externalID p ''pod-name'',
                       ic_PodNamespace = externalID p ''pod-namespace'',
                       ic_NetNS = [],
                       ic_PortUUID = pd_UUID p,
                       ic_OFPort = pd_OFPort p\<rparr>)
              (filter (\<lambda>p. externalID p ''container-id'' \<noteq> []) ports)"
    by (simp add: init flt interfaceOfPort_def comp_def OVSExternalIDContainerID_def
        OVSExternalIDIP_def OVSExternalIDMAC_def OVSExternalIDPodName_def
        OVSExternalIDPodNamespace_def)
  show "Len (fst (Initialize (ports, None) uplinkIfName gatewayIfName st))
          = length (filter (\<lambda>p. externalID p ''container-id'' \<noteq> []) ports)"
    by (simp add: init flt Len_def)
  have dist: "distinct (map fst (map (\<lambda>p. (pd_Name p, interfaceOfPort p))
                 (filter hasContainerID ports)))"
    using d by (simp add: comp_def)
  show "\<forall>p \<in> set ports. externalID p ''container-id'' \<noteq> [] \<longrightarrow>
            GetInterface (fst (Initialize (ports, None) uplinkIfName gatewayIfName st)) (pd_Name p)
              = Some (interfaceOfPort p)"
  proof (intro ballI impI)
    fix p assume "p \<in> set ports" and "externalID p ''container-id'' \<noteq> []"
    then have "(pd_Name p, interfaceOfPort p)
        \<in> set (map (\<lambda>p. (pd_Name p, interfaceOfPort p)) (filter hasContainerID ports))"
      by (auto simp: hasContainerID_def OVSExternalIDContainerID_def)
    with dist show "GetInterface (fst (Initialize (ports, None) uplinkIfName gatewayIfName st))
        (pd_Name p) = Some (interfaceOfPort p)"
      by (simp add: init GetInterface_def del: map_map)
  qed
  show "\<forall>name. (\<forall>p \<in> set ports. externalID p ''container-id'' \<noteq> [] \<longrightarrow> pd_Name p \<noteq> name) \<longrightarrow>
            GetInterface (fst (Initialize (ports, None) uplinkIfName gatewayIfName st)) name = None"
  proof (intro allI impI)
    fix name assume "\<forall>p \<in> set ports. externalID p ''container-id'' \<noteq> [] \<longrightarrow> pd_Name p \<noteq> name"
    then have "name \<notin> fst ` set (map (\<lambda>p. (pd_Name p, interfaceOfPort p))
        (filter hasContainerID ports))"
      by (auto simp: hasContainerID_def OVSExternalIDContainerID_def)
    then show "GetInterface (fst (Initialize (ports, None) uplinkIfName gatewayIfName st)) name
        = None"
      by (simp add: init GetInterface_def map_of_eq_None_iff del: map_map)
  qed
qed

text \<open>
  The theorem at the port lists of \<open>TestInitCache\<close> (with the gateway's row added), from a
  store that held one stale record: with an error the store is empty; without, it holds
  the records of \<open>p1\<close> and \<open>p2\<close> and none for the gateway.
\<close>

theorem Initialize_rebuilds_store_witness:
  "Initialize ([ovsPort1, gatewayPort, ovsPort2], Some \<lparr>err_Msg = ''Failed to list OVS ports'', err_Temporary = True\<rparr>)
       [] [] [(''stale'', interfaceOfPort gatewayPort)]
     = ([], Some \<lparr>err_Msg = ''Failed to list OVS ports'', err_Temporary = True\<rparr>)
   \<and> distinct (map pd_Name (filter hasContainerID [ovsPort1, gatewayPort, ovsPort2]))
   \<and> Len (fst (Initialize ([ovsPort1, gatewayPort, ovsPort2], None) [] []
                  [(''stale'', interfaceOfPort gatewayPort)])) = 2
   \<and> GetInterface (fst (Initialize ([ovsPort1, gatewayPort, ovsPort2], None) [] []
                  [(''stale'', interfaceOfPort gatewayPort)])) ''p1''
     = Some \<lparr>ic_ID = ''uuid1'', ic_IfaceName = ''p1'', ic_IP = ''1.1.1.1'',
             ic_MAC = ''11:22:33:44:55:66'', ic_PodName = ''pod1'', ic_PodNamespace = ''test'',
             ic_NetNS = [], ic_PortUUID = ''uuid-port-1'', ic_OFPort = 1\<rparr>
   \<and> GetInterface (fst (Initialize ([ovsPort1, gatewayPort, ovsPort2], None) [] []
                  [(''stale'', interfaceOfPort gatewayPort)])) ''gw0'' = None
   \<and> GetInterface (fst (Initialize ([ovsPort1, gatewayPort, ovsPort2], None) [] []
                  [(''stale'', interfaceOfPort gatewayPort)])) ''stale'' = None"
proof -
  have f: "filter hasContainerID [ovsPort1, gatewayPort, ovsPort2] = [ovsPort1, ovsPort2]"
    by (simp add: hasContainerID_def externalID_def OVSExternalIDContainerID_def
        ovsPort1_def ovsPort2_def gatewayPort_def)
  have d: "distinct (map pd_Name (filter hasContainerID [ovsPort1, gatewayPort, ovsPort2]))"
    unfolding f by (simp add: ovsPort1_def ovsPort2_def)
  note t = Initialize_rebuilds_store
    [of "[ovsPort1, gatewayPort, ovsPort2]"
        "\<lparr>err_Msg = ''Failed to list OVS ports'', err_Temporary = True\<rparr>"
        "[]" "[]" "[(''stale'', interfaceOfPort gatewayPort)]"]
  have i: "fst (Initialize ([ovsPort1, gatewayPort, ovsPort2], None) [] []
                  [(''stale'', interfaceOfPort gatewayPort)])
      = [(''p1'', interfaceOfPort ovsPort1), (''p2'', interfaceOfPort ovsPort2)]"
  proof -
    have "Initialize ([ovsPort1, gatewayPort, ovsPort2], None) [] []
                  [(''stale'', interfaceOfPort gatewayPort)]
        = (map (\<lambda>p. (pd_Name p, interfaceOfPort p)) [ovsPort1, ovsPort2], None)"
      using Initialize_ok [OF d, of "[]" "[]" "[(''stale'', interfaceOfPort gatewayPort)]"]
      by (simp only: f)
    then show ?thesis by (simp add: ovsPort1_def ovsPort2_def)
  qed
  have p1: "interfaceOfPort ovsPort1
      = \<lparr>ic_ID = ''uuid1'', ic_IfaceName = ''p1'', ic_IP = ''1.1.1.1'',
         ic_MAC = ''11:22:33:44:55:66'', ic_PodName = ''pod1'', ic_PodNamespace = ''test'',
         ic_NetNS = [], ic_PortUUID = ''uuid-port-1'', ic_OFPort = 1\<rparr>"
    by (simp add: interfaceOfPort_def externalID_def ovsPort1_def OVSExternalIDContainerID_def
        OVSExternalIDIP_def OVSExternalIDMAC_def OVSExternalIDPodName_def
        OVSExternalIDPodNamespace_def)
  from t d show ?thesis
    by (simp add: i p1 Len_def GetInterface_def)
qed

section \<open>Properties of the CNI server\<close>

subsection \<open>The request after validation\<close>

lemma updateLocalIPAMSubnet_caller_fields:
  "updateLocalIPAMSubnet ext s
     \<lparr>cfg_NetworkConfig = nc\<lparr>nc_IPAM := (nc_IPAM nc)\<lparr>ipam_Subnet := subnet, ipam_Gateway := gateway\<rparr>\<rparr>,
      cfg_CniCmdArgs = args\<lparr>NetworkConfiguration :=
         Some (nc\<lparr>nc_IPAM := (nc_IPAM nc)\<lparr>ipam_Subnet := subnet, ipam_Gateway := gateway\<rparr>\<rparr>)\<rparr>,
      cfg_k8sArgs = k8s\<rparr>
   = updateLocalIPAMSubnet ext s
     \<lparr>cfg_NetworkConfig = nc, cfg_CniCmdArgs = args\<lparr>NetworkConfiguration := Some nc\<rparr>,
      cfg_k8sArgs = k8s\<rparr>"
  by (simp add: updateLocalIPAMSubnet_def Let_def)

lemma loadNetworkConfig_caller_fields:
  "snd (loadNetworkConfig ext s
     \<lparr>CniArgs = args\<lparr>NetworkConfiguration :=
         Some (nc\<lparr>nc_IPAM := (nc_IPAM nc)\<lparr>ipam_Subnet := subnet, ipam_Gateway := gateway\<rparr>\<rparr>)\<rparr>\<rparr>)
   = snd (loadNetworkConfig ext s \<lparr>CniArgs = args\<lparr>NetworkConfiguration := Some nc\<rparr>\<rparr>)
   \<and> (LoadArgs ext (Args args) \<noteq> None \<longrightarrow>
        loadNetworkConfig ext s
          \<lparr>CniArgs = args\<lparr>NetworkConfiguration :=
             Some (nc\<lparr>nc_IPAM := (nc_IPAM nc)\<lparr>ipam_Subnet := subnet, ipam_Gateway := gateway\<rparr>\<rparr>)\<rparr>\<rparr>
        = loadNetworkConfig ext s \<lparr>CniArgs = args\<lparr>NetworkConfiguration := Some nc\<rparr>\<rparr>)"
  by (simp add: loadNetworkConfig_def updateLocalIPAMSubnet_caller_fields split: option.splits)

lemma checkRequestMessage_caller_fields:
  "snd (checkRequestMessage ext s
     \<lparr>CniArgs = args\<lparr>NetworkConfiguration :=
         Some (nc\<lparr>nc_IPAM := (nc_IPAM nc)\<lparr>ipam_Subnet := subnet, ipam_Gateway := gateway\<rparr>\<rparr>)\<rparr>\<rparr>)
   = snd (checkRequestMessage ext s \<lparr>CniArgs = args\<lparr>NetworkConfiguration := Some nc\<rparr>\<rparr>)
   \<and> (LoadArgs ext (Args args) \<noteq> None \<longrightarrow>
        checkRequestMessage ext s
          \<lparr>CniArgs = args\<lparr>NetworkConfiguration :=
             Some (nc\<lparr>nc_IPAM := (nc_IPAM nc)\<lparr>ipam_Subnet := subnet, ipam_Gateway := gateway\<rparr>\<rparr>)\<rparr>\<rparr>
        = checkRequestMessage ext s \<lparr>CniArgs = args\<lparr>NetworkConfiguration := Some nc\<rparr>\<rparr>)"
proof (cases "LoadArgs ext (Args args)")
  case None
  then show ?thesis
    by (simp add: checkRequestMessage_def loadNetworkConfig_def)
next
  case (Some k8s)
  with loadNetworkConfig_caller_fields
    [where ext = ext and s = s and args = args and nc = nc and subnet = subnet
       and gateway = gateway]
  show ?thesis by (simp add: checkRequestMessage_def)
qed

lemma loadNetworkConfig_Some:
  assumes "loadNetworkConfig ext s request = (request1, Some cniConfig)"
  shows "request1 = \<lparr>CniArgs = cfg_CniCmdArgs cniConfig\<rparr>
       \<and> ipamConfigIsNodeLocal ext s (cfg_CniCmdArgs cniConfig)
       \<and> ContainerId (cfg_CniCmdArgs cniConfig) = ContainerId (CniArgs request)
       \<and> loadNetworkConfig ext s request1 = (request1, Some cniConfig)"
  using assms
  by (auto simp: loadNetworkConfig_def updateLocalIPAMSubnet_def ipamConfigIsNodeLocal_def Let_def
      split: option.splits if_splits)

lemma checkRequestMessage_Inr:
  assumes "checkRequestMessage ext s request = (request1, Inr cniConfig, logs)"
  shows "request1 = \<lparr>CniArgs = cfg_CniCmdArgs cniConfig\<rparr>
       \<and> logs = []
       \<and> ipamConfigIsNodeLocal ext s (cfg_CniCmdArgs cniConfig)
       \<and> ContainerId (cfg_CniCmdArgs cniConfig) = ContainerId (CniArgs request)
       \<and> checkRequestMessage ext s request1 = (request1, Inr cniConfig, [])"
proof -
  from assms obtain r where l: "loadNetworkConfig ext s request = (r, Some cniConfig)"
    and r: "r = request1" and lg: "logs = []"
    and v: "isCNIVersionSupported s (nc_CNIVersion (cfg_NetworkConfig cniConfig))"
    and i: "IsIPAMTypeValid ext (ipam_Type (nc_IPAM (cfg_NetworkConfig cniConfig)))"
    by (auto simp: checkRequestMessage_def Let_def split: prod.splits option.splits if_splits)
  from loadNetworkConfig_Some [OF l [unfolded r]]
  have 1: "request1 = \<lparr>CniArgs = cfg_CniCmdArgs cniConfig\<rparr>"
    and 2: "ipamConfigIsNodeLocal ext s (cfg_CniCmdArgs cniConfig)"
    and 3: "ContainerId (cfg_CniCmdArgs cniConfig) = ContainerId (CniArgs request)"
    and 4: "loadNetworkConfig ext s request1 = (request1, Some cniConfig)"
    by blast+
  from 4 v i have "checkRequestMessage ext s request1 = (request1, Inr cniConfig, [])"
    by (simp add: checkRequestMessage_def Let_def)
  with 1 2 3 lg show ?thesis by blast
qed

lemma checkRequestMessage_Inl_logs:
  "checkRequestMessage ext s request = (request1, Inl response, logs) \<Longrightarrow> ipamInputs logs = []"
  by (auto simp: checkRequestMessage_def Let_def split: prod.splits option.splits if_splits)

subsection \<open>What is handed to the IPAM driver\<close>

lemma ipamInputs_append: "ipamInputs (xs @ ys) = ipamInputs xs @ ipamInputs ys"
  by (induction xs rule: ipamInputs.induct) simp_all

lemma trace_emit [simp]: "trace (emit c \<sigma>) = trace \<sigma> @ [c]"
  by (simp add: emit_def)

lemma trace_emits [simp]: "trace (emits cs \<sigma>) = trace \<sigma> @ cs"
  by (simp add: emits_def)

lemma CmdDel_locked_ipamInputs:
  "ipamInputs (trace (snd (CmdDel_locked ext s cniConfig \<sigma>)))
     = ipamInputs (trace \<sigma>) @ [cfg_CniCmdArgs cniConfig]"
  by (simp add: CmdDel_locked_def Let_def ipamInputs_append split: prod.splits option.splits)

lemma CmdAdd_locked_ipamInputs:
  "ipamInputs (trace (snd (snd (CmdAdd_locked ext s cniConfig \<sigma>))))
     = ipamInputs (trace \<sigma>) @ [cfg_CniCmdArgs cniConfig]"
  by (simp add: CmdAdd_locked_def Let_def ipamInputs_append
      split: prod.splits option.splits sum.splits)

lemma findInterfaces_ipamInputs:
  "ipamInputs (snd (snd (findInterfaces ifname hostVethName intfs (c, h, logs))))
     = ipamInputs logs"
  by (induction intfs arbitrary: c h logs) (simp_all add: ipamInputs_append)

lemma validatePrevResult_ipamInputs:
  "ipamInputs (trace (snd (validatePrevResult ext s cfgArgs k8sCNIArgs prevResult \<sigma>)))
     = ipamInputs (trace \<sigma>)"
proof -
  obtain c h logs where f: "findInterfaces (Ifname cfgArgs)
      (GenerateContainerInterfaceName ext (K8S_POD_NAME k8sCNIArgs) (K8S_POD_NAMESPACE k8sCNIArgs))
      (res_Interfaces prevResult) (None, None, []) = (c, h, logs)"
    by (cases "findInterfaces (Ifname cfgArgs)
      (GenerateContainerInterfaceName ext (K8S_POD_NAME k8sCNIArgs) (K8S_POD_NAMESPACE k8sCNIArgs))
      (res_Interfaces prevResult) (None, None, [])") auto
  have "ipamInputs (snd (snd (findInterfaces (Ifname cfgArgs)
      (GenerateContainerInterfaceName ext (K8S_POD_NAME k8sCNIArgs) (K8S_POD_NAMESPACE k8sCNIArgs))
      (res_Interfaces prevResult) (None, None, [])))) = ipamInputs []"
    by (rule findInterfaces_ipamInputs)
  with f have "ipamInputs logs = []" by simp
  then show ?thesis
    by (simp add: validatePrevResult_def Let_def f ipamInputs_append split: option.splits)
qed

lemma parsePrevResultFromRequest_ipamInputs:
  "ipamInputs (snd (parsePrevResultFromRequest ext nc)) = []"
  by (simp add: parsePrevResultFromRequest_def split: option.splits)

lemma CmdCheck_locked_ipamInputs:
  "ipamInputs (trace (snd (CmdCheck_locked ext s cniConfig \<sigma>)))
     = ipamInputs (trace \<sigma>) @ [cfg_CniCmdArgs cniConfig]"
proof -
  obtain err w1 where e: "ExecIPAMCheck ext (cfg_CniCmdArgs cniConfig)
      (ipam_Type (nc_IPAM (cfg_NetworkConfig cniConfig))) (world \<sigma>) = (err, w1)"
    by (cases "ExecIPAMCheck ext (cfg_CniCmdArgs cniConfig)
      (ipam_Type (nc_IPAM (cfg_NetworkConfig cniConfig))) (world \<sigma>)") auto
  obtain pr logs where p: "parsePrevResultFromRequest ext (cfg_NetworkConfig cniConfig) = (pr, logs)"
    by (cases "parsePrevResultFromRequest ext (cfg_NetworkConfig cniConfig)") auto
  from parsePrevResultFromRequest_ipamInputs [of ext "cfg_NetworkConfig cniConfig"] p
  have l: "ipamInputs logs = []" by simp
  show ?thesis
  proof (cases err)
    case (Some x)
    with e show ?thesis by (simp add: CmdCheck_locked_def Let_def ipamInputs_append)
  next
    case None
    show ?thesis
    proof (cases pr)
      case (Inl response)
      with e None p l show ?thesis
        by (simp add: CmdCheck_locked_def Let_def ipamInputs_append)
    next
      case (Inr prevResult)
      let ?\<sigma>1 = "emits logs (emit (CallExecIPAMCheck (cfg_CniCmdArgs cniConfig)
                       (ipam_Type (nc_IPAM (cfg_NetworkConfig cniConfig))))
                     (\<sigma>\<lparr>world := w1\<rparr>))"
      obtain response verr \<sigma>2 where v: "validatePrevResult ext s (cfg_CniCmdArgs cniConfig)
          (cfg_k8sArgs cniConfig) prevResult ?\<sigma>1 = ((response, verr), \<sigma>2)"
        by (cases "validatePrevResult ext s (cfg_CniCmdArgs cniConfig)
          (cfg_k8sArgs cniConfig) prevResult ?\<sigma>1") auto
      from validatePrevResult_ipamInputs
        [of ext s "cfg_CniCmdArgs cniConfig" "cfg_k8sArgs cniConfig" prevResult ?\<sigma>1] v l
      have "ipamInputs (trace \<sigma>2) = ipamInputs (trace \<sigma>) @ [cfg_CniCmdArgs cniConfig]"
        by (simp add: ipamInputs_append)
      then show ?thesis using e None p Inr v
        by (simp add: CmdCheck_locked_def Let_def ipamInputs_append split: option.splits)
    qed
  qed
qed

lemma CmdDel_ipamInputs:
  "\<exists>new. ipamInputs (trace (snd (snd (CmdDel ext s request \<sigma>)))) = ipamInputs (trace \<sigma>) @ new
         \<and> list_all (ipamConfigIsNodeLocal ext s) new"
proof -
  obtain request1 x logs where c: "checkRequestMessage ext s request = (request1, x, logs)"
    by (cases "checkRequestMessage ext s request") auto
  show ?thesis
  proof (cases x)
    case (Inl response)
    with c checkRequestMessage_Inl_logs [of ext s request request1 response logs]
    show ?thesis by (simp add: CmdDel_def ipamInputs_append)
  next
    case (Inr cniConfig)
    with c checkRequestMessage_Inr [of ext s request request1 cniConfig logs]
    have l: "logs = []" and n: "ipamConfigIsNodeLocal ext s (cfg_CniCmdArgs cniConfig)"
      by blast+
    obtain response \<sigma>2 where d: "CmdDel_locked ext s cniConfig
        (emit (LockContainer (ContainerId (cfg_CniCmdArgs cniConfig))) (emits logs \<sigma>))
        = (response, \<sigma>2)"
      by (cases "CmdDel_locked ext s cniConfig
        (emit (LockContainer (ContainerId (cfg_CniCmdArgs cniConfig))) (emits logs \<sigma>))") auto
    from CmdDel_locked_ipamInputs [of ext s cniConfig
        "emit (LockContainer (ContainerId (cfg_CniCmdArgs cniConfig))) (emits logs \<sigma>)"] d l
    have "ipamInputs (trace \<sigma>2) = ipamInputs (trace \<sigma>) @ [cfg_CniCmdArgs cniConfig]"
      by (simp add: ipamInputs_append)
    with c Inr d n show ?thesis
      by (simp add: CmdDel_def Let_def ipamInputs_append)
  qed
qed

lemma CmdCheck_ipamInputs:
  "\<exists>new. ipamInputs (trace (snd (snd (CmdCheck ext s request \<sigma>)))) = ipamInputs (trace \<sigma>) @ new
         \<and> list_all (ipamConfigIsNodeLocal ext s) new"
proof -
  obtain request1 x logs where c: "checkRequestMessage ext s request = (request1, x, logs)"
    by (cases "checkRequestMessage ext s request") auto
  show ?thesis
  proof (cases x)
    case (Inl response)
    with c checkRequestMessage_Inl_logs [of ext s request request1 response logs]
    show ?thesis by (simp add: CmdCheck_def ipamInputs_append)
  next
    case (Inr cniConfig)
    with c checkRequestMessage_Inr [of ext s request request1 cniConfig logs]
    have l: "logs = []" and n: "ipamConfigIsNodeLocal ext s (cfg_CniCmdArgs cniConfig)"
      by blast+
    obtain ret \<sigma>2 where d: "CmdCheck_locked ext s cniConfig
        (emit (LockContainer (ContainerId (cfg_CniCmdArgs cniConfig))) (emits logs \<sigma>))
        = (ret, \<sigma>2)"
      by (cases "CmdCheck_locked ext s cniConfig
        (emit (LockContainer (ContainerId (cfg_CniCmdArgs cniConfig))) (emits logs \<sigma>))") auto
    from CmdCheck_locked_ipamInputs [of ext s cniConfig
        "emit (LockContainer (ContainerId (cfg_CniCmdArgs cniConfig))) (emits logs \<sigma>)"] d l
    have "ipamInputs (trace \<sigma>2) = ipamInputs (trace \<sigma>) @ [cfg_CniCmdArgs cniConfig]"
      by (simp add: ipamInputs_append)
    with c Inr d n show ?thesis
      by (simp add: CmdCheck_def Let_def ipamInputs_append)
  qed
qed

lemma CmdAdd_ipamInputs:
  "\<exists>new. ipamInputs (trace (snd (snd (CmdAdd ext s request \<sigma>)))) = ipamInputs (trace \<sigma>) @ new
         \<and> list_all (ipamConfigIsNodeLocal ext s) new"
proof -
  obtain request1 x logs where c: "checkRequestMessage ext s request = (request1, x, logs)"
    by (cases "checkRequestMessage ext s request") auto
  show ?thesis
  proof (cases x)
    case (Inl response)
    with c checkRequestMessage_Inl_logs [of ext s request request1 response logs]
    show ?thesis by (simp add: CmdAdd_def ipamInputs_append)
  next
    case (Inr cniConfig)
    with c checkRequestMessage_Inr [of ext s request request1 cniConfig logs]
    have l: "logs = []" and n: "ipamConfigIsNodeLocal ext s (cfg_CniCmdArgs cniConfig)"
      by blast+
    let ?\<sigma>1 = "emit (LockContainer (ContainerId (cfg_CniCmdArgs cniConfig))) (emits logs \<sigma>)"
    obtain response success \<sigma>2 where d: "CmdAdd_locked ext s cniConfig ?\<sigma>1
        = (response, success, \<sigma>2)"
      by (cases "CmdAdd_locked ext s cniConfig ?\<sigma>1") auto
    from CmdAdd_locked_ipamInputs [of ext s cniConfig ?\<sigma>1] d l
    have a: "ipamInputs (trace \<sigma>2) = ipamInputs (trace \<sigma>) @ [cfg_CniCmdArgs cniConfig]"
      by (simp add: ipamInputs_append)
    show ?thesis
    proof (cases success)
      case True
      with c Inr d n a show ?thesis
        by (simp add: CmdAdd_def Let_def ipamInputs_append)
    next
      case False
      let ?\<sigma>4 = "emit (Klog LogWarning ''CmdAdd has failed, and try to rollback'')
                    (emit (UnlockContainer (ContainerId (cfg_CniCmdArgs cniConfig))) \<sigma>2)"
      obtain delResponse delErr request2 \<sigma>5
        where del: "CmdDel ext s request1 ?\<sigma>4 = ((delResponse, delErr), request2, \<sigma>5)"
        by (cases "CmdDel ext s request1 ?\<sigma>4") auto
      from CmdDel_ipamInputs [of ext s request1 ?\<sigma>4] del obtain new
        where new: "ipamInputs (trace \<sigma>5) = ipamInputs (trace ?\<sigma>4) @ new"
          and loc: "list_all (ipamConfigIsNodeLocal ext s) new"
        by auto
      have "ipamInputs (trace (snd (snd (CmdAdd ext s request \<sigma>)))) = ipamInputs (trace \<sigma>5)"
        using c Inr d False del
        by (simp add: CmdAdd_def Let_def ipamInputs_append split: option.splits)
      also have "\<dots> = ipamInputs (trace \<sigma>) @ (cfg_CniCmdArgs cniConfig # new)"
        using new a by (simp add: ipamInputs_append)
      finally show ?thesis using n loc by auto
    qed
  qed
qed

lemma supportedCNIVersionSet_eq:
  "supportedCNIVersionSet = {''0.1.0'', ''0.2.0'', ''0.3.0'', ''0.3.1'', ''0.4.0''}"
  by (simp add: supportedCNIVersionSet_def buildVersionSet_def supportedCNIVersions_def Trim_def)

lemma handlers_caller_fields:
  "fst (CmdAdd ext s
          \<lparr>CniArgs = args\<lparr>NetworkConfiguration :=
             Some (nc\<lparr>nc_IPAM := (nc_IPAM nc)\<lparr>ipam_Subnet := subnet, ipam_Gateway := gateway\<rparr>\<rparr>)\<rparr>\<rparr> \<sigma>)
     = fst (CmdAdd ext s \<lparr>CniArgs = args\<lparr>NetworkConfiguration := Some nc\<rparr>\<rparr> \<sigma>)
   \<and> snd (snd (CmdAdd ext s
          \<lparr>CniArgs = args\<lparr>NetworkConfiguration :=
             Some (nc\<lparr>nc_IPAM := (nc_IPAM nc)\<lparr>ipam_Subnet := subnet, ipam_Gateway := gateway\<rparr>\<rparr>)\<rparr>\<rparr> \<sigma>))
     = snd (snd (CmdAdd ext s \<lparr>CniArgs = args\<lparr>NetworkConfiguration := Some nc\<rparr>\<rparr> \<sigma>))
   \<and> fst (CmdDel ext s
          \<lparr>CniArgs = args\<lparr>NetworkConfiguration :=
             Some (nc\<lparr>nc_IPAM := (nc_IPAM nc)\<lparr>ipam_Subnet := subnet, ipam_Gateway := gateway\<rparr>\<rparr>)\<rparr>\<rparr> \<sigma>)
     = fst (CmdDel ext s \<lparr>CniArgs = args\<lparr>NetworkConfiguration := Some nc\<rparr>\<rparr> \<sigma>)
   \<and> snd (snd (CmdDel ext s
          \<lparr>CniArgs = args\<lparr>NetworkConfiguration :=
             Some (nc\<lparr>nc_IPAM := (nc_IPAM nc)\<lparr>ipam_Subnet := subnet, ipam_Gateway := gateway\<rparr>\<rparr>)\<rparr>\<rparr> \<sigma>))
     = snd (snd (CmdDel ext s \<lparr>CniArgs = args\<lparr>NetworkConfiguration := Some nc\<rparr>\<rparr> \<sigma>))
   \<and> fst (CmdCheck ext s
          \<lparr>CniArgs = args\<lparr>NetworkConfiguration :=
             Some (nc\<lparr>nc_IPAM := (nc_IPAM nc)\<lparr>ipam_Subnet := subnet, ipam_Gateway := gateway\<rparr>\<rparr>)\<rparr>\<rparr> \<sigma>)
     = fst (CmdCheck ext s \<lparr>CniArgs = args\<lparr>NetworkConfiguration := Some nc\<rparr>\<rparr> \<sigma>)
   \<and> snd (snd (CmdCheck ext s
          \<lparr>CniArgs = args\<lparr>NetworkConfiguration :=
             Some (nc\<lparr>nc_IPAM := (nc_IPAM nc)\<lparr>ipam_Subnet := subnet, ipam_Gateway := gateway\<rparr>\<rparr>)\<rparr>\<rparr> \<sigma>))
     = snd (snd (CmdCheck ext s \<lparr>CniArgs = args\<lparr>NetworkConfiguration := Some nc\<rparr>\<rparr> \<sigma>))"
proof (cases "LoadArgs ext (Args args)")
  case None
  then show ?thesis
    by (simp add: CmdAdd_def CmdDel_def CmdCheck_def checkRequestMessage_def
        loadNetworkConfig_def)
next
  case (Some k8s)
  with checkRequestMessage_caller_fields
    [where ext = ext and s = s and args = args and nc = nc and subnet = subnet
       and gateway = gateway]
  have eq: "checkRequestMessage ext s
          \<lparr>CniArgs = args\<lparr>NetworkConfiguration :=
             Some (nc\<lparr>nc_IPAM := (nc_IPAM nc)\<lparr>ipam_Subnet := subnet, ipam_Gateway := gateway\<rparr>\<rparr>)\<rparr>\<rparr>
        = checkRequestMessage ext s \<lparr>CniArgs = args\<lparr>NetworkConfiguration := Some nc\<rparr>\<rparr>"
    by simp
  show ?thesis
    by (simp only: CmdAdd_def CmdDel_def CmdCheck_def eq)
qed

text \<open>
  Claim C9. Take two requests that are the same but for the IPAM subnet and gateway of
  their network configuration. Each handler returns the same response and leaves the same
  state for both, the trace of calls included; so the arguments handed to the IPAM driver
  are the same. And whatever the request, every network configuration handed to the IPAM
  driver by a handler names the node's pod CIDR as subnet and the node's gateway address
  as gateway.
\<close>

theorem ipam_input_ignores_caller_subnet_and_gateway:
  "fst (CmdAdd ext s
          \<lparr>CniArgs = args\<lparr>NetworkConfiguration :=
             Some (nc\<lparr>nc_IPAM := (nc_IPAM nc)\<lparr>ipam_Subnet := subnet, ipam_Gateway := gateway\<rparr>\<rparr>)\<rparr>\<rparr> \<sigma>)
     = fst (CmdAdd ext s \<lparr>CniArgs = args\<lparr>NetworkConfiguration := Some nc\<rparr>\<rparr> \<sigma>)
   \<and> ipamInputs (trace (snd (snd (CmdAdd ext s
          \<lparr>CniArgs = args\<lparr>NetworkConfiguration :=
             Some (nc\<lparr>nc_IPAM := (nc_IPAM nc)\<lparr>ipam_Subnet := subnet, ipam_Gateway := gateway\<rparr>\<rparr>)\<rparr>\<rparr> \<sigma>))))
     = ipamInputs (trace (snd (snd
         (CmdAdd ext s \<lparr>CniArgs = args\<lparr>NetworkConfiguration := Some nc\<rparr>\<rparr> \<sigma>))))
   \<and> fst (CmdDel ext s
          \<lparr>CniArgs = args\<lparr>NetworkConfiguration :=
             Some (nc\<lparr>nc_IPAM := (nc_IPAM nc)\<lparr>ipam_Subnet := subnet, ipam_Gateway := gateway\<rparr>\<rparr>)\<rparr>\<rparr> \<sigma>)
     = fst (CmdDel ext s \<lparr>CniArgs = args\<lparr>NetworkConfiguration := Some nc\<rparr>\<rparr> \<sigma>)
   \<and> ipamInputs (trace (snd (snd (CmdDel ext s
          \<lparr>CniArgs = args\<lparr>NetworkConfiguration :=
             Some (nc\<lparr>nc_IPAM := (nc_IPAM nc)\<lparr>ipam_Subnet := subnet, ipam_Gateway := gateway\<rparr>\<rparr>)\<rparr>\<rparr> \<sigma>))))
     = ipamInputs (trace (snd (snd
         (CmdDel ext s \<lparr>CniArgs = args\<lparr>NetworkConfiguration := Some nc\<rparr>\<rparr> \<sigma>))))
   \<and> fst (CmdCheck ext s
          \<lparr>CniArgs = args\<lparr>NetworkConfiguration :=
             Some (nc\<lparr>nc_IPAM := (nc_IPAM nc)\<lparr>ipam_Subnet := subnet, ipam_Gateway := gateway\<rparr>\<rparr>)\<rparr>\<rparr> \<sigma>)
     = fst (CmdCheck ext s \<lparr>CniArgs = args\<lparr>NetworkConfiguration := Some nc\<rparr>\<rparr> \<sigma>)
   \<and> ipamInputs (trace (snd (snd (CmdCheck ext s
          \<lparr>CniArgs = args\<lparr>NetworkConfiguration :=
             Some (nc\<lparr>nc_IPAM := (nc_IPAM nc)\<lparr>ipam_Subnet := subnet, ipam_Gateway := gateway\<rparr>\<rparr>)\<rparr>\<rparr> \<sigma>))))
     = ipamInputs (trace (snd (snd
         (CmdCheck ext s \<lparr>CniArgs = args\<lparr>NetworkConfiguration := Some nc\<rparr>\<rparr> \<sigma>))))
   \<and> (\<exists>new. ipamInputs (trace (snd (snd (CmdAdd ext s request \<sigma>)))) = ipamInputs (trace \<sigma>) @ new
         \<and> list_all (ipamConfigIsNodeLocal ext s) new)
   \<and> (\<exists>new. ipamInputs (trace (snd (snd (CmdDel ext s request \<sigma>)))) = ipamInputs (trace \<sigma>) @ new
         \<and> list_all (ipamConfigIsNodeLocal ext s) new)
   \<and> (\<exists>new. ipamInputs (trace (snd (snd (CmdCheck ext s request \<sigma>)))) = ipamInputs (trace \<sigma>) @ new
         \<and> list_all (ipamConfigIsNodeLocal ext s) new)"
  using handlers_caller_fields
    [where ext = ext and s = s and args = args and nc = nc and subnet = subnet
       and gateway = gateway and \<sigma> = \<sigma>]
    CmdAdd_ipamInputs [of ext s request \<sigma>] CmdDel_ipamInputs [of ext s request \<sigma>]
    CmdCheck_ipamInputs [of ext s request \<sigma>]
  by simp

lemma test_checkRequestMessage:
  "checkRequestMessage (testExternals a b c pods) testServer testRequest
     = (\<lparr>CniArgs = testArgs\<lparr>NetworkConfiguration := Some (testNetworkConfig
            \<lparr>nc_IPAM := \<lparr>ipam_Type = ''host-local'', ipam_Subnet = ''10.1.2.0/24'',
                          ipam_Gateway = ''10.1.2.1''\<rparr>\<rparr>)\<rparr>\<rparr>,
        Inr \<lparr>cfg_NetworkConfig = testNetworkConfig
               \<lparr>nc_MTU := 1500,
                nc_IPAM := \<lparr>ipam_Type = ''host-local'', ipam_Subnet = ''10.1.2.0/24'',
                            ipam_Gateway = ''10.1.2.1''\<rparr>\<rparr>,
             cfg_CniCmdArgs = testArgs\<lparr>NetworkConfiguration := Some (testNetworkConfig
               \<lparr>nc_IPAM := \<lparr>ipam_Type = ''host-local'', ipam_Subnet = ''10.1.2.0/24'',
                            ipam_Gateway = ''10.1.2.1''\<rparr>\<rparr>)\<rparr>,
             cfg_k8sArgs = \<lparr>K8S_POD_NAME = ''test-1'', K8S_POD_NAMESPACE = ''t1'',
                            K8S_POD_INFRA_CONTAINER_ID = ''test-111111''\<rparr>\<rparr>,
        [])"
  by (simp add: checkRequestMessage_def loadNetworkConfig_def updateLocalIPAMSubnet_def
      testExternals_def testServer_def New_def testRequest_def testArgs_def
      testNetworkConfig_def testNodeConfig_def isCNIVersionSupported_def
      supportedCNIVersionSet_eq Let_def)

subsection \<open>The handlers on the example node\<close>

lemma test_checkRequestMessage':
  "checkRequestMessage (testExternals a b c pods) testServer testRequest
     = (testRequest1, Inr testConfig, [])"
  by (simp add: test_checkRequestMessage testRequest1_def testConfig_def testNetworkConfig1_def
      testNetworkConfig_def)

lemma test_checkRequestMessage1:
  "checkRequestMessage (testExternals a b c pods) testServer testRequest1
     = (testRequest1, Inr testConfig, [])"
  using checkRequestMessage_Inr [OF test_checkRequestMessage'] by blast

lemma test_CmdAdd_locked_flows_fail:
  "CmdAdd_locked (testExternals False True c pods) testServer testConfig \<sigma>
     = (configInterfaceFailureResponse ''failed to install flows'', False,
        \<sigma>\<lparr>ifaceStore := AddInterface (testInterfaceConfig ''test-1'' ''t1'' ''dummy-0'') (ifaceStore \<sigma>),
          world := (world \<sigma>)\<lparr>ipamAllocated := True, ovsPortExists := True\<rparr>,
          trace := trace \<sigma> @
            [CallExecIPAMAdd (cfg_CniCmdArgs testConfig) ''host-local'',
             CallConfigureInterface ''test-1'' ''t1'' ''dummy-0'' ''/ns/1'' ''eth0'' 1500,
             Klog LogError ''Failed to configure container dummy-0 interface: failed to install flows'']\<rparr>)"
  by (simp add: CmdAdd_locked_def testExternals_def testConfig_def testServer_def New_def
      testArgs_def testNetworkConfig1_def testNetworkConfig_def testNodeConfig_def
      hostNetNsPath_def emit_def Let_def)

lemma test_CmdDel_locked_ipam_fails:
  "CmdDel_locked (testExternals a b True pods) testServer testConfig \<sigma>
     = (ipamFailureResponse ''IPAM driver unreachable'',
        \<sigma>\<lparr>trace := trace \<sigma> @
            [CallExecIPAMDelete (cfg_CniCmdArgs testConfig) ''host-local'',
             Klog LogError ''Failed to delete IP addresses by IPAM driver: IPAM driver unreachable'']\<rparr>)"
  by (simp add: CmdDel_locked_def testExternals_def testConfig_def testServer_def New_def
      testArgs_def testNetworkConfig1_def testNetworkConfig_def testNodeConfig_def
      hostNetNsPath_def emit_def Let_def)

lemma test_CmdDel_locked_ok:
  "CmdDel_locked (testExternals a b False pods) testServer testConfig \<sigma>
     = (emptyResponse,
        \<sigma>\<lparr>ifaceStore := filter (\<lambda>(name, cfg). \<not> (ic_PodName cfg = ''test-1'' \<and> ic_PodNamespace cfg = ''t1''))
                          (ifaceStore \<sigma>),
          world := (world \<sigma>)\<lparr>ipamAllocated := False, ovsPortExists := False, flowsInstalled := False\<rparr>,
          trace := trace \<sigma> @
            [CallExecIPAMDelete (cfg_CniCmdArgs testConfig) ''host-local'',
             CallRemoveInterfaces ''test-1'' ''t1'' ''dummy-0'' ''/ns/1'' ''eth0'']\<rparr>)"
  by (simp add: CmdDel_locked_def testExternals_def testConfig_def testServer_def New_def
      testArgs_def testNetworkConfig1_def testNetworkConfig_def testNodeConfig_def
      hostNetNsPath_def emit_def Let_def)

subsection \<open>Rollback of a failed ADD\<close>

lemma emits_Nil [simp]: "emits [] \<sigma> = \<sigma>"
  by (simp add: emits_def)

lemma ifaceStore_emit [simp]: "ifaceStore (emit c \<sigma>) = ifaceStore \<sigma>"
  by (simp add: emit_def)

lemma world_emit [simp]: "world (emit c \<sigma>) = world \<sigma>"
  by (simp add: emit_def)

lemma CmdAdd_locked_failure_code:
  "CmdAdd_locked ext s cniConfig \<sigma> = (response, False, \<sigma>2)
   \<Longrightarrow> (\<exists>e. response = ipamFailureResponse e) \<or> (\<exists>e. response = configInterfaceFailureResponse e)"
  by (auto simp: CmdAdd_locked_def Let_def split: prod.splits sum.splits option.splits)

lemma CmdDel_error_nil: "snd (fst (CmdDel ext s request \<sigma>)) = None"
  by (simp add: CmdDel_def Let_def split: prod.splits sum.splits)

lemma CmdDel_validated:
  assumes "checkRequestMessage ext s request1 = (request1, Inr cniConfig, [])"
  shows "CmdDel ext s request1 \<sigma>
       = ((fst (CmdDel_locked ext s cniConfig
                  (emit (LockContainer (ContainerId (cfg_CniCmdArgs cniConfig))) \<sigma>)), None),
          request1,
          emit (UnlockContainer (ContainerId (cfg_CniCmdArgs cniConfig)))
            (snd (CmdDel_locked ext s cniConfig
                    (emit (LockContainer (ContainerId (cfg_CniCmdArgs cniConfig))) \<sigma>))))"
  using assms by (simp add: CmdDel_def Let_def split: prod.splits)

lemma CmdDel_locked_ipam_fails:
  assumes "ExecIPAMDelete ext (cfg_CniCmdArgs cniConfig)
             (ipam_Type (nc_IPAM (cfg_NetworkConfig cniConfig))) (world \<sigma>) = (Some e, w1)"
  shows "CmdDel_locked ext s cniConfig \<sigma>
       = (ipamFailureResponse e,
          emit (Klog LogError (''Failed to delete IP addresses by IPAM driver: '' @ e))
            (emit (CallExecIPAMDelete (cfg_CniCmdArgs cniConfig)
                     (ipam_Type (nc_IPAM (cfg_NetworkConfig cniConfig))))
               (\<sigma>\<lparr>world := w1\<rparr>)))"
  using assms by (simp add: CmdDel_locked_def Let_def)

lemma CmdDel_locked_removes:
  assumes "ExecIPAMDelete ext (cfg_CniCmdArgs cniConfig)
             (ipam_Type (nc_IPAM (cfg_NetworkConfig cniConfig))) (world \<sigma>) = (None, w1)"
    and "removeInterfaces ext (K8S_POD_NAME (cfg_k8sArgs cniConfig))
           (K8S_POD_NAMESPACE (cfg_k8sArgs cniConfig)) (ContainerId (cfg_CniCmdArgs cniConfig))
           (hostNetNsPath s (Netns (cfg_CniCmdArgs cniConfig))) (Ifname (cfg_CniCmdArgs cniConfig))
           (ifaceStore \<sigma>, w1) = (err2, st2, w2)"
  shows "ifaceStore (snd (CmdDel_locked ext s cniConfig \<sigma>)) = st2
       \<and> world (snd (CmdDel_locked ext s cniConfig \<sigma>)) = w2
       \<and> fst (CmdDel_locked ext s cniConfig \<sigma>)
           = (case err2 of None \<Rightarrow> emptyResponse | Some e \<Rightarrow> configInterfaceFailureResponse e)
       \<and> CallRemoveInterfaces (K8S_POD_NAME (cfg_k8sArgs cniConfig))
           (K8S_POD_NAMESPACE (cfg_k8sArgs cniConfig)) (ContainerId (cfg_CniCmdArgs cniConfig))
           (hostNetNsPath s (Netns (cfg_CniCmdArgs cniConfig))) (Ifname (cfg_CniCmdArgs cniConfig))
           \<in> set (trace (snd (CmdDel_locked ext s cniConfig \<sigma>)))
       \<and> (\<forall>e. err2 = Some e \<longrightarrow>
             Klog LogError (''Failed to remove container '' @ ContainerId (cfg_CniCmdArgs cniConfig) @
               '' interface configuration: '' @ e)
             \<in> set (trace (snd (CmdDel_locked ext s cniConfig \<sigma>))))"
  using assms by (simp add: CmdDel_locked_def Let_def split: option.splits)

lemma CmdAdd_failed_eq:
  assumes valid: "checkRequestMessage ext s request = (request1, Inr cniConfig, logs)"
    and failed: "CmdAdd_locked ext s cniConfig
        (emit (LockContainer (ContainerId (cfg_CniCmdArgs cniConfig))) (emits logs \<sigma>))
      = (response, False, \<sigma>2)"
  shows "CmdAdd ext s request \<sigma>
       = ((response, None),
          snd (CmdDel ext s request1
                 (emit (Klog LogWarning ''CmdAdd has failed, and try to rollback'')
                    (emit (UnlockContainer (ContainerId (cfg_CniCmdArgs cniConfig))) \<sigma>2))))"
proof -
  let ?\<sigma>4 = "emit (Klog LogWarning ''CmdAdd has failed, and try to rollback'')
                (emit (UnlockContainer (ContainerId (cfg_CniCmdArgs cniConfig))) \<sigma>2)"
  obtain delResponse delErr request2 \<sigma>5
    where del: "CmdDel ext s request1 ?\<sigma>4 = ((delResponse, delErr), request2, \<sigma>5)"
    by (cases "CmdDel ext s request1 ?\<sigma>4") auto
  with CmdDel_error_nil [of ext s request1 ?\<sigma>4] have "delErr = None" by simp
  with valid failed del show ?thesis
    by (simp add: CmdAdd_def Let_def)
qed

text \<open>
  Claim C1, as the code has it. Let an ADD request pass validation and fail between
  \<open>lockContainer\<close> and \<open>unlockContainer\<close> (at the IPAM add or in the interface
  configuration, which includes the flow install). Then \<open>CmdAdd\<close>
  \<^item> returns the response of the failure, with code \<open>IPAM_FAILURE\<close> or
    \<open>CONFIG_INTERFACE_FAILURE\<close>, and a nil error: nothing of the rollback is returned;
  \<^item> before returning, and after its own \<open>unlockContainer\<close>, runs \<open>CmdDel\<close> on the same
    request (the request as validation left it: only its network configuration was
    rewritten): the request and the state it leaves are those \<open>CmdDel\<close> leaves;
  \<^item> so the rollback has DEL's semantics: when the IPAM delete and the removal of the
    interfaces succeed, the store and the surroundings are what these two leave; when the
    IPAM delete fails, \<open>CmdDel\<close> logs the error and stops, and the interfaces are not
    removed; when the removal fails, its error is logged.
\<close>

theorem CmdAdd_failure_rolls_back_through_CmdDel:
  assumes valid: "checkRequestMessage ext s request = (request1, Inr cniConfig, logs)"
    and failed: "CmdAdd_locked ext s cniConfig
        (emit (LockContainer (ContainerId (cfg_CniCmdArgs cniConfig))) (emits logs \<sigma>))
      = (response, False, \<sigma>2)"
  shows "fst (CmdAdd ext s request \<sigma>) = (response, None)
    \<and> ((\<exists>e. resp_Error response = Some \<lparr>cni_Code = IPAM_FAILURE, cni_Message = e\<rparr>)
       \<or> (\<exists>e. resp_Error response = Some \<lparr>cni_Code = CONFIG_INTERFACE_FAILURE, cni_Message = e\<rparr>))
    \<and> snd (CmdAdd ext s request \<sigma>)
        = snd (CmdDel ext s request1
                (emit (Klog LogWarning ''CmdAdd has failed, and try to rollback'')
                   (emit (UnlockContainer (ContainerId (cfg_CniCmdArgs cniConfig))) \<sigma>2)))
    \<and> (CniArgs request1)\<lparr>NetworkConfiguration := None\<rparr>
        = (CniArgs request)\<lparr>NetworkConfiguration := None\<rparr>
    \<and> (ExecIPAMDelete ext (cfg_CniCmdArgs cniConfig)
          (ipam_Type (nc_IPAM (cfg_NetworkConfig cniConfig))) (world \<sigma>2) = (None, w1)
        \<and> removeInterfaces ext (K8S_POD_NAME (cfg_k8sArgs cniConfig))
            (K8S_POD_NAMESPACE (cfg_k8sArgs cniConfig)) (ContainerId (cfg_CniCmdArgs cniConfig))
            (hostNetNsPath s (Netns (cfg_CniCmdArgs cniConfig)))
            (Ifname (cfg_CniCmdArgs cniConfig)) (ifaceStore \<sigma>2, w1) = (err2, st2, w2)
        \<longrightarrow> ifaceStore (snd (snd (CmdAdd ext s request \<sigma>))) = st2
          \<and> world (snd (snd (CmdAdd ext s request \<sigma>))) = w2
          \<and> (\<forall>e. err2 = Some e \<longrightarrow>
                Klog LogError (''Failed to remove container '' @
                  ContainerId (cfg_CniCmdArgs cniConfig) @ '' interface configuration: '' @ e)
                \<in> set (trace (snd (snd (CmdAdd ext s request \<sigma>))))))
    \<and> (ExecIPAMDelete ext (cfg_CniCmdArgs cniConfig)
          (ipam_Type (nc_IPAM (cfg_NetworkConfig cniConfig))) (world \<sigma>2) = (Some e1, w1)
        \<longrightarrow> ifaceStore (snd (snd (CmdAdd ext s request \<sigma>))) = ifaceStore \<sigma>2
          \<and> world (snd (snd (CmdAdd ext s request \<sigma>))) = w1
          \<and> Klog LogError (''Failed to delete IP addresses by IPAM driver: '' @ e1)
              \<in> set (trace (snd (snd (CmdAdd ext s request \<sigma>)))))"
proof -
  let ?cid = "ContainerId (cfg_CniCmdArgs cniConfig)"
  let ?\<sigma>4 = "emit (Klog LogWarning ''CmdAdd has failed, and try to rollback'')
                (emit (UnlockContainer ?cid) \<sigma>2)"
  let ?\<sigma>5 = "emit (LockContainer ?cid) ?\<sigma>4"
  note eq = CmdAdd_failed_eq [OF valid failed]
  from checkRequestMessage_Inr [OF valid]
  have r1: "request1 = \<lparr>CniArgs = cfg_CniCmdArgs cniConfig\<rparr>"
    and again: "checkRequestMessage ext s request1 = (request1, Inr cniConfig, [])"
    by blast+
  note del = CmdDel_validated [OF again, of ?\<sigma>4]
  have fin: "snd (snd (CmdAdd ext s request \<sigma>))
      = emit (UnlockContainer ?cid) (snd (CmdDel_locked ext s cniConfig ?\<sigma>5))"
    by (simp add: eq del)
  have a: "fst (CmdAdd ext s request \<sigma>) = (response, None)"
    by (simp add: eq)
  have b: "(\<exists>e. resp_Error response = Some \<lparr>cni_Code = IPAM_FAILURE, cni_Message = e\<rparr>)
       \<or> (\<exists>e. resp_Error response = Some \<lparr>cni_Code = CONFIG_INTERFACE_FAILURE, cni_Message = e\<rparr>)"
    using CmdAdd_locked_failure_code [OF failed]
    by (auto simp: ipamFailureResponse_def configInterfaceFailureResponse_def
        generateCNIErrorResponse_def)
  have c: "snd (CmdAdd ext s request \<sigma>) = snd (CmdDel ext s request1 ?\<sigma>4)"
    by (simp add: eq)
  have d: "(CniArgs request1)\<lparr>NetworkConfiguration := None\<rparr>
        = (CniArgs request)\<lparr>NetworkConfiguration := None\<rparr>"
    using valid
    by (auto simp: checkRequestMessage_def loadNetworkConfig_def updateLocalIPAMSubnet_def
        Let_def split: option.splits if_splits prod.splits)
  have e: "ExecIPAMDelete ext (cfg_CniCmdArgs cniConfig)
          (ipam_Type (nc_IPAM (cfg_NetworkConfig cniConfig))) (world \<sigma>2) = (None, w1)
        \<and> removeInterfaces ext (K8S_POD_NAME (cfg_k8sArgs cniConfig))
            (K8S_POD_NAMESPACE (cfg_k8sArgs cniConfig)) (ContainerId (cfg_CniCmdArgs cniConfig))
            (hostNetNsPath s (Netns (cfg_CniCmdArgs cniConfig)))
            (Ifname (cfg_CniCmdArgs cniConfig)) (ifaceStore \<sigma>2, w1) = (err2, st2, w2)
        \<longrightarrow> ifaceStore (snd (snd (CmdAdd ext s request \<sigma>))) = st2
          \<and> world (snd (snd (CmdAdd ext s request \<sigma>))) = w2
          \<and> (\<forall>e. err2 = Some e \<longrightarrow>
                Klog LogError (''Failed to remove container '' @
                  ContainerId (cfg_CniCmdArgs cniConfig) @ '' interface configuration: '' @ e)
                \<in> set (trace (snd (snd (CmdAdd ext s request \<sigma>)))))"
  proof (intro impI, elim conjE)
    assume i: "ExecIPAMDelete ext (cfg_CniCmdArgs cniConfig)
          (ipam_Type (nc_IPAM (cfg_NetworkConfig cniConfig))) (world \<sigma>2) = (None, w1)"
      and r: "removeInterfaces ext (K8S_POD_NAME (cfg_k8sArgs cniConfig))
            (K8S_POD_NAMESPACE (cfg_k8sArgs cniConfig)) (ContainerId (cfg_CniCmdArgs cniConfig))
            (hostNetNsPath s (Netns (cfg_CniCmdArgs cniConfig)))
            (Ifname (cfg_CniCmdArgs cniConfig)) (ifaceStore \<sigma>2, w1) = (err2, st2, w2)"
    from i have i': "ExecIPAMDelete ext (cfg_CniCmdArgs cniConfig)
          (ipam_Type (nc_IPAM (cfg_NetworkConfig cniConfig))) (world ?\<sigma>5) = (None, w1)"
      by simp
    from r have r': "removeInterfaces ext (K8S_POD_NAME (cfg_k8sArgs cniConfig))
            (K8S_POD_NAMESPACE (cfg_k8sArgs cniConfig)) (ContainerId (cfg_CniCmdArgs cniConfig))
            (hostNetNsPath s (Netns (cfg_CniCmdArgs cniConfig)))
            (Ifname (cfg_CniCmdArgs cniConfig)) (ifaceStore ?\<sigma>5, w1) = (err2, st2, w2)"
      by simp
    from CmdDel_locked_removes [OF i' r']
    show "ifaceStore (snd (snd (CmdAdd ext s request \<sigma>))) = st2
          \<and> world (snd (snd (CmdAdd ext s request \<sigma>))) = w2
          \<and> (\<forall>e. err2 = Some e \<longrightarrow>
                Klog LogError (''Failed to remove container '' @
                  ContainerId (cfg_CniCmdArgs cniConfig) @ '' interface configuration: '' @ e)
                \<in> set (trace (snd (snd (CmdAdd ext s request \<sigma>)))))"
      by (simp add: fin)
  qed
  have f: "ExecIPAMDelete ext (cfg_CniCmdArgs cniConfig)
          (ipam_Type (nc_IPAM (cfg_NetworkConfig cniConfig))) (world \<sigma>2) = (Some e1, w1)
        \<longrightarrow> ifaceStore (snd (snd (CmdAdd ext s request \<sigma>))) = ifaceStore \<sigma>2
          \<and> world (snd (snd (CmdAdd ext s request \<sigma>))) = w1
          \<and> Klog LogError (''Failed to delete IP addresses by IPAM driver: '' @ e1)
              \<in> set (trace (snd (snd (CmdAdd ext s request \<sigma>))))"
  proof
    assume "ExecIPAMDelete ext (cfg_CniCmdArgs cniConfig)
          (ipam_Type (nc_IPAM (cfg_NetworkConfig cniConfig))) (world \<sigma>2) = (Some e1, w1)"
    then have "ExecIPAMDelete ext (cfg_CniCmdArgs cniConfig)
          (ipam_Type (nc_IPAM (cfg_NetworkConfig cniConfig))) (world ?\<sigma>5) = (Some e1, w1)"
      by simp
    from CmdDel_locked_ipam_fails [OF this, of s]
    show "ifaceStore (snd (snd (CmdAdd ext s request \<sigma>))) = ifaceStore \<sigma>2
          \<and> world (snd (snd (CmdAdd ext s request \<sigma>))) = w1
          \<and> Klog LogError (''Failed to delete IP addresses by IPAM driver: '' @ e1)
              \<in> set (trace (snd (snd (CmdAdd ext s request \<sigma>))))"
      by (simp add: fin)
  qed
  show ?thesis
    by (rule conjI [OF a conjI [OF b conjI [OF c conjI [OF d conjI [OF e f]]]]])
qed

text \<open>
  The theorem on the example node, where the interface configuration fails at the flow
  install after the IPAM driver has allocated an address and the OVS port and the store
  entry exist, and the rollback's IPAM delete and interface removal succeed: the response
  is the configuration failure, and afterwards the store is empty and nothing is left on
  the node.
\<close>

theorem CmdAdd_failure_rolls_back_through_CmdDel_witness:
  "checkRequestMessage (testExternals False True False []) testServer testRequest
     = (testRequest1, Inr testConfig, [])
   \<and> fst (CmdAdd (testExternals False True False []) testServer testRequest emptyAgent)
     = (\<lparr>resp_CniResult = [],
         resp_Error = Some \<lparr>cni_Code = CONFIG_INTERFACE_FAILURE,
                            cni_Message = ''failed to install flows''\<rparr>\<rparr>, None)
   \<and> ifaceStore (snd (snd (CmdAdd (testExternals False True False []) testServer testRequest
        emptyAgent))) = []
   \<and> world (snd (snd (CmdAdd (testExternals False True False []) testServer testRequest
        emptyAgent)))
     = \<lparr>ipamAllocated = False, ovsPortExists = False, flowsInstalled = False\<rparr>"
proof -
  let ?ext = "testExternals False True False []"
  let ?\<sigma>1 = "emit (LockContainer (ContainerId (cfg_CniCmdArgs testConfig))) (emits [] emptyAgent)"
  let ?\<sigma>2 = "?\<sigma>1\<lparr>ifaceStore := AddInterface (testInterfaceConfig ''test-1'' ''t1'' ''dummy-0'')
                              (ifaceStore ?\<sigma>1),
               world := (world ?\<sigma>1)\<lparr>ipamAllocated := True, ovsPortExists := True\<rparr>,
               trace := trace ?\<sigma>1 @
                 [CallExecIPAMAdd (cfg_CniCmdArgs testConfig) ''host-local'',
                  CallConfigureInterface ''test-1'' ''t1'' ''dummy-0'' ''/ns/1'' ''eth0'' 1500,
                  Klog LogError
                    ''Failed to configure container dummy-0 interface: failed to install flows'']\<rparr>"
  have v: "checkRequestMessage ?ext testServer testRequest = (testRequest1, Inr testConfig, [])"
    by (rule test_checkRequestMessage')
  have f: "CmdAdd_locked ?ext testServer testConfig ?\<sigma>1
      = (configInterfaceFailureResponse ''failed to install flows'', False, ?\<sigma>2)"
    by (rule test_CmdAdd_locked_flows_fail)
  note t = CmdAdd_failure_rolls_back_through_CmdDel [OF v f,
      where ?w1.0 = "\<lparr>ipamAllocated = False, ovsPortExists = True, flowsInstalled = False\<rparr>"
        and ?err2.0 = None and ?st2.0 = "[]"
        and ?w2.0 = "\<lparr>ipamAllocated = False, ovsPortExists = False, flowsInstalled = False\<rparr>"]
  have i: "ExecIPAMDelete ?ext (cfg_CniCmdArgs testConfig)
          (ipam_Type (nc_IPAM (cfg_NetworkConfig testConfig))) (world ?\<sigma>2)
      = (None, \<lparr>ipamAllocated = False, ovsPortExists = True, flowsInstalled = False\<rparr>)"
    by (simp add: testExternals_def emptyAgent_def cleanNode_def emit_def)
  have r: "removeInterfaces ?ext (K8S_POD_NAME (cfg_k8sArgs testConfig))
            (K8S_POD_NAMESPACE (cfg_k8sArgs testConfig)) (ContainerId (cfg_CniCmdArgs testConfig))
            (hostNetNsPath testServer (Netns (cfg_CniCmdArgs testConfig)))
            (Ifname (cfg_CniCmdArgs testConfig))
            (ifaceStore ?\<sigma>2, \<lparr>ipamAllocated = False, ovsPortExists = True, flowsInstalled = False\<rparr>)
      = (None, [], \<lparr>ipamAllocated = False, ovsPortExists = False, flowsInstalled = False\<rparr>)"
    by (simp add: testExternals_def emptyAgent_def emit_def testConfig_def AddInterface_def
        testInterfaceConfig_def)
  from t i r have "fst (CmdAdd ?ext testServer testRequest emptyAgent)
        = (configInterfaceFailureResponse ''failed to install flows'', None)
      \<and> ifaceStore (snd (snd (CmdAdd ?ext testServer testRequest emptyAgent))) = []
      \<and> world (snd (snd (CmdAdd ?ext testServer testRequest emptyAgent)))
        = \<lparr>ipamAllocated = False, ovsPortExists = False, flowsInstalled = False\<rparr>"
    by blast
  with v show ?thesis
    by (simp add: configInterfaceFailureResponse_def generateCNIErrorResponse_def)
qed

text \<open>
  Claim C1 as the specification states it: after a failed ADD no IPAM allocation, OVS port,
  store entry or flows remain. On the example node let the flow install fail and let the
  IPAM driver fail to delete (it is unreachable when the rollback runs). \<open>CmdAdd\<close> answers
  the configuration failure; its rollback stops at the failed IPAM delete, and the address
  stays allocated, the OVS port exists and the store holds the container's record.
\<close>

theorem CmdAdd_rollback_counterexample:
  "fst (CmdAdd (testExternals False True True []) testServer testRequest emptyAgent)
     = (\<lparr>resp_CniResult = [],
         resp_Error = Some \<lparr>cni_Code = CONFIG_INTERFACE_FAILURE,
                            cni_Message = ''failed to install flows''\<rparr>\<rparr>, None)
   \<and> world (snd (snd (CmdAdd (testExternals False True True []) testServer testRequest
        emptyAgent)))
     = \<lparr>ipamAllocated = True, ovsPortExists = True, flowsInstalled = False\<rparr>
   \<and> GetInterface (ifaceStore (snd (snd (CmdAdd (testExternals False True True []) testServer
        testRequest emptyAgent)))) ''test-1-t1''
     = Some (testInterfaceConfig ''test-1'' ''t1'' ''dummy-0'')
   \<and> removals (trace (snd (snd (CmdAdd (testExternals False True True []) testServer
        testRequest emptyAgent)))) = []"
proof -
  let ?ext = "testExternals False True True []"
  let ?\<sigma>1 = "emit (LockContainer (ContainerId (cfg_CniCmdArgs testConfig))) (emits [] emptyAgent)"
  have eq: "CmdAdd ?ext testServer testRequest emptyAgent
      = ((configInterfaceFailureResponse ''failed to install flows'', None),
         snd (CmdDel ?ext testServer testRequest1
                (emit (Klog LogWarning ''CmdAdd has failed, and try to rollback'')
                   (emit (UnlockContainer (ContainerId (cfg_CniCmdArgs testConfig)))
                      (?\<sigma>1\<lparr>ifaceStore := AddInterface (testInterfaceConfig ''test-1'' ''t1'' ''dummy-0'')
                              (ifaceStore ?\<sigma>1),
               world := (world ?\<sigma>1)\<lparr>ipamAllocated := True, ovsPortExists := True\<rparr>,
               trace := trace ?\<sigma>1 @
                 [CallExecIPAMAdd (cfg_CniCmdArgs testConfig) ''host-local'',
                  CallConfigureInterface ''test-1'' ''t1'' ''dummy-0'' ''/ns/1'' ''eth0'' 1500,
                  Klog LogError
                    ''Failed to configure container dummy-0 interface: failed to install flows'']\<rparr>)))))"
    by (rule CmdAdd_failed_eq [OF test_checkRequestMessage' test_CmdAdd_locked_flows_fail])
  show ?thesis
    unfolding eq CmdDel_validated [OF test_checkRequestMessage1] test_CmdDel_locked_ipam_fails
    by (simp add: configInterfaceFailureResponse_def generateCNIErrorResponse_def emit_def
        emptyAgent_def cleanNode_def AddInterface_def GetInterface_def testInterfaceConfig_def)
qed

text \<open>
  The theorem for claim C9 on the example node: the test request names the subnet
  192.168.0.0/16 and the gateway 192.168.0.1, a second request names others; ADD hands the
  same arguments to the IPAM driver for both, with subnet 10.1.2.0/24 and gateway 10.1.2.1.
\<close>

theorem ipam_input_ignores_caller_subnet_and_gateway_witness:
  "ipamInputs (trace (snd (snd (CmdAdd (testExternals False False False []) testServer
      \<lparr>CniArgs = testArgs\<lparr>NetworkConfiguration :=
         Some (testNetworkConfig\<lparr>nc_IPAM := (nc_IPAM testNetworkConfig)
                 \<lparr>ipam_Subnet := ''172.16.0.0/12'', ipam_Gateway := ''172.16.0.1''\<rparr>\<rparr>)\<rparr>\<rparr>
      emptyAgent))))
     = ipamInputs (trace (snd (snd (CmdAdd (testExternals False False False []) testServer
         \<lparr>CniArgs = testArgs\<lparr>NetworkConfiguration := Some testNetworkConfig\<rparr>\<rparr> emptyAgent))))
   \<and> ipamInputs (trace (snd (snd (CmdAdd (testExternals False False False []) testServer
         \<lparr>CniArgs = testArgs\<lparr>NetworkConfiguration := Some testNetworkConfig\<rparr>\<rparr> emptyAgent))))
     = [testArgs\<lparr>NetworkConfiguration :=
          Some (testNetworkConfig\<lparr>nc_IPAM := \<lparr>ipam_Type = ''host-local'',
                  ipam_Subnet = ''10.1.2.0/24'', ipam_Gateway = ''10.1.2.1''\<rparr>\<rparr>)\<rparr>]"
proof -
  let ?ext = "testExternals False False False []"
  have r: "\<lparr>CniArgs = testArgs\<lparr>NetworkConfiguration := Some testNetworkConfig\<rparr>\<rparr> = testRequest"
    by (simp add: testRequest_def testArgs_def)
  have l: "CmdAdd_locked ?ext testServer testConfig \<sigma>
      = (\<lparr>resp_CniResult = ''result'', resp_Error = None\<rparr>, True,
         \<sigma>\<lparr>ifaceStore := AddInterface (testInterfaceConfig ''test-1'' ''t1'' ''dummy-0'') (ifaceStore \<sigma>),
           world := (world \<sigma>)\<lparr>ipamAllocated := True, ovsPortExists := True, flowsInstalled := True\<rparr>,
           trace := trace \<sigma> @
             [CallExecIPAMAdd (cfg_CniCmdArgs testConfig) ''host-local'',
              CallConfigureInterface ''test-1'' ''t1'' ''dummy-0'' ''/ns/1'' ''eth0'' 1500]\<rparr>)" for \<sigma>
    by (simp add: CmdAdd_locked_def testExternals_def testConfig_def testServer_def New_def
        testArgs_def testNetworkConfig1_def testNetworkConfig_def testNodeConfig_def
        hostNetNsPath_def emit_def Let_def)
  have a: "ipamInputs (trace (snd (snd (CmdAdd ?ext testServer testRequest emptyAgent))))
      = [cfg_CniCmdArgs testConfig]"
    by (simp add: CmdAdd_def test_checkRequestMessage' l Let_def emit_def emptyAgent_def
        ipamInputs_append)
  have c: "cfg_CniCmdArgs testConfig
      = testArgs\<lparr>NetworkConfiguration :=
          Some (testNetworkConfig\<lparr>nc_IPAM := \<lparr>ipam_Type = ''host-local'',
                  ipam_Subnet = ''10.1.2.0/24'', ipam_Gateway = ''10.1.2.1''\<rparr>\<rparr>)\<rparr>"
    by (simp add: testConfig_def testNetworkConfig1_def)
  from ipam_input_ignores_caller_subnet_and_gateway
    [where ext = ?ext and s = testServer and args = testArgs and nc = testNetworkConfig
       and subnet = "''172.16.0.0/12''" and gateway = "''172.16.0.1''" and \<sigma> = emptyAgent]
  have "ipamInputs (trace (snd (snd (CmdAdd ?ext testServer
      \<lparr>CniArgs = testArgs\<lparr>NetworkConfiguration :=
         Some (testNetworkConfig\<lparr>nc_IPAM := (nc_IPAM testNetworkConfig)
                 \<lparr>ipam_Subnet := ''172.16.0.0/12'', ipam_Gateway := ''172.16.0.1''\<rparr>\<rparr>)\<rparr>\<rparr>
      emptyAgent))))
     = ipamInputs (trace (snd (snd (CmdAdd ?ext testServer
         \<lparr>CniArgs = testArgs\<lparr>NetworkConfiguration := Some testNetworkConfig\<rparr>\<rparr> emptyAgent))))"
    by blast
  then show ?thesis
    using a c unfolding r by simp
qed

subsection \<open>CHECK\<close>

lemma findInterfaces_container:
  "fst (findInterfaces ifname hostVethName intfs (c, h, logs))
     = (if filter (\<lambda>x. intf_Name x = ifname) intfs = [] then c
        else Some (last (filter (\<lambda>x. intf_Name x = ifname) intfs)))"
  by (induction intfs arbitrary: c h logs) simp_all

lemma findInterfaces_host:
  "fst (snd (findInterfaces ifname hostVethName intfs (c, h, logs)))
     = (if filter (\<lambda>x. intf_Name x \<noteq> ifname \<and> intf_Name x = hostVethName) intfs = [] then h
        else Some (last (filter (\<lambda>x. intf_Name x \<noteq> ifname \<and> intf_Name x = hostVethName) intfs)))"
  by (induction intfs arbitrary: c h logs) simp_all

lemma validatePrevResult_cases:
  fixes ext :: "'w externals"
  defines "hv \<equiv> \<lambda>k. GenerateContainerInterfaceName ext (K8S_POD_NAME k) (K8S_POD_NAMESPACE k)"
  defines "cs \<equiv> \<lambda>a r. filter (\<lambda>x. intf_Name x = Ifname a) (res_Interfaces r)"
  defines "hs \<equiv> \<lambda>a k r. filter (\<lambda>x. intf_Name x \<noteq> Ifname a \<and> intf_Name x = hv k) (res_Interfaces r)"
  shows "fst (validatePrevResult ext s cfgArgs k8sCNIArgs prevResult \<sigma>)
     = (if cs cfgArgs prevResult = [] \<or> hs cfgArgs k8sCNIArgs prevResult = []
        then (invalidNetworkConfigResponse
                ''prevResult does not match network configuration'', None)
        else (case checkInterfaces ext (ifaceStore \<sigma>) (ContainerId cfgArgs)
                     (hostNetNsPath s (Netns cfgArgs)) (last (cs cfgArgs prevResult))
                     (last (hs cfgArgs k8sCNIArgs prevResult)) (hv k8sCNIArgs)
                     prevResult (world \<sigma>) of
                Some e \<Rightarrow> (checkInterfaceFailureResponse e, None)
              | None \<Rightarrow> (emptyResponse, None)))"
proof -
  obtain c h logs where f: "findInterfaces (Ifname cfgArgs) (hv k8sCNIArgs)
      (res_Interfaces prevResult) (None, None, []) = (c, h, logs)"
    by (cases "findInterfaces (Ifname cfgArgs) (hv k8sCNIArgs)
      (res_Interfaces prevResult) (None, None, [])") auto
  from findInterfaces_container
    [of "Ifname cfgArgs" "hv k8sCNIArgs" "res_Interfaces prevResult" None None "[]"] f
  have c: "c = (if cs cfgArgs prevResult = [] then None else Some (last (cs cfgArgs prevResult)))"
    by (simp add: cs_def)
  from findInterfaces_host
    [of "Ifname cfgArgs" "hv k8sCNIArgs" "res_Interfaces prevResult" None None "[]"] f
  have h: "h = (if hs cfgArgs k8sCNIArgs prevResult = [] then None
                else Some (last (hs cfgArgs k8sCNIArgs prevResult)))"
    by (simp add: hs_def)
  have "fst (validatePrevResult ext s cfgArgs k8sCNIArgs prevResult \<sigma>)
     = (case c of
          None \<Rightarrow> (invalidNetworkConfigResponse
                     ''prevResult does not match network configuration'', None)
        | Some cIntf \<Rightarrow>
            (case h of
               None \<Rightarrow> (invalidNetworkConfigResponse
                          ''prevResult does not match network configuration'', None)
             | Some hIntf \<Rightarrow>
                 (case checkInterfaces ext (ifaceStore \<sigma>) (ContainerId cfgArgs)
                         (hostNetNsPath s (Netns cfgArgs)) cIntf hIntf (hv k8sCNIArgs)
                         prevResult (world \<sigma>) of
                    Some e \<Rightarrow> (checkInterfaceFailureResponse e, None)
                  | None \<Rightarrow> (emptyResponse, None))))"
    using f [unfolded hv_def]
    by (simp add: validatePrevResult_def Let_def hv_def emits_def split: option.splits)
  then show ?thesis
    by (simp add: c h)
qed

lemma validatePrevResult_error_nil:
  "snd (fst (validatePrevResult ext s cfgArgs k8sCNIArgs prevResult \<sigma>)) = None"
  using validatePrevResult_cases [of ext s cfgArgs k8sCNIArgs prevResult \<sigma>]
  by (simp split: if_splits option.splits)

lemma CmdCheck_locked_after_validation:
  assumes "ExecIPAMCheck ext (cfg_CniCmdArgs cniConfig)
             (ipam_Type (nc_IPAM (cfg_NetworkConfig cniConfig))) (world \<sigma>) = (None, w1)"
    and "GreaterThanOrEqualTo ext (nc_CNIVersion (cfg_NetworkConfig cniConfig)) ''0.4.0''"
    and "parsePrevResultFromRequest ext (cfg_NetworkConfig cniConfig) = (Inr prevResult, logs)"
  shows "fst (CmdCheck_locked ext s cniConfig \<sigma>) = (emptyResponse, None)"
proof -
  let ?\<sigma>1 = "emits logs (emit (CallExecIPAMCheck (cfg_CniCmdArgs cniConfig)
                   (ipam_Type (nc_IPAM (cfg_NetworkConfig cniConfig)))) (\<sigma>\<lparr>world := w1\<rparr>))"
  obtain response verr \<sigma>2 where v: "validatePrevResult ext s (cfg_CniCmdArgs cniConfig)
      (cfg_k8sArgs cniConfig) prevResult ?\<sigma>1 = ((response, verr), \<sigma>2)"
    by (cases "validatePrevResult ext s (cfg_CniCmdArgs cniConfig)
      (cfg_k8sArgs cniConfig) prevResult ?\<sigma>1") auto
  with validatePrevResult_error_nil
    [of ext s "cfg_CniCmdArgs cniConfig" "cfg_k8sArgs cniConfig" prevResult ?\<sigma>1]
  have "verr = None" by simp
  with assms v show ?thesis
    by (simp add: CmdCheck_locked_def Let_def)
qed

text \<open>
  Claim C4, as the code has it. For a CHECK whose previous result parses,
  \<open>validatePrevResult\<close> answers
  \<^item> \<open>INVALID_NETWORK_CONFIG\<close> when the previous result has no interface named by the
    request's \<open>ifname\<close>, or none (of another name) named by the deterministic host veth
    name;
  \<^item> \<open>CHECK_INTERFACE_FAILURE\<close>, with the error's message, when both are there and
    \<open>checkInterfaces\<close> reports that they disagree with the store or the node;
  \<^item> the empty result when both are there and \<open>checkInterfaces\<close> reports nothing.
  In each case the error it returns beside the response is nil.
\<close>

theorem validatePrevResult_response_codes:
  "((\<forall>x \<in> set (res_Interfaces prevResult). intf_Name x \<noteq> Ifname cfgArgs)
     \<or> (\<forall>x \<in> set (res_Interfaces prevResult).
           intf_Name x = Ifname cfgArgs
           \<or> intf_Name x \<noteq> GenerateContainerInterfaceName ext (K8S_POD_NAME k8sCNIArgs)
                              (K8S_POD_NAMESPACE k8sCNIArgs))
     \<longrightarrow> fst (validatePrevResult ext s cfgArgs k8sCNIArgs prevResult \<sigma>)
          = (\<lparr>resp_CniResult = [],
              resp_Error = Some \<lparr>cni_Code = INVALID_NETWORK_CONFIG,
                cni_Message = ''prevResult does not match network configuration''\<rparr>\<rparr>, None))
   \<and> ((\<exists>x \<in> set (res_Interfaces prevResult). intf_Name x = Ifname cfgArgs)
       \<and> (\<exists>x \<in> set (res_Interfaces prevResult).
             intf_Name x \<noteq> Ifname cfgArgs
             \<and> intf_Name x = GenerateContainerInterfaceName ext (K8S_POD_NAME k8sCNIArgs)
                               (K8S_POD_NAMESPACE k8sCNIArgs))
       \<and> checkInterfaces ext (ifaceStore \<sigma>) (ContainerId cfgArgs)
            (hostNetNsPath s (Netns cfgArgs))
            (last (filter (\<lambda>x. intf_Name x = Ifname cfgArgs) (res_Interfaces prevResult)))
            (last (filter (\<lambda>x. intf_Name x \<noteq> Ifname cfgArgs
                     \<and> intf_Name x = GenerateContainerInterfaceName ext (K8S_POD_NAME k8sCNIArgs)
                                       (K8S_POD_NAMESPACE k8sCNIArgs))
                    (res_Interfaces prevResult)))
            (GenerateContainerInterfaceName ext (K8S_POD_NAME k8sCNIArgs)
               (K8S_POD_NAMESPACE k8sCNIArgs))
            prevResult (world \<sigma>) = res
     \<longrightarrow> fst (validatePrevResult ext s cfgArgs k8sCNIArgs prevResult \<sigma>)
          = (case res of
               Some e \<Rightarrow> (\<lparr>resp_CniResult = [],
                            resp_Error = Some \<lparr>cni_Code = CHECK_INTERFACE_FAILURE,
                                               cni_Message = e\<rparr>\<rparr>, None)
             | None \<Rightarrow> (\<lparr>resp_CniResult = [], resp_Error = None\<rparr>, None)))"
  using validatePrevResult_cases [of ext s cfgArgs k8sCNIArgs prevResult \<sigma>]
  by (auto simp: filter_empty_conv invalidNetworkConfigResponse_def
      checkInterfaceFailureResponse_def generateCNIErrorResponse_def emptyResponse_def
      split: option.splits)

lemma test_checkRequestMessage_check:
  "checkRequestMessage (testExternals a b c pods) testServer (checkRequest p)
     = (\<lparr>CniArgs = cfg_CniCmdArgs (checkConfig p)\<rparr>, Inr (checkConfig p), [])"
  by (simp add: checkRequestMessage_def loadNetworkConfig_def updateLocalIPAMSubnet_def
      testExternals_def testServer_def New_def checkRequest_def checkConfig_def testArgs_def
      testNetworkConfig1_def testNetworkConfig_def testNodeConfig_def isCNIVersionSupported_def
      supportedCNIVersionSet_eq Let_def)

lemma test_parsePrevResult:
  "parsePrevResultFromRequest (testExternals a b c pods) (cfg_NetworkConfig (checkConfig p))
     = (Inr p, [])"
  by (simp add: parsePrevResultFromRequest_def testExternals_def checkConfig_def)

lemma test_CmdCheck:
  "fst (CmdCheck (testExternals a b c pods) testServer (checkRequest p) \<sigma>)
     = (emptyResponse, None)"
proof -
  let ?ext = "testExternals a b c pods"
  let ?\<sigma>1 = "emit (LockContainer (ContainerId (cfg_CniCmdArgs (checkConfig p)))) (emits [] \<sigma>)"
  have i: "ExecIPAMCheck ?ext (cfg_CniCmdArgs (checkConfig p))
             (ipam_Type (nc_IPAM (cfg_NetworkConfig (checkConfig p)))) (world ?\<sigma>1)
           = (None, world ?\<sigma>1)"
    by (simp add: testExternals_def)
  have g: "GreaterThanOrEqualTo ?ext (nc_CNIVersion (cfg_NetworkConfig (checkConfig p))) ''0.4.0''"
    by (simp add: testExternals_def checkConfig_def testNetworkConfig1_def testNetworkConfig_def)
  from CmdCheck_locked_after_validation [OF i g test_parsePrevResult, of testServer]
  show ?thesis
    by (auto simp: CmdCheck_def test_checkRequestMessage_check Let_def split: prod.splits)
qed

text \<open>
  The theorem on the example node with an empty store: the previous result without
  interfaces is answered \<open>INVALID_NETWORK_CONFIG\<close>; the one with both interfaces is
  answered \<open>CHECK_INTERFACE_FAILURE\<close>, since the store has no record of the host interface.
\<close>

theorem validatePrevResult_response_codes_witness:
  "fst (validatePrevResult (testExternals False False False []) testServer testArgs
          (cfg_k8sArgs testConfig) prevResultWithout emptyAgent)
     = (\<lparr>resp_CniResult = [],
         resp_Error = Some \<lparr>cni_Code = INVALID_NETWORK_CONFIG,
           cni_Message = ''prevResult does not match network configuration''\<rparr>\<rparr>, None)
   \<and> fst (validatePrevResult (testExternals False False False []) testServer testArgs
          (cfg_k8sArgs testConfig) prevResultWithBoth emptyAgent)
     = (\<lparr>resp_CniResult = [],
         resp_Error = Some \<lparr>cni_Code = CHECK_INTERFACE_FAILURE,
           cni_Message = ''interface not in store''\<rparr>\<rparr>, None)"
proof (rule conjI)
  show "fst (validatePrevResult (testExternals False False False []) testServer testArgs
          (cfg_k8sArgs testConfig) prevResultWithout emptyAgent)
     = (\<lparr>resp_CniResult = [],
         resp_Error = Some \<lparr>cni_Code = INVALID_NETWORK_CONFIG,
           cni_Message = ''prevResult does not match network configuration''\<rparr>\<rparr>, None)"
    using validatePrevResult_response_codes
      [where ext = "testExternals False False False []" and s = testServer and cfgArgs = testArgs
         and k8sCNIArgs = "cfg_k8sArgs testConfig" and prevResult = prevResultWithout
         and \<sigma> = emptyAgent]
    by (simp add: prevResultWithout_def testIPAMResult_def)
  show "fst (validatePrevResult (testExternals False False False []) testServer testArgs
          (cfg_k8sArgs testConfig) prevResultWithBoth emptyAgent)
     = (\<lparr>resp_CniResult = [],
         resp_Error = Some \<lparr>cni_Code = CHECK_INTERFACE_FAILURE,
           cni_Message = ''interface not in store''\<rparr>\<rparr>, None)"
    using validatePrevResult_response_codes
      [where ext = "testExternals False False False []" and s = testServer and cfgArgs = testArgs
         and k8sCNIArgs = "cfg_k8sArgs testConfig" and prevResult = prevResultWithBoth
         and \<sigma> = emptyAgent and res = "Some ''interface not in store''"]
    by (simp add: prevResultWithBoth_def testIPAMResult_def testArgs_def testConfig_def
        testExternals_def emptyAgent_def GetInterface_def)
qed

text \<open>
  Claim C4 as the specification states it: the response of such a CHECK carries
  \<open>CHECK_INTERFACE_FAILURE\<close> when a named interface is missing from the previous result or
  disagrees with the store. On the example node, at version 0.4.0 and with a previous result
  that parses: for the previous result without interfaces \<open>validatePrevResult\<close> answers
  \<open>INVALID_NETWORK_CONFIG\<close>, and \<open>CmdCheck\<close> responds with the empty result and no error,
  as it does for the previous result whose interfaces the store does not know.
\<close>

theorem CmdCheck_counterexample:
  "GreaterThanOrEqualTo (testExternals False False False []) ''0.4.0'' ''0.4.0''
   \<and> parsePrevResultFromRequest (testExternals False False False [])
         (cfg_NetworkConfig (checkConfig prevResultWithout)) = (Inr prevResultWithout, [])
   \<and> res_Interfaces prevResultWithout = []
   \<and> fst (validatePrevResult (testExternals False False False []) testServer testArgs
          (cfg_k8sArgs testConfig) prevResultWithout emptyAgent)
     = (\<lparr>resp_CniResult = [],
         resp_Error = Some \<lparr>cni_Code = INVALID_NETWORK_CONFIG,
           cni_Message = ''prevResult does not match network configuration''\<rparr>\<rparr>, None)
   \<and> fst (CmdCheck (testExternals False False False []) testServer
            (checkRequest prevResultWithout) emptyAgent)
     = (\<lparr>resp_CniResult = [], resp_Error = None\<rparr>, None)
   \<and> fst (CmdCheck (testExternals False False False []) testServer
            (checkRequest prevResultWithBoth) emptyAgent)
     = (\<lparr>resp_CniResult = [], resp_Error = None\<rparr>, None)"
proof -
  have v: "fst (validatePrevResult (testExternals False False False []) testServer testArgs
          (cfg_k8sArgs testConfig) prevResultWithout emptyAgent)
     = (\<lparr>resp_CniResult = [],
         resp_Error = Some \<lparr>cni_Code = INVALID_NETWORK_CONFIG,
           cni_Message = ''prevResult does not match network configuration''\<rparr>\<rparr>, None)"
    using validatePrevResult_cases
      [of "testExternals False False False []" testServer testArgs "cfg_k8sArgs testConfig"
          prevResultWithout emptyAgent]
    by (simp add: prevResultWithout_def testIPAMResult_def invalidNetworkConfigResponse_def
        generateCNIErrorResponse_def)
  show ?thesis
    by (simp add: v test_CmdCheck test_parsePrevResult emptyResponse_def)
      (simp add: testExternals_def prevResultWithout_def testIPAMResult_def)
qed

subsection \<open>The store entry of a held container\<close>

lemma test_checkRequestMessage_other:
  "checkRequestMessage (testExternals a b c pods) testServer otherRequest
     = (\<lparr>CniArgs = (cfg_CniCmdArgs testConfig)\<lparr>ContainerId := ''other-9''\<rparr>\<rparr>,
        Inr (testConfig\<lparr>cfg_CniCmdArgs := (cfg_CniCmdArgs testConfig)\<lparr>ContainerId := ''other-9''\<rparr>\<rparr>),
        [])"
  by (simp add: checkRequestMessage_def loadNetworkConfig_def updateLocalIPAMSubnet_def
      testExternals_def testServer_def New_def otherRequest_def testArgs_def testConfig_def
      testNetworkConfig1_def testNetworkConfig_def testNodeConfig_def isCNIVersionSupported_def
      supportedCNIVersionSet_eq Let_def)

lemma test_CmdDel_other:
  "CmdDel (testExternals a b False pods) testServer otherRequest attachedAgent
     = ((emptyResponse, None),
        \<lparr>CniArgs = (cfg_CniCmdArgs testConfig)\<lparr>ContainerId := ''other-9''\<rparr>\<rparr>,
        \<lparr>ifaceStore = [],
         world = \<lparr>ipamAllocated = False, ovsPortExists = False, flowsInstalled = False\<rparr>,
         trace = [LockContainer ''other-9'',
                  CallExecIPAMDelete ((cfg_CniCmdArgs testConfig)\<lparr>ContainerId := ''other-9''\<rparr>)
                    ''host-local'',
                  CallRemoveInterfaces ''test-1'' ''t1'' ''other-9'' ''/ns/1'' ''eth0'',
                  UnlockContainer ''other-9'']\<rparr>)"
  by (simp add: CmdDel_def test_checkRequestMessage_other Let_def)
    (simp add: CmdDel_locked_def testExternals_def testConfig_def testServer_def New_def
      testArgs_def testNetworkConfig1_def testNetworkConfig_def testNodeConfig_def
      hostNetNsPath_def emit_def Let_def attachedAgent_def testInterfaceConfig_def)

text \<open>
  Claim C2 as the specification states it: while a handler holds a container id, no other
  handler reads or changes the store's entries for that id. On the node where container
  \<open>dummy-0\<close> of the pod \<open>test-1/t1\<close> is attached, goroutine 0 takes \<open>dummy-0\<close> and, while it
  holds it, goroutine 1 takes \<open>other-9\<close> without waiting. The DEL of goroutine 1, a request
  for container \<open>other-9\<close> of the same pod, locks \<open>other-9\<close> only and removes the entry of
  container \<open>dummy-0\<close> from the store: the entry is found by the pod's name and namespace.
\<close>

theorem store_entry_of_held_container_counterexample:
  "map_option (\<lambda>(s, evs). (goroutines s 0, goroutines s 1, busyContainerIDs s))
       (run newContainerAccessArbitrator [Lock 0 ''dummy-0'', Lock 1 ''other-9''])
     = Some (Holding ''dummy-0'', Holding ''other-9'', {''dummy-0'', ''other-9''})
   \<and> map_option ic_ID (GetInterface (ifaceStore attachedAgent) ''test-1-t1'') = Some ''dummy-0''
   \<and> locks (trace (snd (snd (CmdDel (testExternals False False False []) testServer
        otherRequest attachedAgent)))) = [''other-9'']
   \<and> removals (trace (snd (snd (CmdDel (testExternals False False False []) testServer
        otherRequest attachedAgent)))) = [(''test-1'', ''t1'', ''other-9'')]
   \<and> GetInterface (ifaceStore (snd (snd (CmdDel (testExternals False False False []) testServer
        otherRequest attachedAgent)))) ''test-1-t1'' = None"
proof -
  have r: "map_option (\<lambda>(s, evs). (goroutines s 0, goroutines s 1, busyContainerIDs s))
       (run newContainerAccessArbitrator [Lock 0 ''dummy-0'', Lock 1 ''other-9''])
     = Some (Holding ''dummy-0'', Holding ''other-9'', {''dummy-0'', ''other-9''})"
    by (auto simp: newContainerAccessArbitrator_def step_def lockContainer_test_def)
  have e: "map_option ic_ID (GetInterface (ifaceStore attachedAgent) ''test-1-t1'')
      = Some ''dummy-0''"
    by (simp add: attachedAgent_def GetInterface_def testInterfaceConfig_def)
  show ?thesis
    unfolding test_CmdDel_other
    by (rule conjI [OF r conjI [OF e]]) (simp add: GetInterface_def)
qed

subsection \<open>Startup reconciliation\<close>

lemma reconcile_error_iff:
  "fst (reconcile ext s \<sigma>) \<noteq> None
     \<longleftrightarrow> (\<exists>err. ListPods ext (''spec.nodeName='' @ node_Name (srv_nodeConfig s)) (world \<sigma>)
                  = Inl err)"
  by (simp add: reconcile_def Let_def split: sum.splits prod.splits)

lemma installs_append: "installs (xs @ ys) = installs xs @ installs ys"
  by (induction xs rule: installs.induct) simp_all

lemma removals_append: "removals (xs @ ys) = removals xs @ removals ys"
  by (induction xs rule: removals.induct) simp_all

lemma reconcilePods_store:
  "ifaceStore (snd (reconcilePods ext s pods (desired, \<sigma>))) = ifaceStore \<sigma>"
proof (induction pods arbitrary: desired \<sigma>)
  case Nil
  then show ?case by simp
next
  case (Cons pod pods)
  show ?case
    by (simp add: Cons.IH Let_def split: option.splits prod.splits)
qed

lemma reconcilePods_installs:
  "installs (trace (snd (reconcilePods ext s pods (desired, \<sigma>))))
     = installs (trace \<sigma>) @
       List.map_filter
         (\<lambda>pod. if pod_HostNetwork pod then None
                else map_option ic_IfaceName
                       (GetContainerInterface (ifaceStore \<sigma>) (pod_Name pod) (pod_Namespace pod)))
         pods"
proof (induction pods arbitrary: desired \<sigma>)
  case Nil
  then show ?case by (simp add: List.map_filter_simps)
next
  case (Cons pod pods)
  show ?case
    by (simp add: Cons.IH Let_def List.map_filter_simps installs_append
        split: option.splits prod.splits cong del: if_weak_cong)
qed

lemma startup_desired:
  "reconcilePods (testExternals a b c pods) testServer startupPods ({}, startupAgent)
     = ({''test-1-t1''},
        startupAgent\<lparr>trace :=
          [CallInstallPodFlows ''broken-test'' ''10.1.2.100'' ''aa:bb:cc:dd:ee:ff''
             ''11:11:11:11:11:11'' 10,
           Klog LogError ''Error when re-installing flows for Pod test/broken'',
           CallInstallPodFlows ''test-1-t1'' ''10.1.2.100'' ''aa:bb:cc:dd:ee:ff''
             ''11:11:11:11:11:11'' 10,
           Klog LogWarning ''Interface for Pod test/new not found in the interface store'']\<rparr>)"
  by (simp add: startupPods_def startupAgent_def startupStore_def GetContainerInterface_def
      testInterfaceConfig_def testExternals_def testServer_def New_def testNodeConfig_def
      emit_def Let_def cleanNode_def)

text \<open>
  Claim C8 at a pod whose flows cannot be re-installed. On the example node at startup
  \<open>reconcile\<close> returns no error, tries the flows of both pods that have a record, and then
  calls \<open>removeInterfaces\<close> for two interfaces: that of the pod \<open>ghost/test\<close>, which is
  gone, and that of the pod \<open>broken/test\<close>, which is listed for the node and whose flow
  re-install failed. Only the interface of \<open>test-1/t1\<close> and the gateway's stay in the store.
\<close>

theorem reconcile_detaches_listed_pod_after_flow_error:
  "ListPods (testExternals False False False startupPods)
       (''spec.nodeName='' @ node_Name (srv_nodeConfig testServer)) (world startupAgent)
     = Inr startupPods
   \<and> fst (reconcile (testExternals False False False startupPods) testServer startupAgent) = None
   \<and> installs (trace (snd (reconcile (testExternals False False False startupPods) testServer
        startupAgent)))
     = [''broken-test'', ''test-1-t1'']
   \<and> removals (trace (snd (reconcile (testExternals False False False startupPods) testServer
        startupAgent)))
     = [(''broken'', ''test'', ''c-broken''), (''ghost'', ''test'', ''c-ghost'')]
   \<and> GetInterfaceIDs (ifaceStore (snd (reconcile (testExternals False False False startupPods)
        testServer startupAgent)))
     = [''test-1-t1'', ''gw0'']"
proof -
  let ?ext = "testExternals False False False startupPods"
  have l: "ListPods ?ext selector w = Inr startupPods" for selector w
    by (simp add: testExternals_def)
  have k: "GetInterfaceIDs (ifaceStore startupAgent)
      = [''broken-test'', ''test-1-t1'', ''ghost-test'', ''gw0'']"
    by (simp add: GetInterfaceIDs_def startupAgent_def startupStore_def)
  have r: "reconcile ?ext testServer startupAgent
      = (None, reconcileInterfaces ?ext {''test-1-t1''}
                 [''broken-test'', ''test-1-t1'', ''ghost-test'', ''gw0'']
                 (snd (reconcilePods ?ext testServer startupPods ({}, startupAgent))))"
    by (simp add: reconcile_def l k startup_desired Let_def)
  show ?thesis
    unfolding r startup_desired
    by (simp add: l)
      (simp add: startupAgent_def startupStore_def GetInterface_def GetInterfaceIDs_def
        testInterfaceConfig_def testExternals_def emit_def Let_def cleanNode_def)
qed

end
